theory Spec2Isabelle
  imports Main
begin

section \<open>Time and durations\<close>

text \<open>
  A \<^verbatim>\<open>time.Time\<close> is an instant, counted here in nanoseconds from Go's zero
  time (January 1, year 1, 00:00 UTC), so that \<^verbatim>\<open>IsZero\<close> is the test for 0.
  A \<^verbatim>\<open>time.Duration\<close> is an int64 count of nanoseconds. The source multiplies
  durations itself (\<^verbatim>\<open>time.Duration(ttlSeconds) * time.Second\<close>), an int64
  multiplication that wraps around silently in Go; \<open>int64\<close> writes that wrap-around out.
  \<^verbatim>\<open>Time.Sub\<close> is documented to saturate at the largest and smallest duration.
\<close>

type_synonym Time = int
type_synonym Duration = int

definition int64 :: "int \<Rightarrow> int" where
  "int64 k = signed_take_bit 63 k"

definition Second :: Duration where
  "Second = 1000000000"

definition maxDuration :: Duration where
  "maxDuration = 2 ^ 63 - 1"

definition minDuration :: Duration where
  "minDuration = - (2 ^ 63)"

text \<open>\<^verbatim>\<open>time.Duration(n) * time.Second\<close>, for n of Go type int (64 bits).\<close>

definition Duration_Seconds :: "int \<Rightarrow> Duration" where
  "Duration_Seconds n = int64 (int64 n * Second)"

definition Time_IsZero :: "Time \<Rightarrow> bool" where
  "Time_IsZero t = (t = 0)"

definition Time_Add :: "Time \<Rightarrow> Duration \<Rightarrow> Time" where
  "Time_Add t d = t + d"

definition Time_Sub :: "Time \<Rightarrow> Time \<Rightarrow> Duration" where
  "Time_Sub t u =
     (if t - u > maxDuration then maxDuration
      else if t - u < minDuration then minDuration
      else t - u)"

definition Time_After :: "Time \<Rightarrow> Time \<Rightarrow> bool" where
  "Time_After t u = (u < t)"

definition Time_Before :: "Time \<Rightarrow> Time \<Rightarrow> bool" where
  "Time_Before t u = (t < u)"

section \<open>API objects (api/v1alpha1/ttlresource\_types.go and the metadata they embed)\<close>

record OwnerReference =
  ownerAPIVersion :: string
  ownerKind :: string
  ownerName :: string
  ownerUID :: string

record ObjectMeta =
  Name :: string
  Namespace :: string
  UID :: string
  ResourceVersion :: nat
  CreationTimestamp :: Time
  DeletionTimestamp :: "Time option"
  Labels :: "string \<rightharpoonup> string"
  Annotations :: "string \<rightharpoonup> string"
  OwnerReferences :: "OwnerReference list"

record TTLResourceSpec =
  TTLSeconds :: int

record TTLResourceStatus =
  Expired :: bool
  CreatedAt :: Time
  ExpiredAt :: "Time option"

record TTLResource =
  Meta :: ObjectMeta
  Spec :: TTLResourceSpec
  Status :: TTLResourceStatus

text \<open>The zero value \<^verbatim>\<open>ttlv1alpha1.TTLResourceStatus{}\<close>.\<close>

definition TTLResourceStatus_zero :: TTLResourceStatus where
  "TTLResourceStatus_zero = \<lparr>Expired = False, CreatedAt = 0, ExpiredAt = None\<rparr>"

text \<open>\<^verbatim>\<open>client.ObjectKey\<close> / \<^verbatim>\<open>types.NamespacedName\<close>: (namespace, name).\<close>

type_synonym NamespacedName = "string \<times> string"

definition keyOf :: "TTLResource \<Rightarrow> NamespacedName" where
  "keyOf t = (Namespace (Meta t), Name (Meta t))"

text \<open>\<^verbatim>\<open>ctrl.Result\<close>.\<close>

record Result =
  Requeue :: bool
  RequeueAfter :: Duration

definition Result_zero :: Result where
  "Result_zero = \<lparr>Requeue = False, RequeueAfter = 0\<rparr>"

section \<open>The object store client\<close>

text \<open>
  The reconcilers talk to the API server through \<^verbatim>\<open>client.Client\<close>. The errors
  they tell apart are NotFound, Conflict and AlreadyExists; every other failure is
  \<open>OtherError\<close>.
\<close>

datatype api_error = NotFound | Conflict | AlreadyExists | OtherError

datatype kind = KindTTLResource | KindPod | KindService | KindDeployment

text \<open>
  The client is a parameter of the model: a record of operations on a world \<open>'w\<close> that
  the reconcilers never inspect. Every theorem below holds for every client, whatever
  it answers. A successful write answers the new resource version, which the Go client
  stores back into the object it was handed; a read of a Pod, a Service or a Deployment
  answers its metadata, the only part the reconcilers use.
\<close>

record 'w Client =
  client_Get :: "NamespacedName \<Rightarrow> 'w \<Rightarrow> (api_error + TTLResource) \<times> 'w"
  client_GetObject :: "kind \<Rightarrow> NamespacedName \<Rightarrow> 'w \<Rightarrow> (api_error + ObjectMeta) \<times> 'w"
  client_StatusUpdate :: "TTLResource \<Rightarrow> 'w \<Rightarrow> (api_error + nat) \<times> 'w"
  client_Update :: "TTLResource \<Rightarrow> 'w \<Rightarrow> (api_error + nat) \<times> 'w"
  client_Create :: "TTLResource \<Rightarrow> 'w \<Rightarrow> api_error option \<times> 'w"
  client_Delete :: "kind \<Rightarrow> NamespacedName \<Rightarrow> 'w \<Rightarrow> api_error option \<times> 'w"

text \<open>
  The requests a reconciliation issues are recorded in order, each with its outcome
  (\<open>None\<close> is success), next to the world: the trace is what the theorems speak about.
\<close>

datatype call =
    CallGet kind NamespacedName
  | CallStatusUpdate TTLResource
  | CallUpdate TTLResource
  | CallCreate TTLResource
  | CallDelete kind NamespacedName

type_synonym event = "call \<times> api_error option"
type_synonym 'w state = "'w \<times> event list"

definition errorOf :: "api_error + 'a \<Rightarrow> api_error option" where
  "errorOf r = (case r of Inl e \<Rightarrow> Some e | Inr _ \<Rightarrow> None)"

definition setResourceVersion :: "TTLResource \<Rightarrow> nat \<Rightarrow> TTLResource" where
  "setResourceVersion t rv = t\<lparr>Meta := (Meta t)\<lparr>ResourceVersion := rv\<rparr>\<rparr>"

text \<open>\<^verbatim>\<open>r.Get(ctx, key, &ttlResource)\<close>\<close>

definition r_Get :: "'w Client \<Rightarrow> NamespacedName \<Rightarrow> 'w state \<Rightarrow> (api_error + TTLResource) \<times> 'w state" where
  "r_Get r key s =
     (case client_Get r key (fst s) of
        (res, w) \<Rightarrow> (res, (w, snd s @ [(CallGet KindTTLResource key, errorOf res)])))"

text \<open>\<^verbatim>\<open>r.Get(ctx, key, pod)\<close>, and the same for a Service and a Deployment.\<close>

definition r_GetObject :: "'w Client \<Rightarrow> kind \<Rightarrow> NamespacedName \<Rightarrow> 'w state \<Rightarrow> (api_error + ObjectMeta) \<times> 'w state" where
  "r_GetObject r k key s =
     (case client_GetObject r k key (fst s) of
        (res, w) \<Rightarrow> (res, (w, snd s @ [(CallGet k key, errorOf res)])))"

text \<open>
  \<^verbatim>\<open>r.Status().Update(ctx, obj)\<close>: on success the object carries the new version.
  The Go client decodes the server's reply into \<^verbatim>\<open>obj\<close>; here the reply is taken to
  be the object sent, under the new resource version. The server answers so when the
  instants written are whole seconds, since it stores a \<^verbatim>\<open>metav1.Time\<close> to the second:
  creation timestamps read from the server are whole seconds, and with them \<open>createdAt\<close>
  and every \<open>expiredAt\<close> computed from a TTL of up to 9223372036 seconds either way. An
  instant with a fraction of a second, as the wrapped duration of a TTL outside that range
  can give, comes back cut to the second, and the code goes on with the instant so cut
  where this definition goes on with the instant sent: the request sent is the same, and
  what follows the write is computed from an instant less than a second earlier.
\<close>

definition r_StatusUpdate :: "'w Client \<Rightarrow> TTLResource \<Rightarrow> 'w state \<Rightarrow> (api_error + TTLResource) \<times> 'w state" where
  "r_StatusUpdate r obj s =
     (case client_StatusUpdate r obj (fst s) of
        (res, w) \<Rightarrow>
          (case res of Inl e \<Rightarrow> Inl e | Inr rv \<Rightarrow> Inr (setResourceVersion obj rv),
           (w, snd s @ [(CallStatusUpdate obj, errorOf res)])))"

text \<open>\<^verbatim>\<open>r.Update(ctx, obj)\<close>\<close>

definition r_Update :: "'w Client \<Rightarrow> TTLResource \<Rightarrow> 'w state \<Rightarrow> (api_error + TTLResource) \<times> 'w state" where
  "r_Update r obj s =
     (case client_Update r obj (fst s) of
        (res, w) \<Rightarrow>
          (case res of Inl e \<Rightarrow> Inl e | Inr rv \<Rightarrow> Inr (setResourceVersion obj rv),
           (w, snd s @ [(CallUpdate obj, errorOf res)])))"

text \<open>\<^verbatim>\<open>r.Create(ctx, obj)\<close>\<close>

definition r_Create :: "'w Client \<Rightarrow> TTLResource \<Rightarrow> 'w state \<Rightarrow> api_error option \<times> 'w state" where
  "r_Create r obj s =
     (case client_Create r obj (fst s) of
        (res, w) \<Rightarrow> (res, (w, snd s @ [(CallCreate obj, res)])))"

text \<open>\<^verbatim>\<open>r.Delete(ctx, obj)\<close>: the request names the object by kind, namespace and name.\<close>

definition r_Delete :: "'w Client \<Rightarrow> kind \<Rightarrow> NamespacedName \<Rightarrow> 'w state \<Rightarrow> api_error option \<times> 'w state" where
  "r_Delete r k key s =
     (case client_Delete r k key (fst s) of
        (res, w) \<Rightarrow> (res, (w, snd s @ [(CallDelete k key, res)])))"

section \<open>TTLResourceReconciler (internal/controller/ttlresource\_controller.go)\<close>

text \<open>
  Steps 4 and 5, lines 97-115, which follow step 3 whether or not it had to compute
  \<^verbatim>\<open>ExpiredAt\<close>: \<open>expiredAt\<close> is the instant \<^verbatim>\<open>ttlResource.Status.ExpiredAt\<close> points
  to. A record not yet marked expired whose expiry instant lies strictly before \<open>now\<close>
  is marked expired and deleted; any other record asks to be reconciled again after
  \<^verbatim>\<open>ExpiredAt.Sub(now)\<close>.
\<close>

definition expireOrRequeue ::
  "'w Client \<Rightarrow> TTLResource \<Rightarrow> Time \<Rightarrow> Time \<Rightarrow> 'w state \<Rightarrow> (Result \<times> api_error option) \<times> 'w state" where
  "expireOrRequeue r ttlResource expiredAt now s =
     (if \<not> Expired (Status ttlResource) \<and> Time_After now expiredAt then
        (let ttlResource = ttlResource\<lparr>Status := (Status ttlResource)\<lparr>Expired := True\<rparr>\<rparr>
         in case r_StatusUpdate r ttlResource s of
              (Inl err, s1) \<Rightarrow> ((Result_zero, Some err), s1)
            | (Inr ttlResource, s1) \<Rightarrow>
                (case r_Delete r KindTTLResource (keyOf ttlResource) s1 of
                   (Some err, s2) \<Rightarrow> ((Result_zero, Some err), s2)
                 | (None, s2) \<Rightarrow> ((Result_zero, None), s2)))
      else
        ((Result_zero\<lparr>RequeueAfter := Time_Sub expiredAt now\<rparr>, None), s))"

text \<open>
  \<^verbatim>\<open>Reconcile\<close>, lines 61-116. \<open>now\<close> is the reading of \<^verbatim>\<open>metav1.Now()\<close> at line 72.
\<close>

definition TTLResourceReconciler_Reconcile ::
  "'w Client \<Rightarrow> NamespacedName \<Rightarrow> Time \<Rightarrow> 'w state \<Rightarrow> (Result \<times> api_error option) \<times> 'w state" where
  "TTLResourceReconciler_Reconcile r req now s =
     (case r_Get r req s of
        (Inl err, s1) \<Rightarrow>
          if err = NotFound then ((Result_zero, None), s1) else ((Result_zero, Some err), s1)
      | (Inr ttlResource, s1) \<Rightarrow>
          if TTLSeconds (Spec ttlResource) = 0 then ((Result_zero, None), s1)
          else if Time_IsZero (CreatedAt (Status ttlResource)) then
            (let ttlResource = ttlResource\<lparr>Status := (Status ttlResource)
                   \<lparr>CreatedAt := CreationTimestamp (Meta ttlResource)\<rparr>\<rparr>
             in case r_StatusUpdate r ttlResource s1 of
                  (Inl err, s2) \<Rightarrow> ((Result_zero, Some err), s2)
                | (Inr _, s2) \<Rightarrow> ((Result_zero\<lparr>Requeue := True\<rparr>, None), s2))
          else
            (case ExpiredAt (Status ttlResource) of
               None \<Rightarrow>
                 (let expireTime = Time_Add (CreatedAt (Status ttlResource))
                                     (Duration_Seconds (TTLSeconds (Spec ttlResource)));
                      ttlResource = ttlResource\<lparr>Status := (Status ttlResource)
                                     \<lparr>ExpiredAt := Some expireTime\<rparr>\<rparr>
                  in case r_StatusUpdate r ttlResource s1 of
                       (Inl err, s2) \<Rightarrow> ((Result_zero, Some err), s2)
                     | (Inr ttlResource, s2) \<Rightarrow> expireOrRequeue r ttlResource expireTime now s2)
             | Some expiredAt \<Rightarrow> expireOrRequeue r ttlResource expiredAt now s1))"

section \<open>ResourceReconciler (internal/controller/resource\_controller.go)\<close>

definition TTLAnnotationKey :: string where
  "TTLAnnotationKey = ''ttl.example.com/ttl-seconds''"

definition TTLResourceLabelKey :: string where
  "TTLResourceLabelKey = ''ttl.example.com/managed-by''"

definition TTLResourceLabelValue :: string where
  "TTLResourceLabelValue = ''resource-controller''"

subsection \<open>deleteOwnerResource, lines 441-477\<close>

text \<open>
  \<^verbatim>\<open>schema.ParseGroupVersion\<close>: the empty string and "/" give the empty group and
  version, a string without a slash is a version of the core group, one slash separates
  group and version, and more than one slash is an error.
\<close>

definition ParseGroupVersion :: "string \<Rightarrow> (string \<times> string) option" where
  "ParseGroupVersion gv =
     (if gv = [] \<or> gv = ''/'' then Some ([], [])
      else if count_list gv (CHR ''/'') = 0 then Some ([], gv)
      else if count_list gv (CHR ''/'') = 1 then
        Some (takeWhile (\<lambda>c. c \<noteq> CHR ''/'') gv, tl (dropWhile (\<lambda>c. c \<noteq> CHR ''/'') gv))
      else None)"

text \<open>The errors \<^verbatim>\<open>deleteOwnerResource\<close> builds with \<^verbatim>\<open>fmt.Errorf\<close>.\<close>

datatype owner_error =
    InvalidAPIVersion
  | UnsupportedResourceType string string string
  | FailedToDeleteOwner api_error

text \<open>The \<^verbatim>\<open>switch gvk\<close> of lines 454-463: the kinds the resolver knows.\<close>

definition resolveKind :: "string \<Rightarrow> string \<Rightarrow> string \<Rightarrow> kind option" where
  "resolveKind g v k =
     (if g = [] \<and> v = ''v1'' \<and> k = ''Pod'' then Some KindPod
      else if g = [] \<and> v = ''v1'' \<and> k = ''Service'' then Some KindService
      else if g = ''apps'' \<and> v = ''v1'' \<and> k = ''Deployment'' then Some KindDeployment
      else None)"

definition deleteOwnerResource ::
  "'w Client \<Rightarrow> OwnerReference \<Rightarrow> string \<Rightarrow> 'w state \<Rightarrow> owner_error option \<times> 'w state" where
  "deleteOwnerResource r ownerRef namespace s =
     (case ParseGroupVersion (ownerAPIVersion ownerRef) of
        None \<Rightarrow> (Some InvalidAPIVersion, s)
      | Some (g, v) \<Rightarrow>
          (case resolveKind g v (ownerKind ownerRef) of
             None \<Rightarrow> (Some (UnsupportedResourceType g v (ownerKind ownerRef)), s)
           | Some k \<Rightarrow>
               (case r_Delete r k (namespace, ownerName ownerRef) s of
                  (Some err, s1) \<Rightarrow>
                    if err = NotFound then (None, s1) else (Some (FailedToDeleteOwner err), s1)
                | (None, s1) \<Rightarrow> (None, s1))))"

subsection \<open>deleteExpiredResources, lines 413-438\<close>

text \<open>The owner's deletion may fail: the failure is logged and the record is deleted all the same.\<close>

definition deleteExpiredResources ::
  "'w Client \<Rightarrow> TTLResource \<Rightarrow> 'w state \<Rightarrow> (Result \<times> api_error option) \<times> 'w state" where
  "deleteExpiredResources r ttlResource s =
     (let s1 = (case OwnerReferences (Meta ttlResource) of
                  [] \<Rightarrow> s
                | ownerRef # _ \<Rightarrow> snd (deleteOwnerResource r ownerRef (Namespace (Meta ttlResource)) s))
      in case r_Delete r KindTTLResource (keyOf ttlResource) s1 of
           (Some err, s2) \<Rightarrow>
             if err = NotFound then ((Result_zero, None), s2) else ((Result_zero, Some err), s2)
         | (None, s2) \<Rightarrow> ((Result_zero, None), s2))"

subsection \<open>reconcileTTLResource, lines 241-410\<close>

text \<open>
  The two status initialisations, written twice in the source: on the object handed in
  (lines 255-258 and 261-265, where they also set \<^verbatim>\<open>needsUpdate\<close>) and on the
  re-read object (lines 292-294 and 295-298). The flag says whether the field was set.
\<close>

definition initCreatedAt :: "TTLResource \<Rightarrow> TTLResource \<times> bool" where
  "initCreatedAt t =
     (if Time_IsZero (CreatedAt (Status t))
      then (t\<lparr>Status := (Status t)\<lparr>CreatedAt := CreationTimestamp (Meta t)\<rparr>\<rparr>, True)
      else (t, False))"

definition initExpiredAt :: "TTLResource \<Rightarrow> TTLResource \<times> bool" where
  "initExpiredAt t =
     (if ExpiredAt (Status t) = None \<and> \<not> Time_IsZero (CreatedAt (Status t))
      then (t\<lparr>Status := (Status t)\<lparr>ExpiredAt :=
              Some (Time_Add (CreatedAt (Status t)) (Duration_Seconds (TTLSeconds (Spec t))))\<rparr>\<rparr>, True)
      else (t, False))"

text \<open>Both initialisations in a row, as lines 292-298 apply them to the re-read object.\<close>

definition initStatus :: "TTLResource \<Rightarrow> TTLResource" where
  "initStatus t = fst (initExpiredAt (fst (initCreatedAt t)))"

text \<open>
  Lines 248-321: the status is initialised on the object handed in; when that changed
  anything, the record is read again, initialised the same way and written. The part
  either returns early (\<open>Inl\<close>) or hands \<^verbatim>\<open>currentTTLResource\<close> and the clock
  reading to use to the expiry check. \<open>now\<close> is the reading of \<^verbatim>\<open>metav1.Now()\<close>
  at line 242 and \<open>now'\<close> the one at line 317, taken after a successful write.
\<close>

definition updateStatusIfNeeded ::
  "'w Client \<Rightarrow> TTLResource \<Rightarrow> Time \<Rightarrow> Time \<Rightarrow> 'w state \<Rightarrow>
     ((Result \<times> api_error option) + (TTLResource \<times> Time)) \<times> 'w state" where
  "updateStatusIfNeeded r ttlResource now now' s =
     (let (ttlResource, needsCreatedAt) = initCreatedAt ttlResource;
          (ttlResource, needsExpiredAt) = initExpiredAt ttlResource;
          needsUpdate = (needsCreatedAt \<or> needsExpiredAt)
      in if needsUpdate then
           (case r_Get r (keyOf ttlResource) s of
              (Inl err, s1) \<Rightarrow>
                if err = NotFound then (Inl (Result_zero, None), s1)
                else (Inl (Result_zero, Some err), s1)
            | (Inr latestTTLResource, s1) \<Rightarrow>
                if UID (Meta ttlResource) \<noteq> UID (Meta latestTTLResource)
                then (Inl (Result_zero, None), s1)
                else
                  (let latestTTLResource = initStatus latestTTLResource
                   in case r_StatusUpdate r latestTTLResource s1 of
                        (Inl err, s2) \<Rightarrow>
                          if err = Conflict
                          then (Inl (Result_zero\<lparr>RequeueAfter := Second\<rparr>, None), s2)
                          else if err = NotFound then (Inl (Result_zero, None), s2)
                          else (Inl (Result_zero, Some err), s2)
                      | (Inr latestTTLResource, s2) \<Rightarrow> (Inr (latestTTLResource, now'), s2)))
         else (Inr (ttlResource, now), s))"

text \<open>
  Lines 323-409: a record already marked expired is read again and deleted (lines
  324-348); one whose expiry instant has come is read again, marked expired and deleted
  (lines 351-401); one not yet due asks to be reconciled again at its expiry instant
  (lines 403-405).
\<close>

definition checkExpiry ::
  "'w Client \<Rightarrow> TTLResource \<Rightarrow> Time \<Rightarrow> 'w state \<Rightarrow> (Result \<times> api_error option) \<times> 'w state" where
  "checkExpiry r currentTTLResource now s =
     (if Expired (Status currentTTLResource) then
        (case r_Get r (keyOf currentTTLResource) s of
           (Inl err, s1) \<Rightarrow>
             if err = NotFound then ((Result_zero, None), s1)
             else ((Result_zero, Some err), s1)
         | (Inr latestTTLResource, s1) \<Rightarrow>
             if UID (Meta currentTTLResource) \<noteq> UID (Meta latestTTLResource)
             then ((Result_zero, None), s1)
             else deleteExpiredResources r latestTTLResource s1)
      else
        (case ExpiredAt (Status currentTTLResource) of
           None \<Rightarrow> ((Result_zero, None), s)
         | Some expiredAt \<Rightarrow>
             if \<not> Time_Before now expiredAt then
               (case r_Get r (keyOf currentTTLResource) s of
                  (Inl err, s1) \<Rightarrow>
                    if err = NotFound then ((Result_zero, None), s1)
                    else ((Result_zero, Some err), s1)
                | (Inr latestTTLResource, s1) \<Rightarrow>
                    if UID (Meta currentTTLResource) \<noteq> UID (Meta latestTTLResource)
                    then ((Result_zero, None), s1)
                    else if \<not> Expired (Status latestTTLResource) then
                      (let latestTTLResource = latestTTLResource
                             \<lparr>Status := (Status latestTTLResource)\<lparr>Expired := True\<rparr>\<rparr>
                       in case r_StatusUpdate r latestTTLResource s1 of
                            (Inl err, s2) \<Rightarrow>
                              if err = Conflict
                              then ((Result_zero\<lparr>RequeueAfter := Second\<rparr>, None), s2)
                              else if err = NotFound then ((Result_zero, None), s2)
                              else ((Result_zero, Some err), s2)
                          | (Inr latestTTLResource, s2) \<Rightarrow>
                              deleteExpiredResources r latestTTLResource s2)
                    else deleteExpiredResources r latestTTLResource s1)
             else
               ((Result_zero\<lparr>RequeueAfter := Time_Sub expiredAt now\<rparr>, None), s)))"

definition reconcileTTLResource ::
  "'w Client \<Rightarrow> TTLResource \<Rightarrow> Time \<Rightarrow> Time \<Rightarrow> 'w state \<Rightarrow> (Result \<times> api_error option) \<times> 'w state" where
  "reconcileTTLResource r ttlResource now now' s =
     (if TTLSeconds (Spec ttlResource) = 0 then ((Result_zero, None), s)
      else
        (case updateStatusIfNeeded r ttlResource now now' s of
           (Inl ret, s1) \<Rightarrow> (ret, s1)
         | (Inr (currentTTLResource, now), s1) \<Rightarrow> checkExpiry r currentTTLResource now s1))"

subsection \<open>cleanupTTLResource, lines 211-238\<close>

text \<open>A label missing from a Go map reads as the empty string.\<close>

definition labelOf :: "ObjectMeta \<Rightarrow> string \<Rightarrow> string" where
  "labelOf m k = (case Labels m k of None \<Rightarrow> [] | Some v \<Rightarrow> v)"

definition cleanupTTLResource ::
  "'w Client \<Rightarrow> NamespacedName \<Rightarrow> 'w state \<Rightarrow> (Result \<times> api_error option) \<times> 'w state" where
  "cleanupTTLResource r namespacedName s =
     (let ttlResourceName = ''ttl-'' @ snd namespacedName
      in case r_Get r (fst namespacedName, ttlResourceName) s of
           (Inl err, s1) \<Rightarrow>
             if err = NotFound then ((Result_zero, None), s1) else ((Result_zero, Some err), s1)
         | (Inr ttlResource, s1) \<Rightarrow>
             if labelOf (Meta ttlResource) TTLResourceLabelKey = TTLResourceLabelValue then
               (case r_Delete r KindTTLResource (keyOf ttlResource) s1 of
                  (Some err, s2) \<Rightarrow>
                    if err \<noteq> NotFound then ((Result_zero, Some err), s2)
                    else ((Result_zero, None), s2)
                | (None, s2) \<Rightarrow> ((Result_zero, None), s2))
             else ((Result_zero, None), s1))"

subsection \<open>Reconcile, lines 62-208\<close>

text \<open>
  \<^verbatim>\<open>strconv.Atoi\<close>: an optional sign, then one or more decimal digits and nothing
  else; a value outside int64 is an error. \<open>None\<close> is the error: the caller only tests
  \<^verbatim>\<open>err != nil\<close>. A digit is a byte from 48 (the character 0) to 57 (the character 9).
\<close>

definition digitVal :: "char \<Rightarrow> nat option" where
  "digitVal ch =
     (let code = (of_char ch :: nat)
      in if 48 \<le> code \<and> code \<le> 57 then Some (code - 48) else None)"

fun digitsVal :: "string \<Rightarrow> nat \<Rightarrow> nat option" where
  "digitsVal [] n = Some n"
| "digitsVal (c # cs) n =
     (case digitVal c of None \<Rightarrow> None | Some d \<Rightarrow> digitsVal cs (n * 10 + d))"

definition Atoi :: "string \<Rightarrow> int option" where
  "Atoi s =
     (let neg = (case s of c # _ \<Rightarrow> c = CHR ''-'' | [] \<Rightarrow> False);
          body = (case s of c # cs \<Rightarrow> if c = CHR ''-'' \<or> c = CHR ''+'' then cs else s | [] \<Rightarrow> s)
      in if body = [] then None
         else case digitsVal body 0 of
                None \<Rightarrow> None
              | Some n \<Rightarrow>
                  if neg then (if int n > 2 ^ 63 then None else Some (- int n))
                  else (if int n \<ge> 2 ^ 63 then None else Some (int n)))"

text \<open>
  Lines 74-110 without the final clean-up: the key is tried as a Pod, then as a Service,
  then as a Deployment. \<open>Inl\<close> is a read that failed otherwise than by NotFound,
  \<open>Inr None\<close> is no target of any kind, and a target comes with the \<^verbatim>\<open>gvk\<close> and
  \<^verbatim>\<open>apiVersion\<close> strings of the branch that found it.
\<close>

definition probeTarget ::
  "'w Client \<Rightarrow> NamespacedName \<Rightarrow> 'w state \<Rightarrow>
     (api_error + (ObjectMeta \<times> string \<times> string) option) \<times> 'w state" where
  "probeTarget r req s =
     (case r_GetObject r KindPod req s of
        (Inr pod, s1) \<Rightarrow> (Inr (Some (pod, ''Pod'', ''v1'')), s1)
      | (Inl err, s1) \<Rightarrow>
          if err \<noteq> NotFound then (Inl err, s1)
          else
            (case r_GetObject r KindService req s1 of
               (Inr svc, s2) \<Rightarrow> (Inr (Some (svc, ''Service'', ''v1'')), s2)
             | (Inl err, s2) \<Rightarrow>
                 if err \<noteq> NotFound then (Inl err, s2)
                 else
                   (case r_GetObject r KindDeployment req s2 of
                      (Inr deploy, s3) \<Rightarrow> (Inr (Some (deploy, ''Deployment'', ''apps/v1'')), s3)
                    | (Inl err, s3) \<Rightarrow>
                        if err \<noteq> NotFound then (Inl err, s3) else (Inr None, s3))))"

text \<open>The object of lines 167-187; the fields the source leaves out have their zero values.\<close>

definition newTTLResource :: "string \<Rightarrow> string \<Rightarrow> string \<Rightarrow> string \<Rightarrow> ObjectMeta \<Rightarrow> int \<Rightarrow> TTLResource" where
  "newTTLResource ttlResourceName namespace apiVersion gvk obj ttlSeconds =
     \<lparr>Meta = \<lparr>Name = ttlResourceName, Namespace = namespace, UID = [],
              ResourceVersion = 0, CreationTimestamp = 0, DeletionTimestamp = None,
              Labels = [TTLResourceLabelKey \<mapsto> TTLResourceLabelValue,
                        ''app.kubernetes.io/managed-by'' \<mapsto> ''ttl-operator''],
              Annotations = Map.empty,
              OwnerReferences = [\<lparr>ownerAPIVersion = apiVersion, ownerKind = gvk,
                                  ownerName = Name obj, ownerUID = UID obj\<rparr>]\<rparr>,
      Spec = \<lparr>TTLSeconds = ttlSeconds\<rparr>,
      Status = TTLResourceStatus_zero\<rparr>"

definition ResourceReconciler_Reconcile ::
  "'w Client \<Rightarrow> NamespacedName \<Rightarrow> Time \<Rightarrow> Time \<Rightarrow> 'w state \<Rightarrow> (Result \<times> api_error option) \<times> 'w state" where
  "ResourceReconciler_Reconcile r req now now' s =
     (case r_Get r req s of
        (Inr ttlResource, s1) \<Rightarrow> reconcileTTLResource r ttlResource now now' s1
      | (Inl err, s1) \<Rightarrow>
          if err \<noteq> NotFound then ((Result_zero, Some err), s1)
          else
            (case probeTarget r req s1 of
               (Inl err, s2) \<Rightarrow> ((Result_zero, Some err), s2)
             | (Inr None, s2) \<Rightarrow> cleanupTTLResource r req s2
             | (Inr (Some (obj, gvk, apiVersion)), s2) \<Rightarrow>
                 if DeletionTimestamp obj \<noteq> None then cleanupTTLResource r req s2
                 else
                   (case Annotations obj TTLAnnotationKey of
                      None \<Rightarrow> cleanupTTLResource r req s2
                    | Some ttlSecondsStr \<Rightarrow>
                        (case Atoi ttlSecondsStr of
                           None \<Rightarrow> ((Result_zero, None), s2)
                         | Some ttlSeconds \<Rightarrow>
                             if ttlSeconds \<le> 0 then ((Result_zero, None), s2)
                             else
                               (let ttlResourceName = ''ttl-'' @ Name obj
                                in case r_Get r (fst req, ttlResourceName) s2 of
                                     (Inr existingTTLResource, s3) \<Rightarrow>
                                       if TTLSeconds (Spec existingTTLResource) \<noteq> ttlSeconds then
                                         (let existingTTLResource = existingTTLResource
                                                \<lparr>Spec := (Spec existingTTLResource)\<lparr>TTLSeconds := ttlSeconds\<rparr>,
                                                 Status := TTLResourceStatus_zero\<rparr>
                                          in case r_Update r existingTTLResource s3 of
                                               (Inl err, s4) \<Rightarrow>
                                                 if err = Conflict then ((Result_zero, None), s4)
                                                 else ((Result_zero, Some err), s4)
                                             | (Inr _, s4) \<Rightarrow> ((Result_zero, None), s4))
                                       else ((Result_zero, None), s3)
                                   | (Inl err, s3) \<Rightarrow>
                                       if err \<noteq> NotFound then ((Result_zero, Some err), s3)
                                       else
                                         (case r_Create r
                                                 (newTTLResource ttlResourceName (fst req) apiVersion gvk obj ttlSeconds)
                                                 s3 of
                                            (Some err, s4) \<Rightarrow>
                                              if err = AlreadyExists then ((Result_zero, None), s4)
                                              else ((Result_zero, Some err), s4)
                                          | (None, s4) \<Rightarrow> ((Result_zero, None), s4)))))))"

section \<open>Reading traces\<close>

text \<open>An event is a deletion request, whatever its outcome.\<close>

definition isDelete :: "event \<Rightarrow> bool" where
  "isDelete e = (case fst e of CallDelete _ _ \<Rightarrow> True | _ \<Rightarrow> False)"

text \<open>An event is a status write, whatever its outcome.\<close>

definition isStatusUpdate :: "event \<Rightarrow> bool" where
  "isStatusUpdate e = (case fst e of CallStatusUpdate _ \<Rightarrow> True | _ \<Rightarrow> False)"

text \<open>
  The target whose deletion the cascade requests: the first owner reference of the
  record, when its apiVersion parses and its (group, version, kind) triple is known to
  \<open>deleteOwnerResource\<close>, in the record's namespace.
\<close>

definition ownerTarget :: "TTLResource \<Rightarrow> (kind \<times> NamespacedName) option" where
  "ownerTarget t =
     (case OwnerReferences (Meta t) of
        [] \<Rightarrow> None
      | ownerRef # _ \<Rightarrow>
          (case ParseGroupVersion (ownerAPIVersion ownerRef) of
             None \<Rightarrow> None
           | Some (g, v) \<Rightarrow>
               (case resolveKind g v (ownerKind ownerRef) of
                  None \<Rightarrow> None
                | Some k \<Rightarrow> Some (k, (Namespace (Meta t), ownerName ownerRef)))))"

text \<open>An event is a read, of a tracking record or of a target, whatever its outcome.\<close>

definition isGet :: "event \<Rightarrow> bool" where
  "isGet e = (case fst e of CallGet _ _ \<Rightarrow> True | _ \<Rightarrow> False)"

section \<open>Two clients\<close>

text \<open>
  A scripted client, as a test double: the world is the list of answers still to be
  given, and every request takes the next one. An answer of the wrong sort for the
  request, or none left, is \<open>OtherError\<close>.
\<close>

datatype response =
    RespTTLResource TTLResource
  | RespObject ObjectMeta
  | RespVersion nat
  | RespOK
  | RespError api_error

definition scripted :: "response list Client" where
  "scripted =
     \<lparr>client_Get = (\<lambda>key w. case w of
          RespTTLResource t # rest \<Rightarrow> (Inr t, rest)
        | RespError e # rest \<Rightarrow> (Inl e, rest)
        | _ \<Rightarrow> (Inl OtherError, tl w)),
      client_GetObject = (\<lambda>k key w. case w of
          RespObject m # rest \<Rightarrow> (Inr m, rest)
        | RespError e # rest \<Rightarrow> (Inl e, rest)
        | _ \<Rightarrow> (Inl OtherError, tl w)),
      client_StatusUpdate = (\<lambda>obj w. case w of
          RespVersion rv # rest \<Rightarrow> (Inr rv, rest)
        | RespError e # rest \<Rightarrow> (Inl e, rest)
        | _ \<Rightarrow> (Inl OtherError, tl w)),
      client_Update = (\<lambda>obj w. case w of
          RespVersion rv # rest \<Rightarrow> (Inr rv, rest)
        | RespError e # rest \<Rightarrow> (Inl e, rest)
        | _ \<Rightarrow> (Inl OtherError, tl w)),
      client_Create = (\<lambda>obj w. case w of
          RespOK # rest \<Rightarrow> (None, rest)
        | RespError e # rest \<Rightarrow> (Some e, rest)
        | _ \<Rightarrow> (Some OtherError, tl w)),
      client_Delete = (\<lambda>k key w. case w of
          RespOK # rest \<Rightarrow> (None, rest)
        | RespError e # rest \<Rightarrow> (Some e, rest)
        | _ \<Rightarrow> (Some OtherError, tl w))\<rparr>"

text \<open>
  An API server holding the objects, with the status subresource of TTLResource enabled
  as api/v1alpha1/ttlresource\_types.go declares it (line 48, the marker
  \<^verbatim>\<open>+kubebuilder:subresource:status\<close>): a write through \<^verbatim>\<open>Status().Update\<close> replaces
  the stored status and nothing else, and a write through \<^verbatim>\<open>Update\<close> replaces the stored
  spec and leaves the stored status as it is. A write whose object carries another UID or
  another resource version than the stored one is a Conflict. Creation stamps the object
  with the next fresh UID and the server's clock and stores it with an empty status.
\<close>

record Cluster =
  ttlResources :: "NamespacedName \<rightharpoonup> TTLResource"
  objects :: "kind \<Rightarrow> NamespacedName \<rightharpoonup> ObjectMeta"
  freshUIDs :: "string list"
  serverClock :: Time

definition apiserver_write ::
  "(TTLResource \<Rightarrow> TTLResource \<Rightarrow> TTLResource) \<Rightarrow> TTLResource \<Rightarrow> Cluster \<Rightarrow> (api_error + nat) \<times> Cluster" where
  "apiserver_write merge obj w =
     (case ttlResources w (keyOf obj) of
        None \<Rightarrow> (Inl NotFound, w)
      | Some stored \<Rightarrow>
          if UID (Meta obj) = UID (Meta stored)
             \<and> ResourceVersion (Meta obj) = ResourceVersion (Meta stored)
          then
            (let rv = Suc (ResourceVersion (Meta stored))
             in (Inr rv,
                 w\<lparr>ttlResources := (ttlResources w)
                      (keyOf obj \<mapsto> setResourceVersion (merge stored obj) rv)\<rparr>))
          else (Inl Conflict, w))"

definition apiserver :: "Cluster Client" where
  "apiserver =
     \<lparr>client_Get = (\<lambda>key w. case ttlResources w key of
          None \<Rightarrow> (Inl NotFound, w) | Some t \<Rightarrow> (Inr t, w)),
      client_GetObject = (\<lambda>k key w. case objects w k key of
          None \<Rightarrow> (Inl NotFound, w) | Some m \<Rightarrow> (Inr m, w)),
      client_StatusUpdate = apiserver_write (\<lambda>stored obj. stored\<lparr>Status := Status obj\<rparr>),
      client_Update = apiserver_write (\<lambda>stored obj. stored\<lparr>Spec := Spec obj\<rparr>),
      client_Create = (\<lambda>obj w. case ttlResources w (keyOf obj) of
          Some _ \<Rightarrow> (Some AlreadyExists, w)
        | None \<Rightarrow>
            (case freshUIDs w of
               [] \<Rightarrow> (Some OtherError, w)
             | uid # uids \<Rightarrow>
                 (None,
                  w\<lparr>ttlResources := (ttlResources w)
                       (keyOf obj \<mapsto> obj\<lparr>Meta := (Meta obj)\<lparr>UID := uid, ResourceVersion := 1,
                                              CreationTimestamp := serverClock w\<rparr>,
                                            Status := TTLResourceStatus_zero\<rparr>),
                    freshUIDs := uids\<rparr>))),
      client_Delete = (\<lambda>k key w.
          if k = KindTTLResource then
            (case ttlResources w key of
               None \<Rightarrow> (Some NotFound, w)
             | Some _ \<Rightarrow> (None, w\<lparr>ttlResources := (ttlResources w)(key := None)\<rparr>))
          else
            (case objects w k key of
               None \<Rightarrow> (Some NotFound, w)
             | Some _ \<Rightarrow> (None, w\<lparr>objects := (objects w)(k := (objects w k)(key := None))\<rparr>)))\<rparr>"

section \<open>Sample objects\<close>

text \<open>Two owner references: a Pod, which the resolver knows, and a Job, which it does not.\<close>

definition podRef :: OwnerReference where
  "podRef = \<lparr>ownerAPIVersion = ''v1'', ownerKind = ''Pod'', ownerName = ''web'', ownerUID = ''uid-pod''\<rparr>"

definition jobRef :: OwnerReference where
  "jobRef = \<lparr>ownerAPIVersion = ''batch/v1'', ownerKind = ''Job'', ownerName = ''nightly'', ownerUID = ''uid-job''\<rparr>"

text \<open>
  The managed tracking record of the Pod \<open>web\<close>, created 1000 seconds after the zero
  time, with a given TTL and status.
\<close>

definition sampleMeta :: ObjectMeta where
  "sampleMeta =
     \<lparr>Name = ''ttl-web'', Namespace = ''default'', UID = ''uid-1'', ResourceVersion = 7,
      CreationTimestamp = 1000 * Second, DeletionTimestamp = None,
      Labels = [TTLResourceLabelKey \<mapsto> TTLResourceLabelValue], Annotations = Map.empty,
      OwnerReferences = [podRef]\<rparr>"

definition sampleRecord :: "int \<Rightarrow> TTLResourceStatus \<Rightarrow> TTLResource" where
  "sampleRecord ttl st = \<lparr>Meta = sampleMeta, Spec = \<lparr>TTLSeconds = ttl\<rparr>, Status = st\<rparr>"

text \<open>The Pod \<open>web\<close> with given annotations, and a cluster holding it and its record.\<close>

definition samplePod :: "(string \<rightharpoonup> string) \<Rightarrow> ObjectMeta" where
  "samplePod annotations =
     \<lparr>Name = ''web'', Namespace = ''default'', UID = ''uid-pod'', ResourceVersion = 3,
      CreationTimestamp = 1000 * Second, DeletionTimestamp = None,
      Labels = Map.empty, Annotations = annotations, OwnerReferences = []\<rparr>"

definition sampleCluster :: "(string \<rightharpoonup> string) \<Rightarrow> TTLResource \<Rightarrow> Cluster" where
  "sampleCluster annotations t =
     \<lparr>ttlResources = [(''default'', ''ttl-web'') \<mapsto> t],
      objects = (\<lambda>k. if k = KindPod then [(''default'', ''web'') \<mapsto> samplePod annotations]
                     else Map.empty),
      freshUIDs = [''uid-2''],
      serverClock = 1000 * Second\<rparr>"

text \<open>
  Statuses of the sample record: scheduled (created at second 1000, due at second 1060),
  with \<open>createdAt\<close> alone, and scheduled and marked expired.
\<close>

definition scheduledStatus :: TTLResourceStatus where
  "scheduledStatus = \<lparr>Expired = False, CreatedAt = 1000 * Second, ExpiredAt = Some (1060 * Second)\<rparr>"

definition createdStatus :: TTLResourceStatus where
  "createdStatus = \<lparr>Expired = False, CreatedAt = 1000 * Second, ExpiredAt = None\<rparr>"

definition expiredStatus :: TTLResourceStatus where
  "expiredStatus = \<lparr>Expired = True, CreatedAt = 1000 * Second, ExpiredAt = Some (1060 * Second)\<rparr>"

text \<open>A record a user created by hand: no owner reference and no managed-by label.\<close>

definition standaloneRecord :: "int \<Rightarrow> TTLResourceStatus \<Rightarrow> TTLResource" where
  "standaloneRecord ttl st =
     \<lparr>Meta = sampleMeta\<lparr>Labels := Map.empty, OwnerReferences := []\<rparr>,
      Spec = \<lparr>TTLSeconds = ttl\<rparr>, Status = st\<rparr>"

text \<open>The record deleted and created again under the same name: another UID, no status yet.\<close>

definition recreatedRecord :: "int \<Rightarrow> TTLResource" where
  "recreatedRecord ttl =
     \<lparr>Meta = sampleMeta\<lparr>UID := ''uid-2'', ResourceVersion := 1, CreationTimestamp := 1500 * Second\<rparr>,
      Spec = \<lparr>TTLSeconds = ttl\<rparr>, Status = TTLResourceStatus_zero\<rparr>"

section \<open>Properties\<close>

lemmas ops = r_Get_def r_GetObject_def r_StatusUpdate_def r_Update_def r_Create_def
  r_Delete_def errorOf_def

lemmas time_defs = Time_IsZero_def Time_Add_def Time_Sub_def Time_After_def Time_Before_def
  Duration_Seconds_def int64_def Second_def maxDuration_def minDuration_def
  signed_take_bit_eq_take_bit_minus take_bit_eq_mod bit_iff_odd

lemmas model_defs = TTLResourceReconciler_Reconcile_def expireOrRequeue_def
  ResourceReconciler_Reconcile_def
  reconcileTTLResource_def updateStatusIfNeeded_def checkExpiry_def deleteExpiredResources_def
  deleteOwnerResource_def cleanupTTLResource_def probeTarget_def initCreatedAt_def
  initExpiredAt_def initStatus_def ParseGroupVersion_def resolveKind_def labelOf_def keyOf_def
  setResourceVersion_def newTTLResource_def Atoi_def digitVal_def Result_zero_def
  TTLResourceStatus_zero_def TTLAnnotationKey_def TTLResourceLabelKey_def
  TTLResourceLabelValue_def Let_def

lemmas sample_defs = scripted_def sampleMeta_def sampleRecord_def podRef_def jobRef_def
  samplePod_def scheduledStatus_def expiredStatus_def createdStatus_def standaloneRecord_def

subsection \<open>Status initialisation\<close>

lemma init_Meta:
  "Meta (fst (initCreatedAt t)) = Meta t" "Meta (fst (initExpiredAt t)) = Meta t"
  "Spec (fst (initCreatedAt t)) = Spec t" "Spec (fst (initExpiredAt t)) = Spec t"
  by (simp_all add: initCreatedAt_def initExpiredAt_def)

lemma needs_update_iff:
  "(snd (initCreatedAt t) \<or> snd (initExpiredAt (fst (initCreatedAt t)))) \<longleftrightarrow>
     (CreatedAt (Status t) = 0 \<or> ExpiredAt (Status t) = None)"
  by (auto simp: initCreatedAt_def initExpiredAt_def Time_IsZero_def)

text \<open>The first part of \<open>reconcileTTLResource\<close>, with the flags of the source read off.\<close>

lemma updateStatusIfNeeded_unfold:
  "updateStatusIfNeeded r t now now' s =
     (if CreatedAt (Status t) = 0 \<or> ExpiredAt (Status t) = None then
        (case r_Get r (keyOf t) s of
           (Inl err, s1) \<Rightarrow>
             if err = NotFound then (Inl (Result_zero, None), s1)
             else (Inl (Result_zero, Some err), s1)
         | (Inr latest, s1) \<Rightarrow>
             if UID (Meta t) \<noteq> UID (Meta latest) then (Inl (Result_zero, None), s1)
             else
               (case r_StatusUpdate r (initStatus latest) s1 of
                  (Inl err, s2) \<Rightarrow>
                    if err = Conflict then (Inl (Result_zero\<lparr>RequeueAfter := Second\<rparr>, None), s2)
                    else if err = NotFound then (Inl (Result_zero, None), s2)
                    else (Inl (Result_zero, Some err), s2)
                | (Inr latest', s2) \<Rightarrow> (Inr (latest', now'), s2)))
      else (Inr (t, now), s))"
proof -
  obtain t1 n1 where c: "initCreatedAt t = (t1, n1)" by (cases "initCreatedAt t")
  obtain t2 n2 where e: "initExpiredAt t1 = (t2, n2)" by (cases "initExpiredAt t1")
  have m: "Meta t2 = Meta t" using init_Meta(1) [of t] init_Meta(2) [of t1] c e by simp
  have k: "keyOf t2 = keyOf t" using m by (simp add: keyOf_def)
  have u: "\<not> n1 \<Longrightarrow> \<not> n2 \<Longrightarrow> t2 = t"
    using c e by (auto simp: initCreatedAt_def initExpiredAt_def split: if_splits)
  have n: "(n1 \<or> n2) \<longleftrightarrow> (CreatedAt (Status t) = 0 \<or> ExpiredAt (Status t) = None)"
    using needs_update_iff [of t] c e by simp
  show ?thesis
    unfolding n [symmetric]
    using k m u by (auto simp: updateStatusIfNeeded_def c e Let_def split: prod.splits sum.splits)
qed

lemma initStatus_fresh:
  assumes "CreatedAt (Status t) = 0" and "ExpiredAt (Status t) = None"
    and "CreationTimestamp (Meta t) \<noteq> 0"
  shows "initStatus t
           = t\<lparr>Status := (Status t)\<lparr>CreatedAt := CreationTimestamp (Meta t),
                ExpiredAt := Some (Time_Add (CreationTimestamp (Meta t))
                                     (Duration_Seconds (TTLSeconds (Spec t))))\<rparr>\<rparr>"
  using assms
  by (simp add: initStatus_def initCreatedAt_def initExpiredAt_def Time_IsZero_def)

lemma reconcileTTLResource_initialised:
  assumes "TTLSeconds (Spec t) \<noteq> 0" and "CreatedAt (Status t) \<noteq> 0"
    and "ExpiredAt (Status t) \<noteq> None"
  shows "reconcileTTLResource r t now now' s = checkExpiry r t now s"
  using assms by (auto simp: reconcileTTLResource_def updateStatusIfNeeded_unfold)

text \<open>What a new resource version and a new status leave alone.\<close>

lemma setResourceVersion_keeps [simp]:
  "keyOf (setResourceVersion t rv) = keyOf t"
  "ownerTarget (setResourceVersion t rv) = ownerTarget t"
  "Status (setResourceVersion t rv) = Status t"
  "Spec (setResourceVersion t rv) = Spec t"
  "UID (Meta (setResourceVersion t rv)) = UID (Meta t)"
  by (simp_all add: setResourceVersion_def keyOf_def ownerTarget_def
      split: list.splits option.splits prod.splits)

lemma Status_update_keeps [simp]:
  "keyOf (t\<lparr>Status := st\<rparr>) = keyOf t"
  "ownerTarget (t\<lparr>Status := st\<rparr>) = ownerTarget t"
  by (simp_all add: keyOf_def ownerTarget_def split: list.splits option.splits prod.splits)

subsection \<open>Durations\<close>

text \<open>The multiplication by \<^verbatim>\<open>time.Second\<close> is exact for up to 9223372036 seconds either way.\<close>

lemma Duration_Seconds_exact:
  assumes "- 9223372036 \<le> n" and "n \<le> 9223372036"
  shows "Duration_Seconds n = n * Second"
proof -
  have a: "int64 n = n"
    unfolding int64_def using assms
    by (intro signed_take_bit_int_eq_self) simp_all
  have b: "int64 (n * Second) = n * Second"
    unfolding int64_def Second_def using assms
    by (intro signed_take_bit_int_eq_self) simp_all
  show ?thesis by (simp add: Duration_Seconds_def a b)
qed

subsection \<open>Traces of the cascade\<close>

lemma deleteOwnerResource_trace:
  "\<exists>w' es. snd (deleteOwnerResource r ownerRef ns (w, l)) = (w', l @ es) \<and> list_all isDelete es"
  by (auto simp: deleteOwnerResource_def ops isDelete_def split: option.splits prod.splits)

lemma deleteExpiredResources_trace:
  "\<exists>w' es. snd (deleteExpiredResources r t (w, l)) = (w', l @ es) \<and> list_all isDelete es"
proof (cases "OwnerReferences (Meta t)")
  case Nil
  then show ?thesis
    by (auto simp: deleteExpiredResources_def ops isDelete_def split: option.splits prod.splits)
next
  case (Cons ownerRef rest)
  obtain w1 es1 where a: "snd (deleteOwnerResource r ownerRef (Namespace (Meta t)) (w, l)) = (w1, l @ es1)"
    and b: "list_all isDelete es1"
    using deleteOwnerResource_trace [of r ownerRef "Namespace (Meta t)" w l] by auto
  show ?thesis using Cons a b
    by (auto simp: deleteExpiredResources_def ops isDelete_def split: option.splits prod.splits)
qed

text \<open>The cascade issues deletions only: it adds no status write to the trace.\<close>

lemma deleteExpiredResources_StatusUpdate:
  "(CallStatusUpdate obj, e) \<in> set (snd (snd (deleteExpiredResources r t s)))
     \<longleftrightarrow> (CallStatusUpdate obj, e) \<in> set (snd s)"
proof -
  obtain w l where s: "s = (w, l)" by (cases s)
  obtain w' es where a: "snd (deleteExpiredResources r t (w, l)) = (w', l @ es)"
    and b: "list_all isDelete es"
    using deleteExpiredResources_trace [of r t w l] by auto
  have "(CallStatusUpdate obj, e) \<notin> set es"
    using b by (auto simp: list_all_iff isDelete_def)
  then show ?thesis using a s by simp
qed

text \<open>
  The cascade, request by request. When the record has an owner target the resolver
  knows, its deletion is requested first, whatever the outcome, and then the record's;
  when it has none, only the record's deletion is requested. The result is the outcome
  of the record's deletion, NotFound counting as success, and the world is the one the
  client leaves after the last request.
\<close>

lemma deleteExpiredResources_with_owner:
  assumes "ownerTarget t = Some (k, key)"
    and "client_Delete r k key w = (o1, w1)"
    and "client_Delete r KindTTLResource (keyOf t) w1 = (o2, w2)"
  shows "deleteExpiredResources r t (w, l)
     = ((Result_zero, if o2 = Some NotFound then None else o2),
        (w2, l @ [(CallDelete k key, o1), (CallDelete KindTTLResource (keyOf t), o2)]))"
proof -
  have s1: "(case OwnerReferences (Meta t) of [] \<Rightarrow> (w, l)
             | ownerRef # _ \<Rightarrow> snd (deleteOwnerResource r ownerRef (Namespace (Meta t)) (w, l)))
            = (w1, l @ [(CallDelete k key, o1)])"
    using assms(1,2)
    by (cases o1) (auto simp: ownerTarget_def deleteOwnerResource_def r_Delete_def
        split: list.splits option.splits)
  show ?thesis
    using s1 assms(3)
    by (cases o2) (auto simp: deleteExpiredResources_def r_Delete_def)
qed

lemma deleteExpiredResources_without_owner:
  assumes "ownerTarget t = None"
    and "client_Delete r KindTTLResource (keyOf t) w = (o2, w2)"
  shows "deleteExpiredResources r t (w, l)
     = ((Result_zero, if o2 = Some NotFound then None else o2),
        (w2, l @ [(CallDelete KindTTLResource (keyOf t), o2)]))"
proof -
  have s1: "(case OwnerReferences (Meta t) of [] \<Rightarrow> (w, l)
             | ownerRef # _ \<Rightarrow> snd (deleteOwnerResource r ownerRef (Namespace (Meta t)) (w, l)))
            = (w, l)"
    using assms(1)
    by (auto simp: ownerTarget_def deleteOwnerResource_def split: list.splits option.splits)
  show ?thesis
    using s1 assms(2)
    by (cases o2) (auto simp: deleteExpiredResources_def r_Delete_def)
qed

text \<open>When the cascade is due, the expiry check starts with a fresh read of the record.\<close>

lemma checkExpiry_starts_with_read:
  assumes "Expired (Status cur) \<or> (\<exists>e. ExpiredAt (Status cur) = Some e \<and> \<not> Time_Before now e)"
    and "client_Get r (keyOf cur) w = (res, w1)"
  shows "\<exists>es. snd (snd (checkExpiry r cur now (w, l)))
           = l @ (CallGet KindTTLResource (keyOf cur), errorOf res) # es"
proof (cases res)
  case (Inl err)
  then show ?thesis using assms
    by (auto simp: checkExpiry_def r_Get_def errorOf_def)
next
  case (Inr latest)
  let ?l1 = "l @ [(CallGet KindTTLResource (keyOf cur), None)]"
  let ?x = "latest\<lparr>Status := (Status latest)\<lparr>Expired := True\<rparr>\<rparr>"
  obtain res2 w2 where u: "client_StatusUpdate r ?x w1 = (res2, w2)" by (metis surj_pair)
  obtain wa esa where a: "snd (deleteExpiredResources r latest (w1, ?l1)) = (wa, ?l1 @ esa)"
    using deleteExpiredResources_trace [of r latest w1 ?l1] by auto
  have b: "\<exists>wb esb. snd (deleteExpiredResources r y (w2, ?l1 @ [(CallStatusUpdate ?x, None)]))
             = (wb, ?l1 @ [(CallStatusUpdate ?x, None)] @ esb)" for y
    using deleteExpiredResources_trace [of r y w2 "?l1 @ [(CallStatusUpdate ?x, None)]"] by auto
  show ?thesis
    using assms Inr u a b [of "setResourceVersion ?x (projr res2)"]
    by (cases res2) (auto simp: checkExpiry_def ops Let_def)
qed

text \<open>A record already marked expired is never expired again by the TTLResourceReconciler.\<close>

lemma expireOrRequeue_expired:
  "Expired (Status t) \<Longrightarrow>
   expireOrRequeue r t e now s = ((Result_zero\<lparr>RequeueAfter := Time_Sub e now\<rparr>, None), s)"
  by (simp add: expireOrRequeue_def)

subsection \<open>The timer\<close>

text \<open>
  C1, as the claim states it, fails for the TTLResourceReconciler. A record created at
  second 1000 with a TTL of 60 seconds and reconciled exactly at second 1060 is not
  marked expired and not deleted: the reconciliation answers a delay of zero, which asks
  for no further run. Reconciled at second 1061 it is marked expired and deleted, but the
  deletion of its owner, the Pod \<open>web\<close>, is never requested.
\<close>

theorem standalone_misses_expiry_instant_and_target:
  "TTLResourceReconciler_Reconcile scripted (''default'', ''ttl-web'') (1060 * Second)
      ([RespTTLResource (sampleRecord 60 scheduledStatus), RespVersion 8, RespOK], [])
   = ((\<lparr>Requeue = False, RequeueAfter = 0\<rparr>, None),
      ([RespVersion 8, RespOK], [(CallGet KindTTLResource (''default'', ''ttl-web''), None)]))
   \<and> ownerTarget (sampleRecord 60 scheduledStatus) = Some (KindPod, (''default'', ''web''))
   \<and> TTLResourceReconciler_Reconcile scripted (''default'', ''ttl-web'') (1061 * Second)
      ([RespTTLResource (sampleRecord 60 scheduledStatus), RespVersion 8, RespOK, RespOK], [])
   = ((Result_zero, None),
      ([RespOK], [(CallGet KindTTLResource (''default'', ''ttl-web''), None),
                  (CallStatusUpdate (sampleRecord 60 expiredStatus), None),
                  (CallDelete KindTTLResource (''default'', ''ttl-web''), None)]))"
  by (simp add: model_defs time_defs ops sample_defs ownerTarget_def)

text \<open>
  C1, amended. A record enters the scheduled state with \<open>expiredAt\<close> written by the
  reconciler itself: \<open>reconcileTTLResource\<close>, on a record with no status yet, writes
  \<open>createdAt\<close> as the creation timestamp and \<open>expiredAt\<close> as the creation timestamp
  plus \<open>ttlSeconds\<close> seconds; the TTLResourceReconciler, on a record with
  \<open>createdAt\<close> set, writes \<open>expiredAt\<close> as \<open>createdAt\<close> plus \<open>ttlSeconds\<close>
  seconds (for a TTL from 1 to 9223372036 seconds). For a scheduled record (TTL other
  than 0, \<open>createdAt\<close> set, \<open>expiredAt = e\<close>, not marked expired): before \<open>e\<close> both
  reconcilers write nothing and return success with the requeue delay
  \<^verbatim>\<open>e.Sub(now)\<close>, which is exactly \<open>e - now\<close> unless that exceeds the largest
  duration, so that the next run is due at \<open>e\<close>. At or after \<open>e\<close>,
  \<open>reconcileTTLResource\<close> reads the record again and, when it has the same UID, is not
  yet marked and the status write succeeds, marks it expired, then sends the deletion of
  the owner target, if the resolver knows one, and the deletion of the record to the
  client, and returns the outcome of the record's deletion, NotFound counting as
  success. Strictly after \<open>e\<close>, the TTLResourceReconciler marks the record expired and
  sends the deletion of the record alone.
\<close>

theorem timer_correctness:
  assumes "TTLSeconds (Spec t) \<noteq> 0" and "CreatedAt (Status t) \<noteq> 0"
    and "ExpiredAt (Status t) = Some e" and "\<not> Expired (Status t)"
  shows "(now < e \<longrightarrow>
            reconcileTTLResource r t now now' s
              = ((Result_zero\<lparr>RequeueAfter := Time_Sub e now\<rparr>, None), s))
       \<and> (now < e \<and> client_Get r req w = (Inr t, w1) \<longrightarrow>
            TTLResourceReconciler_Reconcile r req now (w, l)
              = ((Result_zero\<lparr>RequeueAfter := Time_Sub e now\<rparr>, None),
                 (w1, l @ [(CallGet KindTTLResource req, None)])))
       \<and> (now < e \<and> e - now \<le> maxDuration \<longrightarrow> now + Time_Sub e now = e)
       \<and> (CreatedAt (Status x) = 0 \<and> ExpiredAt (Status x) = None
            \<and> CreationTimestamp (Meta x) \<noteq> 0
            \<and> 0 < TTLSeconds (Spec x) \<and> TTLSeconds (Spec x) \<le> 9223372036
            \<and> x' = x\<lparr>Status := (Status x)
                     \<lparr>CreatedAt := CreationTimestamp (Meta x),
                      ExpiredAt := Some (CreationTimestamp (Meta x) + TTLSeconds (Spec x) * Second)\<rparr>\<rparr>
            \<and> client_Get r (keyOf x) w = (Inr x, w1)
            \<and> client_StatusUpdate r x' w1 = (Inr rv, w2) \<longrightarrow>
            reconcileTTLResource r x now now' (w, l)
              = checkExpiry r (setResourceVersion x' rv) now'
                  (w2, l @ [(CallGet KindTTLResource (keyOf x), None),
                            (CallStatusUpdate x', None)]))
       \<and> (CreatedAt (Status x) \<noteq> 0 \<and> ExpiredAt (Status x) = None
            \<and> 0 < TTLSeconds (Spec x) \<and> TTLSeconds (Spec x) \<le> 9223372036
            \<and> x' = x\<lparr>Status := (Status x)
                     \<lparr>ExpiredAt := Some (CreatedAt (Status x) + TTLSeconds (Spec x) * Second)\<rparr>\<rparr>
            \<and> client_Get r req w = (Inr x, w1)
            \<and> client_StatusUpdate r x' w1 = (Inr rv, w2) \<longrightarrow>
            TTLResourceReconciler_Reconcile r req now (w, l)
              = expireOrRequeue r (setResourceVersion x' rv)
                  (CreatedAt (Status x) + TTLSeconds (Spec x) * Second) now
                  (w2, l @ [(CallGet KindTTLResource req, None), (CallStatusUpdate x', None)]))
       \<and> (e \<le> now \<and> client_Get r (keyOf t) w = (Inr latest, w1)
            \<and> UID (Meta latest) = UID (Meta t) \<and> \<not> Expired (Status latest)
            \<and> client_StatusUpdate r (latest\<lparr>Status := (Status latest)\<lparr>Expired := True\<rparr>\<rparr>) w1
                 = (Inr rv, w2)
            \<and> ownerTarget latest = Some (k, key)
            \<and> client_Delete r k key w2 = (o1, w3)
            \<and> client_Delete r KindTTLResource (keyOf latest) w3 = (o2, w4) \<longrightarrow>
            reconcileTTLResource r t now now' (w, l)
              = ((Result_zero, if o2 = Some NotFound then None else o2),
                 (w4, l @ [(CallGet KindTTLResource (keyOf t), None),
                           (CallStatusUpdate
                              (latest\<lparr>Status := (Status latest)\<lparr>Expired := True\<rparr>\<rparr>), None),
                           (CallDelete k key, o1),
                           (CallDelete KindTTLResource (keyOf latest), o2)])))
       \<and> (e \<le> now \<and> client_Get r (keyOf t) w = (Inr latest, w1)
            \<and> UID (Meta latest) = UID (Meta t) \<and> \<not> Expired (Status latest)
            \<and> client_StatusUpdate r (latest\<lparr>Status := (Status latest)\<lparr>Expired := True\<rparr>\<rparr>) w1
                 = (Inr rv, w2)
            \<and> ownerTarget latest = None
            \<and> client_Delete r KindTTLResource (keyOf latest) w2 = (o2, w3) \<longrightarrow>
            reconcileTTLResource r t now now' (w, l)
              = ((Result_zero, if o2 = Some NotFound then None else o2),
                 (w3, l @ [(CallGet KindTTLResource (keyOf t), None),
                           (CallStatusUpdate
                              (latest\<lparr>Status := (Status latest)\<lparr>Expired := True\<rparr>\<rparr>), None),
                           (CallDelete KindTTLResource (keyOf latest), o2)])))
       \<and> (e < now \<and> client_Get r req w = (Inr t, w1)
            \<and> client_StatusUpdate r (t\<lparr>Status := (Status t)\<lparr>Expired := True\<rparr>\<rparr>) w1 = (Inr rv, w2)
            \<and> client_Delete r KindTTLResource (keyOf t) w2 = (out, w3) \<longrightarrow>
            TTLResourceReconciler_Reconcile r req now (w, l)
              = ((Result_zero, out),
                 (w3, l @ [(CallGet KindTTLResource req, None),
                           (CallStatusUpdate (t\<lparr>Status := (Status t)\<lparr>Expired := True\<rparr>\<rparr>), None),
                           (CallDelete KindTTLResource (keyOf t), out)])))"
proof (intro conjI impI)
  assume "now < e"
  then show "reconcileTTLResource r t now now' s
              = ((Result_zero\<lparr>RequeueAfter := Time_Sub e now\<rparr>, None), s)"
    using assms
    by (simp add: reconcileTTLResource_initialised checkExpiry_def Time_Before_def)
next
  assume "now < e \<and> client_Get r req w = (Inr t, w1)"
  then show "TTLResourceReconciler_Reconcile r req now (w, l)
              = ((Result_zero\<lparr>RequeueAfter := Time_Sub e now\<rparr>, None),
                 (w1, l @ [(CallGet KindTTLResource req, None)]))"
    using assms
    by (simp add: TTLResourceReconciler_Reconcile_def expireOrRequeue_def r_Get_def errorOf_def
          Time_IsZero_def Time_After_def)
next
  assume "now < e \<and> e - now \<le> maxDuration"
  then show "now + Time_Sub e now = e"
    by (simp add: Time_Sub_def maxDuration_def minDuration_def)
next
  assume h: "CreatedAt (Status x) = 0 \<and> ExpiredAt (Status x) = None
            \<and> CreationTimestamp (Meta x) \<noteq> 0
            \<and> 0 < TTLSeconds (Spec x) \<and> TTLSeconds (Spec x) \<le> 9223372036
            \<and> x' = x\<lparr>Status := (Status x)
                     \<lparr>CreatedAt := CreationTimestamp (Meta x),
                      ExpiredAt := Some (CreationTimestamp (Meta x) + TTLSeconds (Spec x) * Second)\<rparr>\<rparr>
            \<and> client_Get r (keyOf x) w = (Inr x, w1)
            \<and> client_StatusUpdate r x' w1 = (Inr rv, w2)"
  have d: "Duration_Seconds (TTLSeconds (Spec x)) = TTLSeconds (Spec x) * Second"
    using h by (intro Duration_Seconds_exact) simp_all
  have i: "initStatus x = x'"
    using h initStatus_fresh [of x] by (simp add: d Time_Add_def)
  show "reconcileTTLResource r x now now' (w, l)
              = checkExpiry r (setResourceVersion x' rv) now'
                  (w2, l @ [(CallGet KindTTLResource (keyOf x), None),
                            (CallStatusUpdate x', None)])"
    using h i by (clarsimp simp: reconcileTTLResource_def updateStatusIfNeeded_unfold ops)
next
  assume h: "CreatedAt (Status x) \<noteq> 0 \<and> ExpiredAt (Status x) = None
            \<and> 0 < TTLSeconds (Spec x) \<and> TTLSeconds (Spec x) \<le> 9223372036
            \<and> x' = x\<lparr>Status := (Status x)
                     \<lparr>ExpiredAt := Some (CreatedAt (Status x) + TTLSeconds (Spec x) * Second)\<rparr>\<rparr>
            \<and> client_Get r req w = (Inr x, w1)
            \<and> client_StatusUpdate r x' w1 = (Inr rv, w2)"
  have d: "Duration_Seconds (TTLSeconds (Spec x)) = TTLSeconds (Spec x) * Second"
    using h by (intro Duration_Seconds_exact) simp_all
  show "TTLResourceReconciler_Reconcile r req now (w, l)
              = expireOrRequeue r (setResourceVersion x' rv)
                  (CreatedAt (Status x) + TTLSeconds (Spec x) * Second) now
                  (w2, l @ [(CallGet KindTTLResource req, None), (CallStatusUpdate x', None)])"
    using h
    by (clarsimp simp: TTLResourceReconciler_Reconcile_def ops Time_IsZero_def Time_Add_def d Let_def)
next
  let ?x = "latest\<lparr>Status := (Status latest)\<lparr>Expired := True\<rparr>\<rparr>"
  let ?l2 = "l @ [(CallGet KindTTLResource (keyOf t), None), (CallStatusUpdate ?x, None)]"
  assume h: "e \<le> now \<and> client_Get r (keyOf t) w = (Inr latest, w1)
            \<and> UID (Meta latest) = UID (Meta t) \<and> \<not> Expired (Status latest)
            \<and> client_StatusUpdate r ?x w1 = (Inr rv, w2)
            \<and> ownerTarget latest = Some (k, key)
            \<and> client_Delete r k key w2 = (o1, w3)
            \<and> client_Delete r KindTTLResource (keyOf latest) w3 = (o2, w4)"
  have red: "reconcileTTLResource r t now now' (w, l)
               = deleteExpiredResources r (setResourceVersion ?x rv) (w2, ?l2)"
    using assms h
    by (simp add: reconcileTTLResource_initialised checkExpiry_def ops Time_Before_def Let_def)
  show "reconcileTTLResource r t now now' (w, l)
              = ((Result_zero, if o2 = Some NotFound then None else o2),
                 (w4, l @ [(CallGet KindTTLResource (keyOf t), None),
                           (CallStatusUpdate ?x, None),
                           (CallDelete k key, o1),
                           (CallDelete KindTTLResource (keyOf latest), o2)]))"
    using h deleteExpiredResources_with_owner
            [of "setResourceVersion ?x rv" k key r w2 o1 w3 o2 w4 ?l2]
    by (simp add: red)
next
  let ?x = "latest\<lparr>Status := (Status latest)\<lparr>Expired := True\<rparr>\<rparr>"
  let ?l2 = "l @ [(CallGet KindTTLResource (keyOf t), None), (CallStatusUpdate ?x, None)]"
  assume h: "e \<le> now \<and> client_Get r (keyOf t) w = (Inr latest, w1)
            \<and> UID (Meta latest) = UID (Meta t) \<and> \<not> Expired (Status latest)
            \<and> client_StatusUpdate r ?x w1 = (Inr rv, w2)
            \<and> ownerTarget latest = None
            \<and> client_Delete r KindTTLResource (keyOf latest) w2 = (o2, w3)"
  have red: "reconcileTTLResource r t now now' (w, l)
               = deleteExpiredResources r (setResourceVersion ?x rv) (w2, ?l2)"
    using assms h
    by (simp add: reconcileTTLResource_initialised checkExpiry_def ops Time_Before_def Let_def)
  show "reconcileTTLResource r t now now' (w, l)
              = ((Result_zero, if o2 = Some NotFound then None else o2),
                 (w3, l @ [(CallGet KindTTLResource (keyOf t), None),
                           (CallStatusUpdate ?x, None),
                           (CallDelete KindTTLResource (keyOf latest), o2)]))"
    using h deleteExpiredResources_without_owner
            [of "setResourceVersion ?x rv" r w2 o2 w3 ?l2]
    by (simp add: red)
next
  assume "e < now \<and> client_Get r req w = (Inr t, w1)
            \<and> client_StatusUpdate r (t\<lparr>Status := (Status t)\<lparr>Expired := True\<rparr>\<rparr>) w1 = (Inr rv, w2)
            \<and> client_Delete r KindTTLResource (keyOf t) w2 = (out, w3)"
  then show "TTLResourceReconciler_Reconcile r req now (w, l)
              = ((Result_zero, out),
                 (w3, l @ [(CallGet KindTTLResource req, None),
                           (CallStatusUpdate (t\<lparr>Status := (Status t)\<lparr>Expired := True\<rparr>\<rparr>), None),
                           (CallDelete KindTTLResource (keyOf t), out)]))"
    using assms
    by (cases out)
       (simp_all add: TTLResourceReconciler_Reconcile_def expireOrRequeue_def ops
          Time_IsZero_def Time_After_def Let_def)
qed

theorem timer_correctness_witness:
  "TTLSeconds (Spec (sampleRecord 60 scheduledStatus)) \<noteq> 0
   \<and> CreatedAt (Status (sampleRecord 60 scheduledStatus)) \<noteq> 0
   \<and> ExpiredAt (Status (sampleRecord 60 scheduledStatus)) = Some (1060 * Second)
   \<and> \<not> Expired (Status (sampleRecord 60 scheduledStatus))
   \<and> 1010 * Second < 1060 * Second
   \<and> reconcileTTLResource scripted (sampleRecord 60 scheduledStatus) (1010 * Second) (1011 * Second)
        ([], [])
      = ((\<lparr>Requeue = False, RequeueAfter = 50 * Second\<rparr>, None), ([], []))
   \<and> TTLResourceReconciler_Reconcile scripted (''default'', ''ttl-web'') (1010 * Second)
        ([RespTTLResource (sampleRecord 60 scheduledStatus)], [])
      = ((\<lparr>Requeue = False, RequeueAfter = 50 * Second\<rparr>, None),
         ([], [(CallGet KindTTLResource (''default'', ''ttl-web''), None)]))
   \<and> 1010 * Second + Time_Sub (1060 * Second) (1010 * Second) = 1060 * Second
   \<and> reconcileTTLResource scripted (sampleRecord 60 TTLResourceStatus_zero)
        (1010 * Second) (1011 * Second)
        ([RespTTLResource (sampleRecord 60 TTLResourceStatus_zero), RespVersion 8], [])
      = ((\<lparr>Requeue = False, RequeueAfter = 49 * Second\<rparr>, None),
         ([], [(CallGet KindTTLResource (''default'', ''ttl-web''), None),
               (CallStatusUpdate (sampleRecord 60 scheduledStatus), None)]))
   \<and> TTLResourceReconciler_Reconcile scripted (''default'', ''ttl-web'') (1010 * Second)
        ([RespTTLResource (sampleRecord 60 createdStatus), RespVersion 8], [])
      = ((\<lparr>Requeue = False, RequeueAfter = 50 * Second\<rparr>, None),
         ([], [(CallGet KindTTLResource (''default'', ''ttl-web''), None),
               (CallStatusUpdate (sampleRecord 60 scheduledStatus), None)]))
   \<and> 1060 * Second \<le> 1060 * Second
   \<and> reconcileTTLResource scripted (sampleRecord 60 scheduledStatus) (1060 * Second) (1061 * Second)
        ([RespTTLResource (sampleRecord 60 scheduledStatus), RespVersion 8,
          RespError OtherError, RespOK], [])
      = ((Result_zero, None),
         ([], [(CallGet KindTTLResource (''default'', ''ttl-web''), None),
               (CallStatusUpdate (sampleRecord 60 expiredStatus), None),
               (CallDelete KindPod (''default'', ''web''), Some OtherError),
               (CallDelete KindTTLResource (''default'', ''ttl-web''), None)]))
   \<and> reconcileTTLResource scripted (standaloneRecord 60 scheduledStatus)
        (1060 * Second) (1061 * Second)
        ([RespTTLResource (standaloneRecord 60 scheduledStatus), RespVersion 8,
          RespError NotFound], [])
      = ((Result_zero, None),
         ([], [(CallGet KindTTLResource (''default'', ''ttl-web''), None),
               (CallStatusUpdate (standaloneRecord 60 expiredStatus), None),
               (CallDelete KindTTLResource (''default'', ''ttl-web''), Some NotFound)]))
   \<and> 1060 * Second < 2000 * Second
   \<and> TTLResourceReconciler_Reconcile scripted (''default'', ''ttl-web'') (2000 * Second)
        ([RespTTLResource (sampleRecord 60 scheduledStatus), RespVersion 8, RespOK], [])
      = ((Result_zero, None),
         ([], [(CallGet KindTTLResource (''default'', ''ttl-web''), None),
               (CallStatusUpdate (sampleRecord 60 expiredStatus), None),
               (CallDelete KindTTLResource (''default'', ''ttl-web''), None)]))"
proof -
  let ?t = "sampleRecord 60 scheduledStatus"
  let ?x = "?t\<lparr>Status := (Status ?t)\<lparr>Expired := True\<rparr>\<rparr>"
  let ?b = "standaloneRecord 60 scheduledStatus"
  let ?bx = "?b\<lparr>Status := (Status ?b)\<lparr>Expired := True\<rparr>\<rparr>"
  let ?f = "sampleRecord 60 TTLResourceStatus_zero"
  let ?c = "sampleRecord 60 createdStatus"
  have a: "TTLSeconds (Spec ?t) \<noteq> 0" by (simp add: sample_defs)
  have b: "CreatedAt (Status ?t) \<noteq> 0" by (simp add: sample_defs Second_def)
  have c: "ExpiredAt (Status ?t) = Some (1060 * Second)" by (simp add: sample_defs)
  have d: "\<not> Expired (Status ?t)" by (simp add: sample_defs)
  have a2: "TTLSeconds (Spec ?b) \<noteq> 0" by (simp add: sample_defs)
  have b2: "CreatedAt (Status ?b) \<noteq> 0" by (simp add: sample_defs Second_def)
  have c2: "ExpiredAt (Status ?b) = Some (1060 * Second)" by (simp add: sample_defs)
  have d2: "\<not> Expired (Status ?b)" by (simp add: sample_defs)
  have k: "keyOf ?t = (''default'', ''ttl-web'')" "keyOf ?b = (''default'', ''ttl-web'')"
    "keyOf ?f = (''default'', ''ttl-web'')"
    by (simp_all add: keyOf_def sample_defs)
  have x: "?x = sampleRecord 60 expiredStatus" "?bx = standaloneRecord 60 expiredStatus"
    by (simp_all add: sample_defs)
  have g1: "client_Get scripted (''default'', ''ttl-web'') [RespTTLResource ?t] = (Inr ?t, [])"
    by (simp add: scripted_def)
  have t1: "1010 * Second < 1060 * Second" "1060 * Second < 2000 * Second"
    "1060 * Second - 1010 * Second \<le> maxDuration"
    by (simp_all add: time_defs)
  have s50: "Time_Sub (1060 * Second) (1010 * Second) = 50 * Second"
    by (simp add: time_defs)
  note T = timer_correctness [OF a b c d]
  note T2 = timer_correctness [OF a2 b2 c2 d2]
  have r1: "reconcileTTLResource scripted ?t (1010 * Second) (1011 * Second) ([], [])
      = ((\<lparr>Requeue = False, RequeueAfter = 50 * Second\<rparr>, None), ([], []))"
    using T [THEN conjunct1, rule_format, OF t1(1), of scripted "1011 * Second" "([], [])"]
    by (simp add: s50 Result_zero_def)
  have r2: "TTLResourceReconciler_Reconcile scripted (''default'', ''ttl-web'') (1010 * Second)
        ([RespTTLResource ?t], [])
      = ((\<lparr>Requeue = False, RequeueAfter = 50 * Second\<rparr>, None),
         ([], [(CallGet KindTTLResource (''default'', ''ttl-web''), None)]))"
    using T [THEN conjunct2, THEN conjunct1, rule_format, OF conjI [OF t1(1) g1], of "[]"]
    by (simp add: s50 Result_zero_def)
  have r3: "1010 * Second + Time_Sub (1060 * Second) (1010 * Second) = 1060 * Second"
    using T [THEN conjunct2, THEN conjunct2, THEN conjunct1, rule_format, OF conjI [OF t1(1) t1(3)]]
    by simp
  have r4: "reconcileTTLResource scripted ?f (1010 * Second) (1011 * Second)
        ([RespTTLResource ?f, RespVersion 8], [])
      = ((\<lparr>Requeue = False, RequeueAfter = 49 * Second\<rparr>, None),
         ([], [(CallGet KindTTLResource (''default'', ''ttl-web''), None),
               (CallStatusUpdate ?t, None)]))"
  proof -
    have p: "CreatedAt (Status ?f) = 0 \<and> ExpiredAt (Status ?f) = None
        \<and> CreationTimestamp (Meta ?f) \<noteq> 0
        \<and> 0 < TTLSeconds (Spec ?f) \<and> TTLSeconds (Spec ?f) \<le> 9223372036
        \<and> ?t = ?f\<lparr>Status := (Status ?f)
                 \<lparr>CreatedAt := CreationTimestamp (Meta ?f),
                  ExpiredAt := Some (CreationTimestamp (Meta ?f) + TTLSeconds (Spec ?f) * Second)\<rparr>\<rparr>
        \<and> client_Get scripted (keyOf ?f) [RespTTLResource ?f, RespVersion 8]
            = (Inr ?f, [RespVersion 8])
        \<and> client_StatusUpdate scripted ?t [RespVersion 8] = (Inr 8, [])"
      by (simp add: sample_defs TTLResourceStatus_zero_def scripted_def Second_def)
    have q: "checkExpiry scripted (setResourceVersion ?t 8) (1011 * Second) (w, l)
               = ((\<lparr>Requeue = False, RequeueAfter = 49 * Second\<rparr>, None), (w, l))" for w l
      by (simp add: checkExpiry_def setResourceVersion_def sample_defs time_defs Result_zero_def)
    show ?thesis
      by (subst T [THEN conjunct2, THEN conjunct2, THEN conjunct2, THEN conjunct1,
                   rule_format, OF p])
         (simp add: q k)
  qed
  have r5: "TTLResourceReconciler_Reconcile scripted (''default'', ''ttl-web'') (1010 * Second)
        ([RespTTLResource ?c, RespVersion 8], [])
      = ((\<lparr>Requeue = False, RequeueAfter = 50 * Second\<rparr>, None),
         ([], [(CallGet KindTTLResource (''default'', ''ttl-web''), None),
               (CallStatusUpdate ?t, None)]))"
  proof -
    have p: "CreatedAt (Status ?c) \<noteq> 0 \<and> ExpiredAt (Status ?c) = None
        \<and> 0 < TTLSeconds (Spec ?c) \<and> TTLSeconds (Spec ?c) \<le> 9223372036
        \<and> ?t = ?c\<lparr>Status := (Status ?c)
                 \<lparr>ExpiredAt := Some (CreatedAt (Status ?c) + TTLSeconds (Spec ?c) * Second)\<rparr>\<rparr>
        \<and> client_Get scripted (''default'', ''ttl-web'') [RespTTLResource ?c, RespVersion 8]
            = (Inr ?c, [RespVersion 8])
        \<and> client_StatusUpdate scripted ?t [RespVersion 8] = (Inr 8, [])"
      by (simp add: sample_defs scripted_def Second_def)
    have q: "expireOrRequeue scripted (setResourceVersion ?t 8)
               (CreatedAt (Status ?c) + TTLSeconds (Spec ?c) * Second) (1010 * Second) (w, l)
               = ((\<lparr>Requeue = False, RequeueAfter = 50 * Second\<rparr>, None), (w, l))" for w l
      by (simp add: expireOrRequeue_def setResourceVersion_def sample_defs time_defs Result_zero_def)
    show ?thesis
      by (subst T [THEN conjunct2, THEN conjunct2, THEN conjunct2, THEN conjunct2, THEN conjunct1,
                   rule_format, OF p])
         (simp add: q)
  qed
  have r6: "reconcileTTLResource scripted ?t (1060 * Second) (1061 * Second)
        ([RespTTLResource ?t, RespVersion 8, RespError OtherError, RespOK], [])
      = ((Result_zero, None),
         ([], [(CallGet KindTTLResource (''default'', ''ttl-web''), None),
               (CallStatusUpdate (sampleRecord 60 expiredStatus), None),
               (CallDelete KindPod (''default'', ''web''), Some OtherError),
               (CallDelete KindTTLResource (''default'', ''ttl-web''), None)]))"
  proof -
    have p: "1060 * Second \<le> 1060 * Second
        \<and> client_Get scripted (keyOf ?t)
              [RespTTLResource ?t, RespVersion 8, RespError OtherError, RespOK]
            = (Inr ?t, [RespVersion 8, RespError OtherError, RespOK])
        \<and> UID (Meta ?t) = UID (Meta ?t) \<and> \<not> Expired (Status ?t)
        \<and> client_StatusUpdate scripted ?x [RespVersion 8, RespError OtherError, RespOK]
            = (Inr 8, [RespError OtherError, RespOK])
        \<and> ownerTarget ?t = Some (KindPod, (''default'', ''web''))
        \<and> client_Delete scripted KindPod (''default'', ''web'') [RespError OtherError, RespOK]
            = (Some OtherError, [RespOK])
        \<and> client_Delete scripted KindTTLResource (keyOf ?t) [RespOK] = (None, [])"
      by (simp add: scripted_def ownerTarget_def ParseGroupVersion_def resolveKind_def sample_defs)
    show ?thesis
      by (subst T [THEN conjunct2, THEN conjunct2, THEN conjunct2, THEN conjunct2, THEN conjunct2,
                   THEN conjunct1, rule_format, OF p])
         (simp add: k x)
  qed
  have r7: "reconcileTTLResource scripted ?b (1060 * Second) (1061 * Second)
        ([RespTTLResource ?b, RespVersion 8, RespError NotFound], [])
      = ((Result_zero, None),
         ([], [(CallGet KindTTLResource (''default'', ''ttl-web''), None),
               (CallStatusUpdate (standaloneRecord 60 expiredStatus), None),
               (CallDelete KindTTLResource (''default'', ''ttl-web''), Some NotFound)]))"
  proof -
    have p: "1060 * Second \<le> 1060 * Second
        \<and> client_Get scripted (keyOf ?b) [RespTTLResource ?b, RespVersion 8, RespError NotFound]
            = (Inr ?b, [RespVersion 8, RespError NotFound])
        \<and> UID (Meta ?b) = UID (Meta ?b) \<and> \<not> Expired (Status ?b)
        \<and> client_StatusUpdate scripted ?bx [RespVersion 8, RespError NotFound]
            = (Inr 8, [RespError NotFound])
        \<and> ownerTarget ?b = None
        \<and> client_Delete scripted KindTTLResource (keyOf ?b) [RespError NotFound]
            = (Some NotFound, [])"
      by (simp add: scripted_def ownerTarget_def sample_defs)
    show ?thesis
      by (subst T2 [THEN conjunct2, THEN conjunct2, THEN conjunct2, THEN conjunct2, THEN conjunct2,
                    THEN conjunct2, THEN conjunct1, rule_format, OF p])
         (simp add: k x)
  qed
  have r8: "TTLResourceReconciler_Reconcile scripted (''default'', ''ttl-web'') (2000 * Second)
        ([RespTTLResource ?t, RespVersion 8, RespOK], [])
      = ((Result_zero, None),
         ([], [(CallGet KindTTLResource (''default'', ''ttl-web''), None),
               (CallStatusUpdate (sampleRecord 60 expiredStatus), None),
               (CallDelete KindTTLResource (''default'', ''ttl-web''), None)]))"
  proof -
    have p: "1060 * Second < 2000 * Second
        \<and> client_Get scripted (''default'', ''ttl-web'') [RespTTLResource ?t, RespVersion 8, RespOK]
            = (Inr ?t, [RespVersion 8, RespOK])
        \<and> client_StatusUpdate scripted ?x [RespVersion 8, RespOK] = (Inr 8, [RespOK])
        \<and> client_Delete scripted KindTTLResource (keyOf ?t) [RespOK] = (None, [])"
      using t1(2) by (simp add: scripted_def)
    show ?thesis
      by (subst T [THEN conjunct2, THEN conjunct2, THEN conjunct2, THEN conjunct2, THEN conjunct2,
                   THEN conjunct2, THEN conjunct2, rule_format, OF p])
         (simp add: k x)
  qed
  show ?thesis
    using a b c d t1(1) t1(2) r1 r2 r3 r4 r5 r6 r7 r8 by blast
qed

subsection \<open>Unset is absorbing\<close>

text \<open>
  C2. A tracking record whose \<open>spec.ttlSeconds\<close> is 0 is left alone by both
  reconcilers, whatever its other fields and whatever the time: the reconciliation
  returns success with no requeue, and the read that found the record is the only request
  it issues, so that no status is written and nothing is deleted. The same holds of
  \<open>reconcileTTLResource\<close> itself, which issues no request at all.
\<close>

theorem unset_is_absorbing:
  assumes "client_Get r req w = (Inr t, w1)" and "TTLSeconds (Spec t) = 0"
  shows "TTLResourceReconciler_Reconcile r req now (w, l)
           = ((Result_zero, None), (w1, l @ [(CallGet KindTTLResource req, None)]))
       \<and> ResourceReconciler_Reconcile r req now now' (w, l)
           = ((Result_zero, None), (w1, l @ [(CallGet KindTTLResource req, None)]))
       \<and> reconcileTTLResource r t now now' s = ((Result_zero, None), s)"
  using assms
  by (simp add: TTLResourceReconciler_Reconcile_def ResourceReconciler_Reconcile_def
        reconcileTTLResource_def ops)

theorem unset_is_absorbing_witness:
  "client_Get scripted (''default'', ''ttl-web'')
       [RespTTLResource (sampleRecord 0 \<lparr>Expired = True, CreatedAt = 5, ExpiredAt = Some 3\<rparr>)]
     = (Inr (sampleRecord 0 \<lparr>Expired = True, CreatedAt = 5, ExpiredAt = Some 3\<rparr>), [])
   \<and> TTLSeconds (Spec (sampleRecord 0 \<lparr>Expired = True, CreatedAt = 5, ExpiredAt = Some 3\<rparr>)) = 0
   \<and> TTLResourceReconciler_Reconcile scripted (''default'', ''ttl-web'') 99
       ([RespTTLResource (sampleRecord 0 \<lparr>Expired = True, CreatedAt = 5, ExpiredAt = Some 3\<rparr>)], [])
     = ((Result_zero, None), ([], [(CallGet KindTTLResource (''default'', ''ttl-web''), None)]))
   \<and> ResourceReconciler_Reconcile scripted (''default'', ''ttl-web'') 99 100
       ([RespTTLResource (sampleRecord 0 \<lparr>Expired = True, CreatedAt = 5, ExpiredAt = Some 3\<rparr>)], [])
     = ((Result_zero, None), ([], [(CallGet KindTTLResource (''default'', ''ttl-web''), None)]))"
proof -
  have g: "client_Get scripted (''default'', ''ttl-web'')
       [RespTTLResource (sampleRecord 0 \<lparr>Expired = True, CreatedAt = 5, ExpiredAt = Some 3\<rparr>)]
     = (Inr (sampleRecord 0 \<lparr>Expired = True, CreatedAt = 5, ExpiredAt = Some 3\<rparr>), [])"
    by (simp add: scripted_def)
  have z: "TTLSeconds (Spec (sampleRecord 0 \<lparr>Expired = True, CreatedAt = 5, ExpiredAt = Some 3\<rparr>)) = 0"
    by (simp add: sampleRecord_def)
  show ?thesis
    using g z unset_is_absorbing [OF g z, of 99 "[]" 100] by simp
qed

subsection \<open>Conflict on a status write\<close>

text \<open>
  C3, as the claim states it, fails for the TTLResourceReconciler: when its status write
  answers Conflict, the reconciliation returns the Conflict as its error (lines 82-84).
\<close>

theorem standalone_surfaces_conflict:
  "TTLResourceReconciler_Reconcile scripted (''default'', ''ttl-web'') (1001 * Second)
      ([RespTTLResource (sampleRecord 60 TTLResourceStatus_zero), RespError Conflict], [])
   = ((Result_zero, Some Conflict),
      ([], [(CallGet KindTTLResource (''default'', ''ttl-web''), None),
            (CallStatusUpdate
               (sampleRecord 60 \<lparr>Expired = False, CreatedAt = 1000 * Second, ExpiredAt = None\<rparr>),
             Some Conflict)]))"
  by (simp add: model_defs time_defs ops sample_defs)

lemma expireOrRequeue_conflict:
  assumes "(CallStatusUpdate obj, Some Conflict) \<in> set (snd (snd (expireOrRequeue r t e now (w, l))))"
    and "(CallStatusUpdate obj, Some Conflict) \<notin> set l"
  shows "fst (expireOrRequeue r t e now (w, l)) = (Result_zero, Some Conflict)"
  using assms
  by (auto simp: expireOrRequeue_def ops Let_def split: if_splits prod.splits sum.splits option.splits)

lemma standalone_conflict:
  assumes "(CallStatusUpdate obj, Some Conflict)
        \<in> set (snd (snd (TTLResourceReconciler_Reconcile r req now (w, []))))"
  shows "fst (TTLResourceReconciler_Reconcile r req now (w, [])) = (Result_zero, Some Conflict)"
proof -
  obtain res w1 where g: "client_Get r req w = (res, w1)" by (metis surj_pair)
  show ?thesis
  proof (cases res)
    case (Inl err)
    then show ?thesis using assms g
      by (auto simp: TTLResourceReconciler_Reconcile_def r_Get_def errorOf_def split: if_splits)
  next
    case (Inr t)
    show ?thesis
    proof (cases "TTLSeconds (Spec t) = 0 \<or> Time_IsZero (CreatedAt (Status t))")
      case True
      then show ?thesis using assms g Inr
        by (auto simp: TTLResourceReconciler_Reconcile_def ops Let_def
            split: if_splits prod.splits sum.splits)
    next
      case False
      show ?thesis
      proof (cases "ExpiredAt (Status t)")
        case (Some e)
        then show ?thesis
          using assms g Inr False
            expireOrRequeue_conflict [of obj r t e now w1 "[(CallGet KindTTLResource req, None)]"]
          by (simp add: TTLResourceReconciler_Reconcile_def r_Get_def errorOf_def)
      next
        case None
        let ?e = "Time_Add (CreatedAt (Status t)) (Duration_Seconds (TTLSeconds (Spec t)))"
        let ?t = "t\<lparr>Status := (Status t)\<lparr>ExpiredAt := Some ?e\<rparr>\<rparr>"
        obtain res2 w2 where u: "client_StatusUpdate r ?t w1 = (res2, w2)" by (metis surj_pair)
        show ?thesis
        proof (cases res2)
          case (Inl err)
          then show ?thesis using assms g Inr False None u
            by (auto simp: TTLResourceReconciler_Reconcile_def ops Let_def)
        next
          case (Inr rv)
          then show ?thesis
            using assms g \<open>res = Inr t\<close> False None u
              expireOrRequeue_conflict [of obj r "setResourceVersion ?t rv" ?e now w2
                "[(CallGet KindTTLResource req, None), (CallStatusUpdate ?t, None)]"]
            by (simp add: TTLResourceReconciler_Reconcile_def ops Let_def)
        qed
      qed
    qed
  qed
qed

lemma checkExpiry_conflict:
  assumes "(CallStatusUpdate obj, Some Conflict) \<in> set (snd (snd (checkExpiry r cur now (w, l))))"
    and "(CallStatusUpdate obj, Some Conflict) \<notin> set l"
  shows "fst (checkExpiry r cur now (w, l)) = (Result_zero\<lparr>RequeueAfter := Second\<rparr>, None)"
  using assms
  by (auto simp: checkExpiry_def ops Let_def deleteExpiredResources_StatusUpdate
      split: if_splits prod.splits sum.splits option.splits)

lemma updateStatusIfNeeded_conflict:
  assumes "(CallStatusUpdate obj, Some Conflict) \<notin> set l"
  shows "case updateStatusIfNeeded r t now now' (w, l) of
           (Inl ret, s1) \<Rightarrow>
             (CallStatusUpdate obj, Some Conflict) \<in> set (snd s1) \<longrightarrow>
               ret = (Result_zero\<lparr>RequeueAfter := Second\<rparr>, None)
         | (Inr _, s1) \<Rightarrow> (CallStatusUpdate obj, Some Conflict) \<notin> set (snd s1)"
  using assms
  by (auto simp: updateStatusIfNeeded_unfold ops
      split: if_splits prod.splits sum.splits option.splits)

lemma reconcileTTLResource_conflict:
  assumes "(CallStatusUpdate obj, Some Conflict) \<in> set (snd (snd (reconcileTTLResource r t now now' (w, l))))"
    and "(CallStatusUpdate obj, Some Conflict) \<notin> set l"
  shows "fst (reconcileTTLResource r t now now' (w, l)) = (Result_zero\<lparr>RequeueAfter := Second\<rparr>, None)"
proof (cases "TTLSeconds (Spec t) = 0")
  case True
  then show ?thesis using assms by (simp add: reconcileTTLResource_def)
next
  case False
  obtain res w1 l1 where u: "updateStatusIfNeeded r t now now' (w, l) = (res, (w1, l1))"
    by (metis surj_pair)
  show ?thesis
  proof (cases res)
    case (Inl ret)
    then show ?thesis
      using assms False u updateStatusIfNeeded_conflict [OF assms(2), of r t now now' w]
      by (simp add: reconcileTTLResource_def)
  next
    case (Inr p)
    obtain cur n where p: "p = (cur, n)" by (cases p)
    have "(CallStatusUpdate obj, Some Conflict) \<notin> set l1"
      using Inr u updateStatusIfNeeded_conflict [OF assms(2), of r t now now' w] by simp
    then show ?thesis
      using assms(1) False u Inr p checkExpiry_conflict [of obj r cur n w1 l1]
      by (simp add: reconcileTTLResource_def)
  qed
qed

lemma probeTarget_keeps:
  "list_all (\<lambda>e. \<not> isStatusUpdate e) (snd s) \<Longrightarrow>
   list_all (\<lambda>e. \<not> isStatusUpdate e) (snd (snd (probeTarget r req s)))"
  by (auto simp: probeTarget_def ops isStatusUpdate_def split: prod.splits sum.splits)

lemma cleanupTTLResource_keeps:
  "list_all (\<lambda>e. \<not> isStatusUpdate e) (snd s) \<Longrightarrow>
   list_all (\<lambda>e. \<not> isStatusUpdate e) (snd (snd (cleanupTTLResource r req s)))"
  by (auto simp: cleanupTTLResource_def ops isStatusUpdate_def Let_def
      split: prod.splits sum.splits option.splits)

text \<open>A key that is no tracking record is reconciled without any status write.\<close>

lemma discovery_no_status_update:
  assumes "client_Get r req w = (Inl err, w1)"
  shows "list_all (\<lambda>e. \<not> isStatusUpdate e)
           (snd (snd (ResourceReconciler_Reconcile r req now now' (w, []))))"
proof (cases "err = NotFound")
  case False
  then show ?thesis using assms
    by (simp add: ResourceReconciler_Reconcile_def r_Get_def errorOf_def isStatusUpdate_def)
next
  case True
  let ?s1 = "(w1, [(CallGet KindTTLResource req, Some NotFound)])"
  obtain pr s2 where p: "probeTarget r req ?s1 = (pr, s2)" by (metis surj_pair)
  have k: "list_all (\<lambda>e. \<not> isStatusUpdate e) (snd s2)"
    using probeTarget_keeps [of ?s1 r req] p by (simp add: isStatusUpdate_def)
  have c: "list_all (\<lambda>e. \<not> isStatusUpdate e) (snd (snd (cleanupTTLResource r req s2)))"
    using k by (rule cleanupTTLResource_keeps)
  have r: "ResourceReconciler_Reconcile r req now now' (w, [])
      = (case pr of
           Inl err \<Rightarrow> ((Result_zero, Some err), s2)
         | Inr None \<Rightarrow> cleanupTTLResource r req s2
         | Inr (Some (obj, gvk, apiVersion)) \<Rightarrow>
             if DeletionTimestamp obj \<noteq> None then cleanupTTLResource r req s2
             else
               (case Annotations obj TTLAnnotationKey of
                  None \<Rightarrow> cleanupTTLResource r req s2
                | Some ttlSecondsStr \<Rightarrow>
                    (case Atoi ttlSecondsStr of
                       None \<Rightarrow> ((Result_zero, None), s2)
                     | Some ttlSeconds \<Rightarrow>
                         if ttlSeconds \<le> 0 then ((Result_zero, None), s2)
                         else
                           (case r_Get r (fst req, ''ttl-'' @ Name obj) s2 of
                              (Inr existingTTLResource, s3) \<Rightarrow>
                                if TTLSeconds (Spec existingTTLResource) \<noteq> ttlSeconds then
                                  (case r_Update r
                                          (existingTTLResource
                                             \<lparr>Spec := (Spec existingTTLResource)\<lparr>TTLSeconds := ttlSeconds\<rparr>,
                                              Status := TTLResourceStatus_zero\<rparr>) s3 of
                                     (Inl err, s4) \<Rightarrow>
                                       if err = Conflict then ((Result_zero, None), s4)
                                       else ((Result_zero, Some err), s4)
                                   | (Inr _, s4) \<Rightarrow> ((Result_zero, None), s4))
                                else ((Result_zero, None), s3)
                            | (Inl err, s3) \<Rightarrow>
                                if err \<noteq> NotFound then ((Result_zero, Some err), s3)
                                else
                                  (case r_Create r
                                          (newTTLResource (''ttl-'' @ Name obj) (fst req) apiVersion gvk obj ttlSeconds)
                                          s3 of
                                     (Some err, s4) \<Rightarrow>
                                       if err = AlreadyExists then ((Result_zero, None), s4)
                                       else ((Result_zero, Some err), s4)
                                   | (None, s4) \<Rightarrow> ((Result_zero, None), s4))))))"
    using assms True p
    by (simp add: ResourceReconciler_Reconcile_def r_Get_def errorOf_def Let_def
        split: sum.splits option.splits prod.splits)
  obtain w2 l2 where s2: "s2 = (w2, l2)" by (cases s2)
  show ?thesis
    unfolding r using k c s2
    by (auto simp: ops isStatusUpdate_def split: sum.splits option.splits prod.splits)
qed

text \<open>
  C3, amended. In the ResourceReconciler, a status write that answers Conflict is never
  returned as an error: whenever the trace of \<open>reconcileTTLResource\<close>, or of
  \<open>Reconcile\<close>, holds a status update answered by Conflict, the reconciliation returns
  success and asks to be run again after one second. The TTLResourceReconciler returns
  the Conflict of a status write as its error, with no requeue of its own.
\<close>

theorem status_conflict_handling:
  "((CallStatusUpdate obj, Some Conflict)
        \<in> set (snd (snd (reconcileTTLResource r t now now' (w, [])))) \<longrightarrow>
      fst (reconcileTTLResource r t now now' (w, []))
        = (\<lparr>Requeue = False, RequeueAfter = Second\<rparr>, None))
   \<and> ((CallStatusUpdate obj, Some Conflict)
        \<in> set (snd (snd (ResourceReconciler_Reconcile r req now now' (w, [])))) \<longrightarrow>
      fst (ResourceReconciler_Reconcile r req now now' (w, []))
        = (\<lparr>Requeue = False, RequeueAfter = Second\<rparr>, None))
   \<and> ((CallStatusUpdate obj, Some Conflict)
        \<in> set (snd (snd (TTLResourceReconciler_Reconcile r req now (w, [])))) \<longrightarrow>
      fst (TTLResourceReconciler_Reconcile r req now (w, [])) = (Result_zero, Some Conflict))"
proof (intro conjI impI)
  assume "(CallStatusUpdate obj, Some Conflict)
        \<in> set (snd (snd (reconcileTTLResource r t now now' (w, []))))"
  then show "fst (reconcileTTLResource r t now now' (w, []))
        = (\<lparr>Requeue = False, RequeueAfter = Second\<rparr>, None)"
    using reconcileTTLResource_conflict [of obj r t now now' w "[]"]
    by (simp add: Result_zero_def)
next
  assume a: "(CallStatusUpdate obj, Some Conflict)
        \<in> set (snd (snd (ResourceReconciler_Reconcile r req now now' (w, []))))"
  obtain res w1 where g: "client_Get r req w = (res, w1)" by (metis surj_pair)
  show "fst (ResourceReconciler_Reconcile r req now now' (w, []))
        = (\<lparr>Requeue = False, RequeueAfter = Second\<rparr>, None)"
  proof (cases res)
    case (Inr ttlResource)
    then show ?thesis
      using a g reconcileTTLResource_conflict [of obj r ttlResource now now' w1
          "[(CallGet KindTTLResource req, None)]"]
      by (simp add: ResourceReconciler_Reconcile_def r_Get_def errorOf_def Result_zero_def)
  next
    case (Inl err)
    then have "list_all (\<lambda>e. \<not> isStatusUpdate e)
           (snd (snd (ResourceReconciler_Reconcile r req now now' (w, []))))"
      using g discovery_no_status_update [of r req w err w1 now now'] by simp
    then show ?thesis
      using a by (auto simp: list_all_iff isStatusUpdate_def)
  qed
next
  assume "(CallStatusUpdate obj, Some Conflict)
        \<in> set (snd (snd (TTLResourceReconciler_Reconcile r req now (w, []))))"
  then show "fst (TTLResourceReconciler_Reconcile r req now (w, [])) = (Result_zero, Some Conflict)"
    by (rule standalone_conflict)
qed

theorem status_conflict_handling_witness:
  "(CallStatusUpdate
       (sampleRecord 60 \<lparr>Expired = True, CreatedAt = 1000 * Second, ExpiredAt = Some (1060 * Second)\<rparr>),
     Some Conflict)
     \<in> set (snd (snd (reconcileTTLResource scripted
          (sampleRecord 60 \<lparr>Expired = False, CreatedAt = 1000 * Second, ExpiredAt = Some (1060 * Second)\<rparr>)
          (2000 * Second) (2001 * Second)
          ([RespTTLResource
              (sampleRecord 60 \<lparr>Expired = False, CreatedAt = 1000 * Second, ExpiredAt = Some (1060 * Second)\<rparr>),
            RespError Conflict], []))))
   \<and> fst (reconcileTTLResource scripted
          (sampleRecord 60 \<lparr>Expired = False, CreatedAt = 1000 * Second, ExpiredAt = Some (1060 * Second)\<rparr>)
          (2000 * Second) (2001 * Second)
          ([RespTTLResource
              (sampleRecord 60 \<lparr>Expired = False, CreatedAt = 1000 * Second, ExpiredAt = Some (1060 * Second)\<rparr>),
            RespError Conflict], []))
     = (\<lparr>Requeue = False, RequeueAfter = Second\<rparr>, None)
   \<and> (CallStatusUpdate
       (sampleRecord 60 \<lparr>Expired = False, CreatedAt = 1000 * Second, ExpiredAt = Some (1060 * Second)\<rparr>),
     Some Conflict)
     \<in> set (snd (snd (ResourceReconciler_Reconcile scripted (''default'', ''ttl-web'')
          (1001 * Second) (1002 * Second)
          ([RespTTLResource (sampleRecord 60 TTLResourceStatus_zero),
            RespTTLResource (sampleRecord 60 TTLResourceStatus_zero),
            RespError Conflict], []))))
   \<and> fst (ResourceReconciler_Reconcile scripted (''default'', ''ttl-web'')
          (1001 * Second) (1002 * Second)
          ([RespTTLResource (sampleRecord 60 TTLResourceStatus_zero),
            RespTTLResource (sampleRecord 60 TTLResourceStatus_zero),
            RespError Conflict], []))
     = (\<lparr>Requeue = False, RequeueAfter = Second\<rparr>, None)
   \<and> (CallStatusUpdate
       (sampleRecord 60 \<lparr>Expired = False, CreatedAt = 1000 * Second, ExpiredAt = None\<rparr>),
     Some Conflict)
     \<in> set (snd (snd (TTLResourceReconciler_Reconcile scripted (''default'', ''ttl-web'')
          (1001 * Second)
          ([RespTTLResource (sampleRecord 60 TTLResourceStatus_zero), RespError Conflict], []))))
   \<and> fst (TTLResourceReconciler_Reconcile scripted (''default'', ''ttl-web'')
          (1001 * Second)
          ([RespTTLResource (sampleRecord 60 TTLResourceStatus_zero), RespError Conflict], []))
     = (Result_zero, Some Conflict)"
proof -
  let ?sched = "sampleRecord 60
     \<lparr>Expired = False, CreatedAt = 1000 * Second, ExpiredAt = Some (1060 * Second)\<rparr>"
  let ?fresh = "sampleRecord 60 TTLResourceStatus_zero"
  have m1: "(CallStatusUpdate
       (sampleRecord 60 \<lparr>Expired = True, CreatedAt = 1000 * Second, ExpiredAt = Some (1060 * Second)\<rparr>),
     Some Conflict)
     \<in> set (snd (snd (reconcileTTLResource scripted ?sched (2000 * Second) (2001 * Second)
          ([RespTTLResource ?sched, RespError Conflict], []))))"
    by (simp add: model_defs time_defs ops sample_defs)
  have m2: "(CallStatusUpdate ?sched, Some Conflict)
     \<in> set (snd (snd (ResourceReconciler_Reconcile scripted (''default'', ''ttl-web'')
          (1001 * Second) (1002 * Second)
          ([RespTTLResource ?fresh, RespTTLResource ?fresh, RespError Conflict], []))))"
    by (simp add: model_defs time_defs ops sample_defs)
  have m3: "(CallStatusUpdate
       (sampleRecord 60 \<lparr>Expired = False, CreatedAt = 1000 * Second, ExpiredAt = None\<rparr>),
     Some Conflict)
     \<in> set (snd (snd (TTLResourceReconciler_Reconcile scripted (''default'', ''ttl-web'')
          (1001 * Second) ([RespTTLResource ?fresh, RespError Conflict], []))))"
    by (simp add: model_defs time_defs ops sample_defs)
  show ?thesis
    using m1 m2 m3
      status_conflict_handling [THEN conjunct1, rule_format, OF m1]
      status_conflict_handling [THEN conjunct2, THEN conjunct1, rule_format, OF m2]
      status_conflict_handling [THEN conjunct2, THEN conjunct2, rule_format, OF m3]
    by simp
qed

subsection \<open>The UID guard\<close>

text \<open>
  C4, as the claim states it, fails for the TTLResourceReconciler: when the expiry instant
  has passed, it marks the record it read at the start expired and deletes it, with no
  second read and no comparison of UIDs between the first read and the writes.
\<close>

theorem standalone_cascade_without_reread:
  "TTLResourceReconciler_Reconcile scripted (''default'', ''ttl-web'') (2000 * Second)
      ([RespTTLResource (sampleRecord 60 scheduledStatus), RespVersion 8, RespOK], [])
   = ((Result_zero, None),
      ([], [(CallGet KindTTLResource (''default'', ''ttl-web''), None),
            (CallStatusUpdate (sampleRecord 60 expiredStatus), None),
            (CallDelete KindTTLResource (''default'', ''ttl-web''), None)]))"
  by (simp add: model_defs time_defs ops sample_defs)

text \<open>
  The TTLResourceReconciler reads the record once, as its first request, and never again:
  whatever the client answers, no later request of the reconciliation is a read.
\<close>

lemma expireOrRequeue_no_read:
  "\<exists>es. snd (snd (expireOrRequeue r t e now (w, l))) = l @ es
        \<and> list_all (\<lambda>ev. \<not> isGet ev) es"
  by (auto simp: expireOrRequeue_def ops Let_def isGet_def
      split: prod.splits sum.splits option.splits)

lemma standalone_single_read:
  "\<exists>es. snd (snd (TTLResourceReconciler_Reconcile r req now (w, l)))
          = l @ (CallGet KindTTLResource req, errorOf (fst (client_Get r req w))) # es
        \<and> list_all (\<lambda>ev. \<not> isGet ev) es"
proof -
  obtain res w1 where g: "client_Get r req w = (res, w1)" by (metis surj_pair)
  show ?thesis
  proof (cases res)
    case (Inl err)
    then show ?thesis using g
      by (auto simp: TTLResourceReconciler_Reconcile_def r_Get_def)
  next
    case (Inr t)
    show ?thesis
    proof (cases "TTLSeconds (Spec t) = 0 \<or> Time_IsZero (CreatedAt (Status t))")
      case True
      then show ?thesis using g Inr
        by (auto simp: TTLResourceReconciler_Reconcile_def ops Let_def isGet_def
            split: prod.splits sum.splits)
    next
      case False
      show ?thesis
      proof (cases "ExpiredAt (Status t)")
        case (Some e)
        then show ?thesis
          using g Inr False
            expireOrRequeue_no_read [of r t e now w1 "l @ [(CallGet KindTTLResource req, None)]"]
          by (auto simp: TTLResourceReconciler_Reconcile_def r_Get_def errorOf_def)
      next
        case None
        let ?e = "Time_Add (CreatedAt (Status t)) (Duration_Seconds (TTLSeconds (Spec t)))"
        let ?t = "t\<lparr>Status := (Status t)\<lparr>ExpiredAt := Some ?e\<rparr>\<rparr>"
        obtain res2 w2 where u: "client_StatusUpdate r ?t w1 = (res2, w2)" by (metis surj_pair)
        show ?thesis
        proof (cases res2)
          case (Inl err)
          then show ?thesis using g Inr False None u
            by (auto simp: TTLResourceReconciler_Reconcile_def ops Let_def isGet_def)
        next
          case (Inr rv)
          obtain es where es: "snd (snd (expireOrRequeue r (setResourceVersion ?t rv) ?e now
                (w2, l @ [(CallGet KindTTLResource req, None), (CallStatusUpdate ?t, None)])))
              = (l @ [(CallGet KindTTLResource req, None), (CallStatusUpdate ?t, None)]) @ es"
            and nr: "list_all (\<lambda>ev. \<not> isGet ev) es"
            using expireOrRequeue_no_read [of r "setResourceVersion ?t rv" ?e now w2
                "l @ [(CallGet KindTTLResource req, None), (CallStatusUpdate ?t, None)]"]
            by blast
          have "snd (snd (TTLResourceReconciler_Reconcile r req now (w, l)))
                  = l @ (CallGet KindTTLResource req, errorOf (fst (client_Get r req w)))
                        # ((CallStatusUpdate ?t, None) # es)"
            using g \<open>res = Inr t\<close> False None u Inr es
            by (simp add: TTLResourceReconciler_Reconcile_def ops Let_def)
          moreover have "list_all (\<lambda>ev. \<not> isGet ev) ((CallStatusUpdate ?t, None) # es)"
            using nr by (simp add: isGet_def)
          ultimately show ?thesis by blast
        qed
      qed
    qed
  qed
qed

text \<open>
  C4, amended. In the ResourceReconciler, whenever the expiry check signals the cascade
  (the record is marked expired, or its expiry instant is not after \<open>now\<close>), the first
  request is a fresh read of the record, before any status write and any deletion. When
  that read returns a record with another UID, the reconciliation returns success and
  issues nothing else. When the read fails, nothing else is issued either, and the
  reconciliation returns success if the failure is NotFound and the failure itself
  otherwise. A record whose status is initialised reaches the expiry check at once. The
  TTLResourceReconciler has no such guard: the read that opens its reconciliation is its
  only one, and a scheduled record it reads strictly after the expiry instant is marked
  expired and deleted as read, by name, whatever its UID has become in the meantime.
\<close>

theorem uid_guard:
  assumes "Expired (Status cur) \<or> (\<exists>e. ExpiredAt (Status cur) = Some e \<and> \<not> Time_Before now e)"
    and "client_Get r (keyOf cur) w = (res, w1)"
  shows "(\<exists>es. snd (snd (checkExpiry r cur now (w, l)))
              = l @ (CallGet KindTTLResource (keyOf cur), errorOf res) # es)
       \<and> (res = Inr latest \<and> UID (Meta latest) \<noteq> UID (Meta cur) \<longrightarrow>
            checkExpiry r cur now (w, l)
              = ((Result_zero, None), (w1, l @ [(CallGet KindTTLResource (keyOf cur), None)])))
       \<and> (res = Inl err \<longrightarrow>
            checkExpiry r cur now (w, l)
              = ((Result_zero, if err = NotFound then None else Some err),
                 (w1, l @ [(CallGet KindTTLResource (keyOf cur), Some err)])))
       \<and> (TTLSeconds (Spec cur) \<noteq> 0 \<and> CreatedAt (Status cur) \<noteq> 0
            \<and> ExpiredAt (Status cur) \<noteq> None \<longrightarrow>
            reconcileTTLResource r cur now now' (w, l) = checkExpiry r cur now (w, l))
       \<and> (\<exists>es. snd (snd (TTLResourceReconciler_Reconcile r' req t0 (v, l)))
                  = l @ (CallGet KindTTLResource req, errorOf (fst (client_Get r' req v))) # es
                \<and> list_all (\<lambda>ev. \<not> isGet ev) es)
       \<and> (TTLSeconds (Spec t) \<noteq> 0 \<and> CreatedAt (Status t) \<noteq> 0
            \<and> ExpiredAt (Status t) = Some e \<and> \<not> Expired (Status t) \<and> Time_After t0 e
            \<and> client_Get r' req v = (Inr t, v1)
            \<and> client_StatusUpdate r' (t\<lparr>Status := (Status t)\<lparr>Expired := True\<rparr>\<rparr>) v1 = (Inr rv, v2)
            \<and> client_Delete r' KindTTLResource (keyOf t) v2 = (out, v3) \<longrightarrow>
            TTLResourceReconciler_Reconcile r' req t0 (v, l)
              = ((Result_zero, out),
                 (v3, l @ [(CallGet KindTTLResource req, None),
                           (CallStatusUpdate (t\<lparr>Status := (Status t)\<lparr>Expired := True\<rparr>\<rparr>), None),
                           (CallDelete KindTTLResource (keyOf t), out)])))"
proof (intro conjI)
  show "\<exists>es. snd (snd (checkExpiry r cur now (w, l)))
              = l @ (CallGet KindTTLResource (keyOf cur), errorOf res) # es"
    using assms by (rule checkExpiry_starts_with_read)
next
  show "res = Inr latest \<and> UID (Meta latest) \<noteq> UID (Meta cur) \<longrightarrow>
            checkExpiry r cur now (w, l)
              = ((Result_zero, None), (w1, l @ [(CallGet KindTTLResource (keyOf cur), None)]))"
    using assms by (auto simp: checkExpiry_def r_Get_def errorOf_def)
next
  show "res = Inl err \<longrightarrow>
            checkExpiry r cur now (w, l)
              = ((Result_zero, if err = NotFound then None else Some err),
                 (w1, l @ [(CallGet KindTTLResource (keyOf cur), Some err)]))"
    using assms by (auto simp: checkExpiry_def r_Get_def errorOf_def)
next
  show "TTLSeconds (Spec cur) \<noteq> 0 \<and> CreatedAt (Status cur) \<noteq> 0
            \<and> ExpiredAt (Status cur) \<noteq> None \<longrightarrow>
            reconcileTTLResource r cur now now' (w, l) = checkExpiry r cur now (w, l)"
    by (simp add: reconcileTTLResource_initialised)
next
  show "\<exists>es. snd (snd (TTLResourceReconciler_Reconcile r' req t0 (v, l)))
                  = l @ (CallGet KindTTLResource req, errorOf (fst (client_Get r' req v))) # es
                \<and> list_all (\<lambda>ev. \<not> isGet ev) es"
    by (rule standalone_single_read)
next
  show "TTLSeconds (Spec t) \<noteq> 0 \<and> CreatedAt (Status t) \<noteq> 0
            \<and> ExpiredAt (Status t) = Some e \<and> \<not> Expired (Status t) \<and> Time_After t0 e
            \<and> client_Get r' req v = (Inr t, v1)
            \<and> client_StatusUpdate r' (t\<lparr>Status := (Status t)\<lparr>Expired := True\<rparr>\<rparr>) v1 = (Inr rv, v2)
            \<and> client_Delete r' KindTTLResource (keyOf t) v2 = (out, v3) \<longrightarrow>
            TTLResourceReconciler_Reconcile r' req t0 (v, l)
              = ((Result_zero, out),
                 (v3, l @ [(CallGet KindTTLResource req, None),
                           (CallStatusUpdate (t\<lparr>Status := (Status t)\<lparr>Expired := True\<rparr>\<rparr>), None),
                           (CallDelete KindTTLResource (keyOf t), out)]))"
    by (cases out)
       (simp_all add: TTLResourceReconciler_Reconcile_def expireOrRequeue_def ops
          Time_IsZero_def Let_def)
qed

theorem uid_guard_witness:
  "(Expired (Status (sampleRecord 60 scheduledStatus))
      \<or> (\<exists>e. ExpiredAt (Status (sampleRecord 60 scheduledStatus)) = Some e
             \<and> \<not> Time_Before (2000 * Second) e))
   \<and> client_Get scripted (keyOf (sampleRecord 60 scheduledStatus))
        [RespTTLResource (recreatedRecord 60), RespVersion 9, RespOK, RespOK]
      = (Inr (recreatedRecord 60), [RespVersion 9, RespOK, RespOK])
   \<and> UID (Meta (recreatedRecord 60)) \<noteq> UID (Meta (sampleRecord 60 scheduledStatus))
   \<and> reconcileTTLResource scripted (sampleRecord 60 scheduledStatus) (2000 * Second) (2001 * Second)
        ([RespTTLResource (recreatedRecord 60), RespVersion 9, RespOK, RespOK], [])
      = ((Result_zero, None),
         ([RespVersion 9, RespOK, RespOK],
          [(CallGet KindTTLResource (''default'', ''ttl-web''), None)]))
   \<and> client_Get scripted (keyOf (sampleRecord 60 scheduledStatus))
        [RespError NotFound, RespVersion 9, RespOK, RespOK]
      = (Inl NotFound, [RespVersion 9, RespOK, RespOK])
   \<and> reconcileTTLResource scripted (sampleRecord 60 scheduledStatus) (2000 * Second) (2001 * Second)
        ([RespError NotFound, RespVersion 9, RespOK, RespOK], [])
      = ((Result_zero, None),
         ([RespVersion 9, RespOK, RespOK],
          [(CallGet KindTTLResource (''default'', ''ttl-web''), Some NotFound)]))
   \<and> client_Get scripted (keyOf (sampleRecord 60 scheduledStatus))
        [RespError OtherError, RespVersion 9, RespOK, RespOK]
      = (Inl OtherError, [RespVersion 9, RespOK, RespOK])
   \<and> reconcileTTLResource scripted (sampleRecord 60 scheduledStatus) (2000 * Second) (2001 * Second)
        ([RespError OtherError, RespVersion 9, RespOK, RespOK], [])
      = ((Result_zero, Some OtherError),
         ([RespVersion 9, RespOK, RespOK],
          [(CallGet KindTTLResource (''default'', ''ttl-web''), Some OtherError)]))
   \<and> (\<exists>es. snd (snd (TTLResourceReconciler_Reconcile scripted (''default'', ''ttl-web'')
                        (2000 * Second)
                        ([RespTTLResource (sampleRecord 60 scheduledStatus), RespVersion 8, RespOK],
                         [])))
              = (CallGet KindTTLResource (''default'', ''ttl-web''), None) # es
            \<and> list_all (\<lambda>ev. \<not> isGet ev) es)
   \<and> Time_After (2000 * Second) (1060 * Second)
   \<and> TTLResourceReconciler_Reconcile scripted (''default'', ''ttl-web'') (2000 * Second)
        ([RespTTLResource (sampleRecord 60 scheduledStatus), RespVersion 8, RespOK], [])
      = ((Result_zero, None),
         ([], [(CallGet KindTTLResource (''default'', ''ttl-web''), None),
               (CallStatusUpdate (sampleRecord 60 expiredStatus), None),
               (CallDelete KindTTLResource (''default'', ''ttl-web''), None)]))"
proof -
  let ?cur = "sampleRecord 60 scheduledStatus"
  let ?x = "?cur\<lparr>Status := (Status ?cur)\<lparr>Expired := True\<rparr>\<rparr>"
  let ?w = "[RespTTLResource (recreatedRecord 60), RespVersion 9, RespOK, RespOK]"
  let ?wn = "[RespError NotFound, RespVersion 9, RespOK, RespOK]"
  let ?wo = "[RespError OtherError, RespVersion 9, RespOK, RespOK]"
  let ?ws = "[RespTTLResource ?cur, RespVersion 8, RespOK]"
  have c: "Expired (Status ?cur)
      \<or> (\<exists>e. ExpiredAt (Status ?cur) = Some e \<and> \<not> Time_Before (2000 * Second) e)"
    by (simp add: sample_defs time_defs)
  have g: "client_Get scripted (keyOf ?cur) ?w = (Inr (recreatedRecord 60), [RespVersion 9, RespOK, RespOK])"
    by (simp add: scripted_def)
  have gn: "client_Get scripted (keyOf ?cur) ?wn = (Inl NotFound, [RespVersion 9, RespOK, RespOK])"
    by (simp add: scripted_def)
  have go: "client_Get scripted (keyOf ?cur) ?wo = (Inl OtherError, [RespVersion 9, RespOK, RespOK])"
    by (simp add: scripted_def)
  have u: "UID (Meta (recreatedRecord 60)) \<noteq> UID (Meta ?cur)"
    by (simp add: recreatedRecord_def sample_defs)
  have i: "TTLSeconds (Spec ?cur) \<noteq> 0 \<and> CreatedAt (Status ?cur) \<noteq> 0 \<and> ExpiredAt (Status ?cur) \<noteq> None"
    by (simp add: sample_defs time_defs)
  have k: "keyOf ?cur = (''default'', ''ttl-web'')" by (simp add: keyOf_def sample_defs)
  have x: "?x = sampleRecord 60 expiredStatus" by (simp add: sample_defs)
  have ta: "Time_After (2000 * Second) (1060 * Second)" by (simp add: time_defs)
  have gs: "client_Get scripted (''default'', ''ttl-web'') ?ws = (Inr ?cur, [RespVersion 8, RespOK])"
    by (simp add: scripted_def)
  have r1: "reconcileTTLResource scripted ?cur (2000 * Second) (2001 * Second) (?w, [])
      = ((Result_zero, None),
         ([RespVersion 9, RespOK, RespOK],
          [(CallGet KindTTLResource (''default'', ''ttl-web''), None)]))"
    by (subst uid_guard [OF c g, THEN conjunct2, THEN conjunct2, THEN conjunct2, THEN conjunct1,
                         rule_format, OF i],
        subst uid_guard [OF c g, THEN conjunct2, THEN conjunct1, rule_format,
                         OF conjI [OF refl u]])
       (simp add: k)
  have r2: "reconcileTTLResource scripted ?cur (2000 * Second) (2001 * Second) (?wn, [])
      = ((Result_zero, None),
         ([RespVersion 9, RespOK, RespOK],
          [(CallGet KindTTLResource (''default'', ''ttl-web''), Some NotFound)]))"
    by (subst uid_guard [OF c gn, THEN conjunct2, THEN conjunct2, THEN conjunct2, THEN conjunct1,
                         rule_format, OF i],
        subst uid_guard [OF c gn, THEN conjunct2, THEN conjunct2, THEN conjunct1, rule_format,
                         OF refl])
       (simp add: k)
  have r3: "reconcileTTLResource scripted ?cur (2000 * Second) (2001 * Second) (?wo, [])
      = ((Result_zero, Some OtherError),
         ([RespVersion 9, RespOK, RespOK],
          [(CallGet KindTTLResource (''default'', ''ttl-web''), Some OtherError)]))"
    by (subst uid_guard [OF c go, THEN conjunct2, THEN conjunct2, THEN conjunct2, THEN conjunct1,
                         rule_format, OF i],
        subst uid_guard [OF c go, THEN conjunct2, THEN conjunct2, THEN conjunct1, rule_format,
                         OF refl])
       (simp add: k)
  note S = uid_guard [OF c g, THEN conjunct2, THEN conjunct2, THEN conjunct2, THEN conjunct2]
  have r4: "\<exists>es. snd (snd (TTLResourceReconciler_Reconcile scripted (''default'', ''ttl-web'')
                        (2000 * Second) (?ws, [])))
              = (CallGet KindTTLResource (''default'', ''ttl-web''), None) # es
            \<and> list_all (\<lambda>ev. \<not> isGet ev) es"
    using S [THEN conjunct1, of scripted "(''default'', ''ttl-web'')" "2000 * Second" ?ws "[]"]
    by (simp add: gs errorOf_def)
  have r5: "TTLResourceReconciler_Reconcile scripted (''default'', ''ttl-web'') (2000 * Second)
        (?ws, [])
      = ((Result_zero, None),
         ([], [(CallGet KindTTLResource (''default'', ''ttl-web''), None),
               (CallStatusUpdate (sampleRecord 60 expiredStatus), None),
               (CallDelete KindTTLResource (''default'', ''ttl-web''), None)]))"
  proof -
    have p: "TTLSeconds (Spec ?cur) \<noteq> 0 \<and> CreatedAt (Status ?cur) \<noteq> 0
        \<and> ExpiredAt (Status ?cur) = Some (1060 * Second) \<and> \<not> Expired (Status ?cur)
        \<and> Time_After (2000 * Second) (1060 * Second)
        \<and> client_Get scripted (''default'', ''ttl-web'') ?ws = (Inr ?cur, [RespVersion 8, RespOK])
        \<and> client_StatusUpdate scripted ?x [RespVersion 8, RespOK] = (Inr 8, [RespOK])
        \<and> client_Delete scripted KindTTLResource (keyOf ?cur) [RespOK] = (None, [])"
      using ta by (simp add: scripted_def sample_defs Second_def)
    show ?thesis
      by (subst S [THEN conjunct2, rule_format, OF p]) (simp add: k x)
  qed
  show ?thesis
    using c g u gn go ta r1 r2 r3 r4 r5 by blast
qed

subsection \<open>Annotation absent or malformed\<close>

text \<open>
  C5, as the claim states it, fails: for a Pod whose TTL annotation is not an integer, with
  its managed tracking record in the cluster, the reconciliation reads the key as a
  tracking record and as a Pod and stops: the cluster is unchanged, and the record is
  still there.
\<close>

theorem malformed_annotation_leaves_record:
  "ResourceReconciler_Reconcile apiserver (''default'', ''web'') (1001 * Second) (1002 * Second)
      (sampleCluster [TTLAnnotationKey \<mapsto> ''abc''] (sampleRecord 60 TTLResourceStatus_zero), [])
   = ((Result_zero, None),
      (sampleCluster [TTLAnnotationKey \<mapsto> ''abc''] (sampleRecord 60 TTLResourceStatus_zero),
       [(CallGet KindTTLResource (''default'', ''web''), Some NotFound),
        (CallGet KindPod (''default'', ''web''), None)]))
   \<and> ttlResources
        (sampleCluster [TTLAnnotationKey \<mapsto> ''abc''] (sampleRecord 60 TTLResourceStatus_zero))
        (''default'', ''ttl-web'') = Some (sampleRecord 60 TTLResourceStatus_zero)
   \<and> labelOf (Meta (sampleRecord 60 TTLResourceStatus_zero)) TTLResourceLabelKey
        = TTLResourceLabelValue"
  by (simp add: ResourceReconciler_Reconcile_def probeTarget_def ops apiserver_def
        sampleCluster_def samplePod_def sampleRecord_def sampleMeta_def labelOf_def
        TTLAnnotationKey_def Atoi_def digitVal_def Let_def)

text \<open>
  C5, amended. For a key that is no tracking record and resolves to a target that is not
  being deleted: when the TTL annotation is absent, the reconciler performs the reverse
  clean-up and stops; when the annotation is present and is not an integer or is not
  positive, the reconciler returns success at once and issues no further request, so the
  record, if there is one, stays. The reverse clean-up reads the record named
  \<open>ttl-\<close> followed by the target's name: when there is none it is done, and when the
  record carries the managed-by label it requests the record's deletion, a NotFound
  answer counting as success.
\<close>

theorem annotation_absent_or_malformed:
  assumes "client_Get r req w = (Inl NotFound, w1)"
    and "probeTarget r req (w1, l @ [(CallGet KindTTLResource req, Some NotFound)])
           = (Inr (Some (obj, gvk, apiVersion)), s2)"
    and "DeletionTimestamp obj = None"
  shows "(Annotations obj TTLAnnotationKey = None \<longrightarrow>
            ResourceReconciler_Reconcile r req now now' (w, l) = cleanupTTLResource r req s2)
       \<and> (Annotations obj TTLAnnotationKey = Some v
            \<and> (Atoi v = None \<or> (\<exists>n. Atoi v = Some n \<and> n \<le> 0)) \<longrightarrow>
            ResourceReconciler_Reconcile r req now now' (w, l) = ((Result_zero, None), s2))
       \<and> (client_Get r (fst req, ''ttl-'' @ snd req) w3 = (Inl NotFound, w4) \<longrightarrow>
            cleanupTTLResource r req (w3, l3)
              = ((Result_zero, None),
                 (w4, l3 @ [(CallGet KindTTLResource (fst req, ''ttl-'' @ snd req), Some NotFound)])))
       \<and> (client_Get r (fst req, ''ttl-'' @ snd req) w3 = (Inr ttlResource, w4)
            \<and> labelOf (Meta ttlResource) TTLResourceLabelKey = TTLResourceLabelValue
            \<and> client_Delete r KindTTLResource (keyOf ttlResource) w4 = (out, w5)
            \<and> (out = None \<or> out = Some NotFound) \<longrightarrow>
            cleanupTTLResource r req (w3, l3)
              = ((Result_zero, None),
                 (w5, l3 @ [(CallGet KindTTLResource (fst req, ''ttl-'' @ snd req), None),
                            (CallDelete KindTTLResource (keyOf ttlResource), out)])))"
proof (intro conjI)
  show "Annotations obj TTLAnnotationKey = None \<longrightarrow>
            ResourceReconciler_Reconcile r req now now' (w, l) = cleanupTTLResource r req s2"
    using assms by (simp add: ResourceReconciler_Reconcile_def r_Get_def errorOf_def)
next
  show "Annotations obj TTLAnnotationKey = Some v
            \<and> (Atoi v = None \<or> (\<exists>n. Atoi v = Some n \<and> n \<le> 0)) \<longrightarrow>
            ResourceReconciler_Reconcile r req now now' (w, l) = ((Result_zero, None), s2)"
    using assms by (auto simp: ResourceReconciler_Reconcile_def r_Get_def errorOf_def)
next
  show "client_Get r (fst req, ''ttl-'' @ snd req) w3 = (Inl NotFound, w4) \<longrightarrow>
            cleanupTTLResource r req (w3, l3)
              = ((Result_zero, None),
                 (w4, l3 @ [(CallGet KindTTLResource (fst req, ''ttl-'' @ snd req), Some NotFound)]))"
    by (simp add: cleanupTTLResource_def ops Let_def)
next
  show "client_Get r (fst req, ''ttl-'' @ snd req) w3 = (Inr ttlResource, w4)
            \<and> labelOf (Meta ttlResource) TTLResourceLabelKey = TTLResourceLabelValue
            \<and> client_Delete r KindTTLResource (keyOf ttlResource) w4 = (out, w5)
            \<and> (out = None \<or> out = Some NotFound) \<longrightarrow>
            cleanupTTLResource r req (w3, l3)
              = ((Result_zero, None),
                 (w5, l3 @ [(CallGet KindTTLResource (fst req, ''ttl-'' @ snd req), None),
                            (CallDelete KindTTLResource (keyOf ttlResource), out)]))"
    by (auto simp: cleanupTTLResource_def ops Let_def)
qed

theorem annotation_absent_or_malformed_witness:
  "client_Get scripted (''default'', ''web'')
       [RespError NotFound, RespObject (samplePod Map.empty),
        RespTTLResource (sampleRecord 60 TTLResourceStatus_zero), RespOK]
     = (Inl NotFound, [RespObject (samplePod Map.empty),
                       RespTTLResource (sampleRecord 60 TTLResourceStatus_zero), RespOK])
   \<and> probeTarget scripted (''default'', ''web'')
       ([RespObject (samplePod Map.empty),
         RespTTLResource (sampleRecord 60 TTLResourceStatus_zero), RespOK],
        [(CallGet KindTTLResource (''default'', ''web''), Some NotFound)])
     = (Inr (Some (samplePod Map.empty, ''Pod'', ''v1'')),
        ([RespTTLResource (sampleRecord 60 TTLResourceStatus_zero), RespOK],
         [(CallGet KindTTLResource (''default'', ''web''), Some NotFound),
          (CallGet KindPod (''default'', ''web''), None)]))
   \<and> DeletionTimestamp (samplePod Map.empty) = None
   \<and> Annotations (samplePod Map.empty) TTLAnnotationKey = None
   \<and> ResourceReconciler_Reconcile scripted (''default'', ''web'') 5 6
       ([RespError NotFound, RespObject (samplePod Map.empty),
         RespTTLResource (sampleRecord 60 TTLResourceStatus_zero), RespOK], [])
     = ((Result_zero, None),
        ([], [(CallGet KindTTLResource (''default'', ''web''), Some NotFound),
              (CallGet KindPod (''default'', ''web''), None),
              (CallGet KindTTLResource (''default'', ''ttl-web''), None),
              (CallDelete KindTTLResource (''default'', ''ttl-web''), None)]))
   \<and> client_Get scripted (''default'', ''web'')
       [RespError NotFound, RespObject (samplePod [TTLAnnotationKey \<mapsto> ''-5''])]
     = (Inl NotFound, [RespObject (samplePod [TTLAnnotationKey \<mapsto> ''-5''])])
   \<and> Annotations (samplePod [TTLAnnotationKey \<mapsto> ''-5'']) TTLAnnotationKey = Some ''-5''
   \<and> Atoi ''-5'' = Some (- 5)
   \<and> ResourceReconciler_Reconcile scripted (''default'', ''web'') 5 6
       ([RespError NotFound, RespObject (samplePod [TTLAnnotationKey \<mapsto> ''-5''])], [])
     = ((Result_zero, None),
        ([], [(CallGet KindTTLResource (''default'', ''web''), Some NotFound),
              (CallGet KindPod (''default'', ''web''), None)]))"
proof -
  let ?rec = "sampleRecord 60 TTLResourceStatus_zero"
  let ?l1 = "[(CallGet KindTTLResource (''default'', ''web''), Some NotFound)]"
  let ?l2 = "[(CallGet KindTTLResource (''default'', ''web''), Some NotFound),
              (CallGet KindPod (''default'', ''web''), None)]"
  have g: "client_Get scripted (''default'', ''web'')
             [RespError NotFound, RespObject (samplePod Map.empty), RespTTLResource ?rec, RespOK]
           = (Inl NotFound, [RespObject (samplePod Map.empty), RespTTLResource ?rec, RespOK])"
    by (simp add: scripted_def)
  have p: "probeTarget scripted (''default'', ''web'')
             ([RespObject (samplePod Map.empty), RespTTLResource ?rec, RespOK], [] @ ?l1)
           = (Inr (Some (samplePod Map.empty, ''Pod'', ''v1'')), ([RespTTLResource ?rec, RespOK], ?l2))"
    by (simp add: probeTarget_def ops scripted_def)
  have d: "DeletionTimestamp (samplePod Map.empty) = None" by (simp add: samplePod_def)
  have a: "Annotations (samplePod Map.empty) TTLAnnotationKey = None" by (simp add: samplePod_def)
  have g': "client_Get scripted (''default'', ''web'')
             [RespError NotFound, RespObject (samplePod [TTLAnnotationKey \<mapsto> ''-5''])]
           = (Inl NotFound, [RespObject (samplePod [TTLAnnotationKey \<mapsto> ''-5''])])"
    by (simp add: scripted_def)
  have p': "probeTarget scripted (''default'', ''web'')
             ([RespObject (samplePod [TTLAnnotationKey \<mapsto> ''-5''])], [] @ ?l1)
           = (Inr (Some (samplePod [TTLAnnotationKey \<mapsto> ''-5''], ''Pod'', ''v1'')), ([], ?l2))"
    by (simp add: probeTarget_def ops scripted_def)
  have d': "DeletionTimestamp (samplePod [TTLAnnotationKey \<mapsto> ''-5'']) = None"
    by (simp add: samplePod_def)
  have a': "Annotations (samplePod [TTLAnnotationKey \<mapsto> ''-5'']) TTLAnnotationKey = Some ''-5''"
    by (simp add: samplePod_def)
  have n: "Atoi ''-5'' = Some (- 5)" by (simp add: Atoi_def digitVal_def)
  have c: "cleanupTTLResource scripted (''default'', ''web'') ([RespTTLResource ?rec, RespOK], ?l2)
           = ((Result_zero, None),
              ([], ?l2 @ [(CallGet KindTTLResource (''default'', ''ttl-web''), None),
                          (CallDelete KindTTLResource (''default'', ''ttl-web''), None)]))"
    using annotation_absent_or_malformed [OF g p d, THEN conjunct2, THEN conjunct2, THEN conjunct2,
       of "[RespTTLResource ?rec, RespOK]" ?rec "[RespOK]" None "[]" ?l2]
    by (simp add: scripted_def sampleRecord_def sampleMeta_def labelOf_def keyOf_def)
  have r1: "ResourceReconciler_Reconcile scripted (''default'', ''web'') 5 6
       ([RespError NotFound, RespObject (samplePod Map.empty), RespTTLResource ?rec, RespOK], [])
     = cleanupTTLResource scripted (''default'', ''web'') ([RespTTLResource ?rec, RespOK], ?l2)"
    using annotation_absent_or_malformed [OF g p d, THEN conjunct1] a by simp
  have r2: "ResourceReconciler_Reconcile scripted (''default'', ''web'') 5 6
       ([RespError NotFound, RespObject (samplePod [TTLAnnotationKey \<mapsto> ''-5''])], [])
     = ((Result_zero, None), ([], ?l2))"
    using annotation_absent_or_malformed [OF g' p' d', THEN conjunct2, THEN conjunct1, of "''-5''"] a' n
    by simp
  show ?thesis
    using g p d a g' a' n r1 r2 c by simp
qed

subsection \<open>Changing the TTL of a scheduled record\<close>

text \<open>
  What the Discovery Reconciler asks for when the annotation of a target differs from the
  TTL of its record: one \<^verbatim>\<open>Update\<close> of the record with the new TTL in the spec and the
  zero value as status (lines 144-148).
\<close>

lemma spec_change_update_request:
  assumes "client_Get r req w = (Inl NotFound, w1)"
    and "probeTarget r req (w1, l @ [(CallGet KindTTLResource req, Some NotFound)])
           = (Inr (Some (obj, gvk, apiVersion)), (w2, l2))"
    and "DeletionTimestamp obj = None"
    and "Annotations obj TTLAnnotationKey = Some v" and "Atoi v = Some n" and "0 < n"
    and "client_Get r (fst req, ''ttl-'' @ Name obj) w2 = (Inr existing, w3)"
    and "TTLSeconds (Spec existing) \<noteq> n"
    and "client_Update r
           (existing\<lparr>Spec := (Spec existing)\<lparr>TTLSeconds := n\<rparr>, Status := TTLResourceStatus_zero\<rparr>) w3
           = (Inr rv, w4)"
  shows "ResourceReconciler_Reconcile r req now now' (w, l)
           = ((Result_zero, None),
              (w4, l2 @ [(CallGet KindTTLResource (fst req, ''ttl-'' @ Name obj), None),
                         (CallUpdate
                            (existing\<lparr>Spec := (Spec existing)\<lparr>TTLSeconds := n\<rparr>,
                                      Status := TTLResourceStatus_zero\<rparr>), None)]))"
  using assms
  by (simp add: ResourceReconciler_Reconcile_def ops Let_def)

text \<open>
  C6 does not hold of the code. The Pod \<open>web\<close> is annotated with a TTL of 5 seconds
  while its record, created at second 1000, is scheduled with a TTL of 60 seconds and
  \<open>expiredAt\<close> at second 1060. Reconciling the Pod at second 1010 updates the record
  through \<^verbatim>\<open>Update\<close>: the API server stores the new spec and, the status being a
  subresource, keeps the stored status, so \<open>expiredAt\<close> is still second 1060. Reconciling
  the record at the same second finds \<open>expiredAt\<close> set, does not compute it again, and
  asks to be run again in 50 seconds, although second 1005, creation plus the new TTL,
  has passed.
\<close>

theorem spec_change_keeps_old_expiredAt:
  "ResourceReconciler_Reconcile apiserver (''default'', ''web'') (1010 * Second) (1011 * Second)
      (sampleCluster [TTLAnnotationKey \<mapsto> ''5''] (sampleRecord 60 scheduledStatus), [])
   = ((Result_zero, None),
      (sampleCluster [TTLAnnotationKey \<mapsto> ''5'']
         (setResourceVersion (sampleRecord 5 scheduledStatus) 8),
       [(CallGet KindTTLResource (''default'', ''web''), Some NotFound),
        (CallGet KindPod (''default'', ''web''), None),
        (CallGet KindTTLResource (''default'', ''ttl-web''), None),
        (CallUpdate (sampleRecord 5 TTLResourceStatus_zero), None)]))
   \<and> ResourceReconciler_Reconcile apiserver (''default'', ''ttl-web'') (1010 * Second) (1011 * Second)
      (sampleCluster [TTLAnnotationKey \<mapsto> ''5'']
         (setResourceVersion (sampleRecord 5 scheduledStatus) 8), [])
   = ((\<lparr>Requeue = False, RequeueAfter = 50 * Second\<rparr>, None),
      (sampleCluster [TTLAnnotationKey \<mapsto> ''5'']
         (setResourceVersion (sampleRecord 5 scheduledStatus) 8),
       [(CallGet KindTTLResource (''default'', ''ttl-web''), None)]))
   \<and> ExpiredAt (Status (setResourceVersion (sampleRecord 5 scheduledStatus) 8))
        = Some (1000 * Second + 60 * Second)
   \<and> CreationTimestamp (Meta (sampleRecord 5 scheduledStatus)) + 5 * Second < 1010 * Second"
proof (intro conjI)
  show "ResourceReconciler_Reconcile apiserver (''default'', ''web'') (1010 * Second) (1011 * Second)
      (sampleCluster [TTLAnnotationKey \<mapsto> ''5''] (sampleRecord 60 scheduledStatus), [])
   = ((Result_zero, None),
      (sampleCluster [TTLAnnotationKey \<mapsto> ''5'']
         (setResourceVersion (sampleRecord 5 scheduledStatus) 8),
       [(CallGet KindTTLResource (''default'', ''web''), Some NotFound),
        (CallGet KindPod (''default'', ''web''), None),
        (CallGet KindTTLResource (''default'', ''ttl-web''), None),
        (CallUpdate (sampleRecord 5 TTLResourceStatus_zero), None)]))"
    by (simp add: ResourceReconciler_Reconcile_def probeTarget_def ops apiserver_def
          apiserver_write_def sampleCluster_def samplePod_def sampleRecord_def sampleMeta_def
          scheduledStatus_def keyOf_def setResourceVersion_def TTLAnnotationKey_def Atoi_def
          digitVal_def Let_def)
next
  show "ResourceReconciler_Reconcile apiserver (''default'', ''ttl-web'') (1010 * Second) (1011 * Second)
      (sampleCluster [TTLAnnotationKey \<mapsto> ''5'']
         (setResourceVersion (sampleRecord 5 scheduledStatus) 8), [])
   = ((\<lparr>Requeue = False, RequeueAfter = 50 * Second\<rparr>, None),
      (sampleCluster [TTLAnnotationKey \<mapsto> ''5'']
         (setResourceVersion (sampleRecord 5 scheduledStatus) 8),
       [(CallGet KindTTLResource (''default'', ''ttl-web''), None)]))"
    by (simp add: model_defs time_defs ops apiserver_def sampleCluster_def sample_defs)
next
  show "ExpiredAt (Status (setResourceVersion (sampleRecord 5 scheduledStatus) 8))
        = Some (1000 * Second + 60 * Second)"
    by (simp add: sample_defs Second_def setResourceVersion_def)
next
  show "CreationTimestamp (Meta (sampleRecord 5 scheduledStatus)) + 5 * Second < 1010 * Second"
    by (simp add: sample_defs Second_def)
qed

subsection \<open>First observation\<close>




subsection \<open>The owner-kind resolver\<close>

text \<open>
  C8, as the claim states it, fails: when the deletion of the owner answers NotFound,
  \<open>deleteOwnerResource\<close> itself returns no error (lines 469-472), so the caller never
  sees the not-found condition.
\<close>

theorem resolver_returns_success_on_not_found:
  "deleteOwnerResource scripted podRef ''default'' ([RespError NotFound], [])
     = (None, ([], [(CallDelete KindPod (''default'', ''web''), Some NotFound)]))"
  by (simp add: deleteOwnerResource_def ParseGroupVersion_def resolveKind_def podRef_def
        scripted_def ops)

text \<open>
  C8, amended. For an owner reference whose apiVersion parses to group \<open>g\<close> and version
  \<open>v\<close>: a (group, version, kind) triple the resolver does not know fails with the
  error \<open>UnsupportedResourceType\<close>, distinct from every other error, and no request is
  issued; for a known triple one delete request is issued for the owner's name in the
  record's namespace, a NotFound answer is turned into success inside the resolver, and
  any other failure is returned as \<open>FailedToDeleteOwner\<close>. The known triples are exactly
  v1 Pod, v1 Service and apps/v1 Deployment.
\<close>

theorem owner_kind_resolver:
  assumes "ParseGroupVersion (ownerAPIVersion ownerRef) = Some (g, v)"
  shows "(resolveKind g v (ownerKind ownerRef) = None \<longrightarrow>
            deleteOwnerResource r ownerRef ns s
              = (Some (UnsupportedResourceType g v (ownerKind ownerRef)), s))
       \<and> (\<forall>k w1. resolveKind g v (ownerKind ownerRef) = Some k
              \<and> client_Delete r k (ns, ownerName ownerRef) w = (Some NotFound, w1) \<longrightarrow>
            deleteOwnerResource r ownerRef ns (w, l)
              = (None, (w1, l @ [(CallDelete k (ns, ownerName ownerRef), Some NotFound)])))
       \<and> (\<forall>k err w1. resolveKind g v (ownerKind ownerRef) = Some k
              \<and> client_Delete r k (ns, ownerName ownerRef) w = (Some err, w1)
              \<and> err \<noteq> NotFound \<longrightarrow>
            deleteOwnerResource r ownerRef ns (w, l)
              = (Some (FailedToDeleteOwner err),
                 (w1, l @ [(CallDelete k (ns, ownerName ownerRef), Some err)])))
       \<and> (resolveKind g v (ownerKind ownerRef) \<noteq> None \<longleftrightarrow>
            (g, v, ownerKind ownerRef) \<in>
               {('''', ''v1'', ''Pod''), ('''', ''v1'', ''Service''), (''apps'', ''v1'', ''Deployment'')})"
  using assms
  by (auto simp: deleteOwnerResource_def ops resolveKind_def)

theorem owner_kind_resolver_witness:
  "ParseGroupVersion (ownerAPIVersion jobRef) = Some (''batch'', ''v1'')
   \<and> resolveKind ''batch'' ''v1'' (ownerKind jobRef) = None
   \<and> deleteOwnerResource scripted jobRef ''default'' ([RespOK], [])
        = (Some (UnsupportedResourceType ''batch'' ''v1'' ''Job''), ([RespOK], []))
   \<and> ParseGroupVersion (ownerAPIVersion podRef) = Some ('''', ''v1'')
   \<and> resolveKind '''' ''v1'' (ownerKind podRef) = Some KindPod
   \<and> client_Delete scripted KindPod (''default'', ownerName podRef) [RespError NotFound]
        = (Some NotFound, [])
   \<and> deleteOwnerResource scripted podRef ''default'' ([RespError NotFound], [])
        = (None, ([], [(CallDelete KindPod (''default'', ''web''), Some NotFound)]))
   \<and> client_Delete scripted KindPod (''default'', ownerName podRef) [RespError Conflict]
        = (Some Conflict, [])
   \<and> deleteOwnerResource scripted podRef ''default'' ([RespError Conflict], [])
        = (Some (FailedToDeleteOwner Conflict),
           ([], [(CallDelete KindPod (''default'', ''web''), Some Conflict)]))"
proof -
  have j: "ParseGroupVersion (ownerAPIVersion jobRef) = Some (''batch'', ''v1'')"
    by (simp add: ParseGroupVersion_def jobRef_def)
  have jk: "resolveKind ''batch'' ''v1'' (ownerKind jobRef) = None"
    by (simp add: resolveKind_def jobRef_def)
  have p: "ParseGroupVersion (ownerAPIVersion podRef) = Some ('''', ''v1'')"
    by (simp add: ParseGroupVersion_def podRef_def)
  have pk: "resolveKind '''' ''v1'' (ownerKind podRef) = Some KindPod"
    by (simp add: resolveKind_def podRef_def)
  have d: "client_Delete scripted KindPod (''default'', ownerName podRef) [RespError NotFound]
        = (Some NotFound, [])"
    by (simp add: scripted_def)
  have c: "client_Delete scripted KindPod (''default'', ownerName podRef) [RespError Conflict]
        = (Some Conflict, [])"
    by (simp add: scripted_def)
  show ?thesis
    using j jk p pk d c
      owner_kind_resolver [OF j, of scripted "''default''" "([RespOK], [])"]
      owner_kind_resolver [OF p, of scripted "''default''" _ "[RespError NotFound]" "[]"]
      owner_kind_resolver [OF p, of scripted "''default''" _ "[RespError Conflict]" "[]"]
    by (simp add: jobRef_def podRef_def)
qed

subsection \<open>Negative TTLs\<close>

text \<open>
  C9, as the claim states it, fails. The TTL is multiplied by \<^verbatim>\<open>time.Second\<close> in
  int64, and for a TTL of -9223372037 seconds the product wraps around to a positive
  duration of about 292 years: the record created at second 1000 gets an \<open>expiredAt\<close>
  after its creation (the status write sent carries it), no deletion is requested, and
  the reconciliation returns success with a positive requeue delay. And the
  TTLResourceReconciler, for a TTL of -5 seconds, marks the record expired and deletes it
  without ever requesting the deletion of its owner, the Pod \<open>web\<close>.
\<close>

theorem negative_ttl_wraps_or_spares_owner:
  "Duration_Seconds (- 9223372037) = 9223372036709551616
   \<and> snd (fst (reconcileTTLResource scripted (sampleRecord (- 9223372037) TTLResourceStatus_zero)
        (1001 * Second) (1002 * Second)
        ([RespTTLResource (sampleRecord (- 9223372037) TTLResourceStatus_zero), RespVersion 8,
          RespTTLResource (sampleRecord (- 9223372037) TTLResourceStatus_zero), RespVersion 9,
          RespOK, RespOK], []))) = None
   \<and> 0 < RequeueAfter (fst (fst (reconcileTTLResource scripted
        (sampleRecord (- 9223372037) TTLResourceStatus_zero)
        (1001 * Second) (1002 * Second)
        ([RespTTLResource (sampleRecord (- 9223372037) TTLResourceStatus_zero), RespVersion 8,
          RespTTLResource (sampleRecord (- 9223372037) TTLResourceStatus_zero), RespVersion 9,
          RespOK, RespOK], []))))
   \<and> snd (reconcileTTLResource scripted (sampleRecord (- 9223372037) TTLResourceStatus_zero)
        (1001 * Second) (1002 * Second)
        ([RespTTLResource (sampleRecord (- 9223372037) TTLResourceStatus_zero), RespVersion 8,
          RespTTLResource (sampleRecord (- 9223372037) TTLResourceStatus_zero), RespVersion 9,
          RespOK, RespOK], []))
   = ([RespTTLResource (sampleRecord (- 9223372037) TTLResourceStatus_zero), RespVersion 9,
       RespOK, RespOK],
      [(CallGet KindTTLResource (''default'', ''ttl-web''), None),
       (CallStatusUpdate (sampleRecord (- 9223372037)
          \<lparr>Expired = False, CreatedAt = 1000 * Second,
           ExpiredAt = Some (1000 * Second + 9223372036709551616)\<rparr>), None)])
   \<and> ownerTarget (sampleRecord (- 5) createdStatus) = Some (KindPod, (''default'', ''web''))
   \<and> snd (TTLResourceReconciler_Reconcile scripted (''default'', ''ttl-web'') (1001 * Second)
        ([RespTTLResource (sampleRecord (- 5) createdStatus), RespVersion 8, RespVersion 9,
          RespOK, RespOK], []))
   = ([RespOK],
      [(CallGet KindTTLResource (''default'', ''ttl-web''), None),
       (CallStatusUpdate (sampleRecord (- 5)
          \<lparr>Expired = False, CreatedAt = 1000 * Second, ExpiredAt = Some (995 * Second)\<rparr>), None),
       (CallStatusUpdate
          ((setResourceVersion (sampleRecord (- 5)
              \<lparr>Expired = False, CreatedAt = 1000 * Second, ExpiredAt = Some (995 * Second)\<rparr>) 8)
           \<lparr>Status := \<lparr>Expired = True, CreatedAt = 1000 * Second,
                        ExpiredAt = Some (995 * Second)\<rparr>\<rparr>), None),
       (CallDelete KindTTLResource (''default'', ''ttl-web''), None)])"
  by (simp add: model_defs time_defs ops sample_defs ownerTarget_def)

text \<open>
  C9, amended. For a TTL from -9223372036 to -1 seconds the guard for 0 does not apply
  and the duration is the negative number of seconds, so that the computed \<open>expiredAt\<close>
  lies before \<open>createdAt\<close>. With a clock that is not behind the creation timestamp:
  \<open>reconcileTTLResource\<close>, on a record with no status yet, initialises the status and, in
  the same pass, reads the record again, marks it expired and sends the client the
  deletion of the owner target, if the resolver knows one, and then the deletion of the
  record, whose outcome it returns, NotFound counting as success (when the reads return
  the record under the same UID and the writes succeed); the TTLResourceReconciler, on
  the pass that finds \<open>createdAt\<close> set and \<open>expiredAt\<close> unset, writes \<open>expiredAt\<close>,
  marks the record expired and sends the deletion of the record alone.
\<close>

theorem negative_ttl_expires_at_once:
  assumes "- 9223372036 \<le> TTLSeconds (Spec t)" and "TTLSeconds (Spec t) < 0"
  shows "Duration_Seconds (TTLSeconds (Spec t)) = TTLSeconds (Spec t) * Second
       \<and> Time_Add c (Duration_Seconds (TTLSeconds (Spec t))) < c
       \<and> (CreatedAt (Status t) = 0 \<and> ExpiredAt (Status t) = None \<and> \<not> Expired (Status t)
            \<and> CreationTimestamp (Meta t) \<noteq> 0 \<and> CreationTimestamp (Meta t) \<le> now'
            \<and> client_Get r (keyOf t) w = (Inr t, w1)
            \<and> client_StatusUpdate r (initStatus t) w1 = (Inr rv, w2)
            \<and> client_Get r (keyOf t) w2 = (Inr latest, w3)
            \<and> UID (Meta latest) = UID (Meta t) \<and> \<not> Expired (Status latest)
            \<and> client_StatusUpdate r (latest\<lparr>Status := (Status latest)\<lparr>Expired := True\<rparr>\<rparr>) w3
                 = (Inr rv', w4)
            \<and> ownerTarget latest = Some (k, key)
            \<and> client_Delete r k key w4 = (o1, w5)
            \<and> client_Delete r KindTTLResource (keyOf latest) w5 = (o2, w6) \<longrightarrow>
            ExpiredAt (Status (initStatus t))
              = Some (CreationTimestamp (Meta t) + TTLSeconds (Spec t) * Second)
            \<and> reconcileTTLResource r t now now' (w, l)
                 = ((Result_zero, if o2 = Some NotFound then None else o2),
                    (w6, l @ [(CallGet KindTTLResource (keyOf t), None),
                              (CallStatusUpdate (initStatus t), None),
                              (CallGet KindTTLResource (keyOf t), None),
                              (CallStatusUpdate
                                 (latest\<lparr>Status := (Status latest)\<lparr>Expired := True\<rparr>\<rparr>), None),
                              (CallDelete k key, o1),
                              (CallDelete KindTTLResource (keyOf latest), o2)])))
       \<and> (CreatedAt (Status t) = 0 \<and> ExpiredAt (Status t) = None \<and> \<not> Expired (Status t)
            \<and> CreationTimestamp (Meta t) \<noteq> 0 \<and> CreationTimestamp (Meta t) \<le> now'
            \<and> client_Get r (keyOf t) w = (Inr t, w1)
            \<and> client_StatusUpdate r (initStatus t) w1 = (Inr rv, w2)
            \<and> client_Get r (keyOf t) w2 = (Inr latest, w3)
            \<and> UID (Meta latest) = UID (Meta t) \<and> \<not> Expired (Status latest)
            \<and> client_StatusUpdate r (latest\<lparr>Status := (Status latest)\<lparr>Expired := True\<rparr>\<rparr>) w3
                 = (Inr rv', w4)
            \<and> ownerTarget latest = None
            \<and> client_Delete r KindTTLResource (keyOf latest) w4 = (o2, w5) \<longrightarrow>
            ExpiredAt (Status (initStatus t))
              = Some (CreationTimestamp (Meta t) + TTLSeconds (Spec t) * Second)
            \<and> reconcileTTLResource r t now now' (w, l)
                 = ((Result_zero, if o2 = Some NotFound then None else o2),
                    (w5, l @ [(CallGet KindTTLResource (keyOf t), None),
                              (CallStatusUpdate (initStatus t), None),
                              (CallGet KindTTLResource (keyOf t), None),
                              (CallStatusUpdate
                                 (latest\<lparr>Status := (Status latest)\<lparr>Expired := True\<rparr>\<rparr>), None),
                              (CallDelete KindTTLResource (keyOf latest), o2)])))
       \<and> (CreatedAt (Status t) \<noteq> 0 \<and> ExpiredAt (Status t) = None \<and> \<not> Expired (Status t)
            \<and> CreatedAt (Status t) \<le> now
            \<and> t1 = t\<lparr>Status := (Status t)\<lparr>ExpiredAt :=
                      Some (Time_Add (CreatedAt (Status t)) (Duration_Seconds (TTLSeconds (Spec t))))\<rparr>\<rparr>
            \<and> t2 = (setResourceVersion t1 rv)\<lparr>Status := (Status t1)\<lparr>Expired := True\<rparr>\<rparr>
            \<and> client_Get r req w = (Inr t, w1)
            \<and> client_StatusUpdate r t1 w1 = (Inr rv, w2)
            \<and> client_StatusUpdate r t2 w2 = (Inr rv', w3)
            \<and> client_Delete r KindTTLResource (keyOf t) w3 = (out, w4) \<longrightarrow>
            TTLResourceReconciler_Reconcile r req now (w, l)
              = ((Result_zero, out),
                 (w4, l @ [(CallGet KindTTLResource req, None),
                           (CallStatusUpdate t1, None),
                           (CallStatusUpdate t2, None),
                           (CallDelete KindTTLResource (keyOf t), out)])))"
proof -
  let ?x = "latest\<lparr>Status := (Status latest)\<lparr>Expired := True\<rparr>\<rparr>"
  let ?l4 = "l @ [(CallGet KindTTLResource (keyOf t), None),
                  (CallStatusUpdate (initStatus t), None),
                  (CallGet KindTTLResource (keyOf t), None),
                  (CallStatusUpdate ?x, None)]"
  have d: "Duration_Seconds (TTLSeconds (Spec t)) = TTLSeconds (Spec t) * Second"
    using assms by (intro Duration_Seconds_exact) simp_all
  have neg: "Duration_Seconds (TTLSeconds (Spec t)) < 0"
    using assms by (simp add: d Second_def)
  have before: "Time_Add c (Duration_Seconds (TTLSeconds (Spec t))) < c" for c
    using neg by (simp add: Time_Add_def)
  have nz: "TTLSeconds (Spec t) \<noteq> 0" using assms by simp
  have marked: "ExpiredAt (Status (initStatus t))
              = Some (CreationTimestamp (Meta t) + TTLSeconds (Spec t) * Second)
            \<and> reconcileTTLResource r t now now' (w, l)
                 = deleteExpiredResources r (setResourceVersion ?x rv') (w4, ?l4)"
    if h: "CreatedAt (Status t) = 0 \<and> ExpiredAt (Status t) = None \<and> \<not> Expired (Status t)
            \<and> CreationTimestamp (Meta t) \<noteq> 0 \<and> CreationTimestamp (Meta t) \<le> now'
            \<and> client_Get r (keyOf t) w = (Inr t, w1)
            \<and> client_StatusUpdate r (initStatus t) w1 = (Inr rv, w2)
            \<and> client_Get r (keyOf t) w2 = (Inr latest, w3)
            \<and> UID (Meta latest) = UID (Meta t) \<and> \<not> Expired (Status latest)
            \<and> client_StatusUpdate r ?x w3 = (Inr rv', w4)"
    for w1 w2 w3 w4
  proof -
    let ?e = "Time_Add (CreationTimestamp (Meta t)) (Duration_Seconds (TTLSeconds (Spec t)))"
    let ?cur = "setResourceVersion (initStatus t) rv"
    let ?l2 = "l @ [(CallGet KindTTLResource (keyOf t), None), (CallStatusUpdate (initStatus t), None)]"
    have f: "initStatus t
           = t\<lparr>Status := (Status t)\<lparr>CreatedAt := CreationTimestamp (Meta t), ExpiredAt := Some ?e\<rparr>\<rparr>"
      using h by (intro initStatus_fresh) simp_all
    have st: "ExpiredAt (Status (initStatus t)) = Some ?e" "\<not> Expired (Status (initStatus t))"
      "keyOf (initStatus t) = keyOf t" "UID (Meta (initStatus t)) = UID (Meta t)"
      using h by (simp_all add: f keyOf_def)
    have due: "\<not> Time_Before now' ?e"
      using before [of "CreationTimestamp (Meta t)"] h by (simp add: Time_Before_def)
    have step1: "reconcileTTLResource r t now now' (w, l) = checkExpiry r ?cur now' (w2, ?l2)"
      using nz h by (simp add: reconcileTTLResource_def updateStatusIfNeeded_unfold ops)
    have step2: "checkExpiry r ?cur now' (w2, ?l2)
                   = deleteExpiredResources r (setResourceVersion ?x rv') (w4, ?l4)"
      using h due by (simp add: checkExpiry_def st ops Let_def)
    have e: "ExpiredAt (Status (initStatus t))
              = Some (CreationTimestamp (Meta t) + TTLSeconds (Spec t) * Second)"
      by (simp add: f d Time_Add_def)
    show ?thesis
      by (simp add: e step1 step2)
  qed
  have part3a: "ExpiredAt (Status (initStatus t))
              = Some (CreationTimestamp (Meta t) + TTLSeconds (Spec t) * Second)
            \<and> reconcileTTLResource r t now now' (w, l)
                 = ((Result_zero, if o2 = Some NotFound then None else o2),
                    (w6, l @ [(CallGet KindTTLResource (keyOf t), None),
                              (CallStatusUpdate (initStatus t), None),
                              (CallGet KindTTLResource (keyOf t), None),
                              (CallStatusUpdate ?x, None),
                              (CallDelete k key, o1),
                              (CallDelete KindTTLResource (keyOf latest), o2)]))"
    if h: "CreatedAt (Status t) = 0 \<and> ExpiredAt (Status t) = None \<and> \<not> Expired (Status t)
            \<and> CreationTimestamp (Meta t) \<noteq> 0 \<and> CreationTimestamp (Meta t) \<le> now'
            \<and> client_Get r (keyOf t) w = (Inr t, w1)
            \<and> client_StatusUpdate r (initStatus t) w1 = (Inr rv, w2)
            \<and> client_Get r (keyOf t) w2 = (Inr latest, w3)
            \<and> UID (Meta latest) = UID (Meta t) \<and> \<not> Expired (Status latest)
            \<and> client_StatusUpdate r ?x w3 = (Inr rv', w4)
            \<and> ownerTarget latest = Some (k, key)
            \<and> client_Delete r k key w4 = (o1, w5)
            \<and> client_Delete r KindTTLResource (keyOf latest) w5 = (o2, w6)"
  proof -
    have m: "ExpiredAt (Status (initStatus t))
              = Some (CreationTimestamp (Meta t) + TTLSeconds (Spec t) * Second)
            \<and> reconcileTTLResource r t now now' (w, l)
                 = deleteExpiredResources r (setResourceVersion ?x rv') (w4, ?l4)"
      using h by (intro marked [of w1 w2 w3 w4]) simp
    show ?thesis
      using h m deleteExpiredResources_with_owner
              [of "setResourceVersion ?x rv'" k key r w4 o1 w5 o2 w6 ?l4]
      by simp
  qed
  have part3b: "ExpiredAt (Status (initStatus t))
              = Some (CreationTimestamp (Meta t) + TTLSeconds (Spec t) * Second)
            \<and> reconcileTTLResource r t now now' (w, l)
                 = ((Result_zero, if o2 = Some NotFound then None else o2),
                    (w5, l @ [(CallGet KindTTLResource (keyOf t), None),
                              (CallStatusUpdate (initStatus t), None),
                              (CallGet KindTTLResource (keyOf t), None),
                              (CallStatusUpdate ?x, None),
                              (CallDelete KindTTLResource (keyOf latest), o2)]))"
    if h: "CreatedAt (Status t) = 0 \<and> ExpiredAt (Status t) = None \<and> \<not> Expired (Status t)
            \<and> CreationTimestamp (Meta t) \<noteq> 0 \<and> CreationTimestamp (Meta t) \<le> now'
            \<and> client_Get r (keyOf t) w = (Inr t, w1)
            \<and> client_StatusUpdate r (initStatus t) w1 = (Inr rv, w2)
            \<and> client_Get r (keyOf t) w2 = (Inr latest, w3)
            \<and> UID (Meta latest) = UID (Meta t) \<and> \<not> Expired (Status latest)
            \<and> client_StatusUpdate r ?x w3 = (Inr rv', w4)
            \<and> ownerTarget latest = None
            \<and> client_Delete r KindTTLResource (keyOf latest) w4 = (o2, w5)"
  proof -
    have m: "ExpiredAt (Status (initStatus t))
              = Some (CreationTimestamp (Meta t) + TTLSeconds (Spec t) * Second)
            \<and> reconcileTTLResource r t now now' (w, l)
                 = deleteExpiredResources r (setResourceVersion ?x rv') (w4, ?l4)"
      using h by (intro marked [of w1 w2 w3 w4]) simp
    show ?thesis
      using h m deleteExpiredResources_without_owner
              [of "setResourceVersion ?x rv'" r w4 o2 w5 ?l4]
      by simp
  qed
  have part4: "TTLResourceReconciler_Reconcile r req now (w, l)
              = ((Result_zero, out),
                 (w4, l @ [(CallGet KindTTLResource req, None),
                           (CallStatusUpdate t1, None),
                           (CallStatusUpdate t2, None),
                           (CallDelete KindTTLResource (keyOf t), out)]))"
    if h: "CreatedAt (Status t) \<noteq> 0 \<and> ExpiredAt (Status t) = None \<and> \<not> Expired (Status t)
            \<and> CreatedAt (Status t) \<le> now
            \<and> t1 = t\<lparr>Status := (Status t)\<lparr>ExpiredAt :=
                      Some (Time_Add (CreatedAt (Status t)) (Duration_Seconds (TTLSeconds (Spec t))))\<rparr>\<rparr>
            \<and> t2 = (setResourceVersion t1 rv)\<lparr>Status := (Status t1)\<lparr>Expired := True\<rparr>\<rparr>
            \<and> client_Get r req w = (Inr t, w1)
            \<and> client_StatusUpdate r t1 w1 = (Inr rv, w2)
            \<and> client_StatusUpdate r t2 w2 = (Inr rv', w3)
            \<and> client_Delete r KindTTLResource (keyOf t) w3 = (out, w4)"
  proof -
    let ?e = "Time_Add (CreatedAt (Status t)) (Duration_Seconds (TTLSeconds (Spec t)))"
    let ?l2 = "l @ [(CallGet KindTTLResource req, None), (CallStatusUpdate t1, None)]"
    have after: "Time_After now ?e"
      using before [of "CreatedAt (Status t)"] h by (simp add: Time_After_def)
    have k: "keyOf (setResourceVersion t2 rv') = keyOf t"
      using h by (simp add: keyOf_def setResourceVersion_def)
    have step1: "TTLResourceReconciler_Reconcile r req now (w, l)
                   = expireOrRequeue r (setResourceVersion t1 rv) ?e now (w2, ?l2)"
      using nz h by (clarsimp simp: TTLResourceReconciler_Reconcile_def ops Time_IsZero_def Let_def)
    have step2: "expireOrRequeue r (setResourceVersion t1 rv) ?e now (w2, ?l2)
                   = ((Result_zero, out),
                      (w4, ?l2 @ [(CallStatusUpdate t2, None),
                                  (CallDelete KindTTLResource (keyOf t), out)]))"
      using h after k
      by (cases out) (clarsimp simp: expireOrRequeue_def ops Let_def)+
    show ?thesis by (simp add: step1 step2)
  qed
  show ?thesis
    using d before [of c] part3a part3b part4 by blast
qed

theorem negative_ttl_expires_at_once_witness:
  "- 9223372036 \<le> TTLSeconds (Spec (sampleRecord (- 5) TTLResourceStatus_zero))
   \<and> TTLSeconds (Spec (sampleRecord (- 5) TTLResourceStatus_zero)) < 0
   \<and> Duration_Seconds (- 5) = - 5 * Second
   \<and> Time_Add (1000 * Second) (Duration_Seconds (- 5)) < 1000 * Second
   \<and> initStatus (sampleRecord (- 5) TTLResourceStatus_zero)
        = sampleRecord (- 5) \<lparr>Expired = False, CreatedAt = 1000 * Second, ExpiredAt = Some (995 * Second)\<rparr>
   \<and> reconcileTTLResource scripted (sampleRecord (- 5) TTLResourceStatus_zero)
        (1001 * Second) (1002 * Second)
        ([RespTTLResource (sampleRecord (- 5) TTLResourceStatus_zero), RespVersion 8,
          RespTTLResource (initStatus (sampleRecord (- 5) TTLResourceStatus_zero)), RespVersion 9,
          RespError NotFound, RespOK], [])
      = ((Result_zero, None),
         ([], [(CallGet KindTTLResource (''default'', ''ttl-web''), None),
               (CallStatusUpdate (sampleRecord (- 5)
                  \<lparr>Expired = False, CreatedAt = 1000 * Second, ExpiredAt = Some (995 * Second)\<rparr>), None),
               (CallGet KindTTLResource (''default'', ''ttl-web''), None),
               (CallStatusUpdate (sampleRecord (- 5)
                  \<lparr>Expired = True, CreatedAt = 1000 * Second, ExpiredAt = Some (995 * Second)\<rparr>), None),
               (CallDelete KindPod (''default'', ''web''), Some NotFound),
               (CallDelete KindTTLResource (''default'', ''ttl-web''), None)]))
   \<and> reconcileTTLResource scripted (standaloneRecord (- 5) TTLResourceStatus_zero)
        (1001 * Second) (1002 * Second)
        ([RespTTLResource (standaloneRecord (- 5) TTLResourceStatus_zero), RespVersion 8,
          RespTTLResource (initStatus (standaloneRecord (- 5) TTLResourceStatus_zero)),
          RespVersion 9, RespOK], [])
      = ((Result_zero, None),
         ([], [(CallGet KindTTLResource (''default'', ''ttl-web''), None),
               (CallStatusUpdate (standaloneRecord (- 5)
                  \<lparr>Expired = False, CreatedAt = 1000 * Second, ExpiredAt = Some (995 * Second)\<rparr>), None),
               (CallGet KindTTLResource (''default'', ''ttl-web''), None),
               (CallStatusUpdate (standaloneRecord (- 5)
                  \<lparr>Expired = True, CreatedAt = 1000 * Second, ExpiredAt = Some (995 * Second)\<rparr>), None),
               (CallDelete KindTTLResource (''default'', ''ttl-web''), None)]))
   \<and> TTLResourceReconciler_Reconcile scripted (''default'', ''ttl-web'') (1001 * Second)
        ([RespTTLResource (sampleRecord (- 5) createdStatus), RespVersion 8, RespVersion 9, RespOK], [])
      = ((Result_zero, None),
         ([], [(CallGet KindTTLResource (''default'', ''ttl-web''), None),
               (CallStatusUpdate (sampleRecord (- 5)
                  \<lparr>Expired = False, CreatedAt = 1000 * Second, ExpiredAt = Some (995 * Second)\<rparr>), None),
               (CallStatusUpdate
                  ((setResourceVersion (sampleRecord (- 5)
                      \<lparr>Expired = False, CreatedAt = 1000 * Second, ExpiredAt = Some (995 * Second)\<rparr>) 8)
                   \<lparr>Status := \<lparr>Expired = True, CreatedAt = 1000 * Second,
                                ExpiredAt = Some (995 * Second)\<rparr>\<rparr>), None),
               (CallDelete KindTTLResource (''default'', ''ttl-web''), None)]))"
proof -
  let ?t = "sampleRecord (- 5) TTLResourceStatus_zero"
  let ?b = "standaloneRecord (- 5) TTLResourceStatus_zero"
  let ?c = "sampleRecord (- 5) createdStatus"
  let ?i = "sampleRecord (- 5) \<lparr>Expired = False, CreatedAt = 1000 * Second, ExpiredAt = Some (995 * Second)\<rparr>"
  let ?x = "sampleRecord (- 5) \<lparr>Expired = True, CreatedAt = 1000 * Second, ExpiredAt = Some (995 * Second)\<rparr>"
  let ?bi = "standaloneRecord (- 5) \<lparr>Expired = False, CreatedAt = 1000 * Second, ExpiredAt = Some (995 * Second)\<rparr>"
  let ?bx = "standaloneRecord (- 5) \<lparr>Expired = True, CreatedAt = 1000 * Second, ExpiredAt = Some (995 * Second)\<rparr>"
  let ?w = "[RespTTLResource ?t, RespVersion 8, RespTTLResource (initStatus ?t), RespVersion 9,
             RespError NotFound, RespOK]"
  let ?wb = "[RespTTLResource ?b, RespVersion 8, RespTTLResource (initStatus ?b), RespVersion 9,
              RespOK]"
  have a: "- 9223372036 \<le> TTLSeconds (Spec ?t)" by (simp add: sample_defs)
  have b: "TTLSeconds (Spec ?t) < 0" by (simp add: sample_defs)
  have a': "- 9223372036 \<le> TTLSeconds (Spec ?c)" by (simp add: sample_defs)
  have b': "TTLSeconds (Spec ?c) < 0" by (simp add: sample_defs)
  have a'': "- 9223372036 \<le> TTLSeconds (Spec ?b)" by (simp add: sample_defs)
  have b'': "TTLSeconds (Spec ?b) < 0" by (simp add: sample_defs)
  have ttl: "TTLSeconds (Spec ?t) = - 5" by (simp add: sample_defs)
  have i: "initStatus ?t = ?i" "initStatus ?b = ?bi"
    by (simp_all add: model_defs time_defs sample_defs)
  have k: "keyOf ?t = (''default'', ''ttl-web'')" "keyOf ?i = (''default'', ''ttl-web'')"
    "keyOf ?c = (''default'', ''ttl-web'')" "keyOf ?b = (''default'', ''ttl-web'')"
    "keyOf ?bi = (''default'', ''ttl-web'')"
    by (simp_all add: keyOf_def sample_defs)
  have o: "ownerTarget ?i = Some (KindPod, (''default'', ''web''))" "ownerTarget ?bi = None"
    by (simp_all add: ownerTarget_def ParseGroupVersion_def resolveKind_def sample_defs)
  have x: "?i\<lparr>Status := (Status ?i)\<lparr>Expired := True\<rparr>\<rparr> = ?x"
    "?bi\<lparr>Status := (Status ?bi)\<lparr>Expired := True\<rparr>\<rparr> = ?bx"
    by (simp_all add: sample_defs)
  note T = negative_ttl_expires_at_once [OF a b]
  note T' = negative_ttl_expires_at_once [OF a' b']
  note T'' = negative_ttl_expires_at_once [OF a'' b'']
  have r1: "Duration_Seconds (- 5) = - 5 * Second"
    using T [THEN conjunct1] by (simp add: ttl)
  have r2: "Time_Add (1000 * Second) (Duration_Seconds (- 5)) < 1000 * Second"
    using T [THEN conjunct2, THEN conjunct1, of "1000 * Second"] by (simp add: ttl)
  have r3: "reconcileTTLResource scripted ?t (1001 * Second) (1002 * Second) (?w, [])
         = ((Result_zero, None),
            ([], [(CallGet KindTTLResource (''default'', ''ttl-web''), None),
                  (CallStatusUpdate ?i, None),
                  (CallGet KindTTLResource (''default'', ''ttl-web''), None),
                  (CallStatusUpdate ?x, None),
                  (CallDelete KindPod (''default'', ''web''), Some NotFound),
                  (CallDelete KindTTLResource (''default'', ''ttl-web''), None)]))"
  proof -
    have f: "CreatedAt (Status ?t) = 0" "ExpiredAt (Status ?t) = None" "\<not> Expired (Status ?t)"
      "CreationTimestamp (Meta ?t) \<noteq> 0" "CreationTimestamp (Meta ?t) \<le> 1002 * Second"
      "UID (Meta ?i) = UID (Meta ?t)" "\<not> Expired (Status ?i)"
      by (simp_all add: sampleRecord_def sampleMeta_def TTLResourceStatus_zero_def Second_def)
    have p: "CreatedAt (Status ?t) = 0 \<and> ExpiredAt (Status ?t) = None \<and> \<not> Expired (Status ?t)
        \<and> CreationTimestamp (Meta ?t) \<noteq> 0 \<and> CreationTimestamp (Meta ?t) \<le> 1002 * Second
        \<and> client_Get scripted (keyOf ?t) ?w
             = (Inr ?t, [RespVersion 8, RespTTLResource (initStatus ?t), RespVersion 9,
                         RespError NotFound, RespOK])
        \<and> client_StatusUpdate scripted (initStatus ?t)
             [RespVersion 8, RespTTLResource (initStatus ?t), RespVersion 9, RespError NotFound, RespOK]
             = (Inr 8, [RespTTLResource (initStatus ?t), RespVersion 9, RespError NotFound, RespOK])
        \<and> client_Get scripted (keyOf ?t)
             [RespTTLResource (initStatus ?t), RespVersion 9, RespError NotFound, RespOK]
             = (Inr ?i, [RespVersion 9, RespError NotFound, RespOK])
        \<and> UID (Meta ?i) = UID (Meta ?t) \<and> \<not> Expired (Status ?i)
        \<and> client_StatusUpdate scripted (?i\<lparr>Status := (Status ?i)\<lparr>Expired := True\<rparr>\<rparr>)
             [RespVersion 9, RespError NotFound, RespOK] = (Inr 9, [RespError NotFound, RespOK])
        \<and> ownerTarget ?i = Some (KindPod, (''default'', ''web''))
        \<and> client_Delete scripted KindPod (''default'', ''web'') [RespError NotFound, RespOK]
             = (Some NotFound, [RespOK])
        \<and> client_Delete scripted KindTTLResource (keyOf ?i) [RespOK] = (None, [])"
      using f o by (simp add: i scripted_def)
    show ?thesis
      using T [THEN conjunct2, THEN conjunct2, THEN conjunct1, rule_format, OF p, THEN conjunct2,
            of "1001 * Second" "[]"]
      by (simp add: i k x)
  qed
  have r3b: "reconcileTTLResource scripted ?b (1001 * Second) (1002 * Second) (?wb, [])
         = ((Result_zero, None),
            ([], [(CallGet KindTTLResource (''default'', ''ttl-web''), None),
                  (CallStatusUpdate ?bi, None),
                  (CallGet KindTTLResource (''default'', ''ttl-web''), None),
                  (CallStatusUpdate ?bx, None),
                  (CallDelete KindTTLResource (''default'', ''ttl-web''), None)]))"
  proof -
    have f: "CreatedAt (Status ?b) = 0" "ExpiredAt (Status ?b) = None" "\<not> Expired (Status ?b)"
      "CreationTimestamp (Meta ?b) \<noteq> 0" "CreationTimestamp (Meta ?b) \<le> 1002 * Second"
      "UID (Meta ?bi) = UID (Meta ?b)" "\<not> Expired (Status ?bi)"
      by (simp_all add: standaloneRecord_def sampleMeta_def TTLResourceStatus_zero_def Second_def)
    have p: "CreatedAt (Status ?b) = 0 \<and> ExpiredAt (Status ?b) = None \<and> \<not> Expired (Status ?b)
        \<and> CreationTimestamp (Meta ?b) \<noteq> 0 \<and> CreationTimestamp (Meta ?b) \<le> 1002 * Second
        \<and> client_Get scripted (keyOf ?b) ?wb
             = (Inr ?b, [RespVersion 8, RespTTLResource (initStatus ?b), RespVersion 9, RespOK])
        \<and> client_StatusUpdate scripted (initStatus ?b)
             [RespVersion 8, RespTTLResource (initStatus ?b), RespVersion 9, RespOK]
             = (Inr 8, [RespTTLResource (initStatus ?b), RespVersion 9, RespOK])
        \<and> client_Get scripted (keyOf ?b) [RespTTLResource (initStatus ?b), RespVersion 9, RespOK]
             = (Inr ?bi, [RespVersion 9, RespOK])
        \<and> UID (Meta ?bi) = UID (Meta ?b) \<and> \<not> Expired (Status ?bi)
        \<and> client_StatusUpdate scripted (?bi\<lparr>Status := (Status ?bi)\<lparr>Expired := True\<rparr>\<rparr>)
             [RespVersion 9, RespOK] = (Inr 9, [RespOK])
        \<and> ownerTarget ?bi = None
        \<and> client_Delete scripted KindTTLResource (keyOf ?bi) [RespOK] = (None, [])"
      using f o by (simp add: i scripted_def)
    show ?thesis
      using T'' [THEN conjunct2, THEN conjunct2, THEN conjunct2, THEN conjunct1, rule_format, OF p,
            THEN conjunct2, of "1001 * Second" "[]"]
      by (simp add: i k x)
  qed
  let ?t1 = "?c\<lparr>Status := (Status ?c)\<lparr>ExpiredAt :=
                 Some (Time_Add (CreatedAt (Status ?c)) (Duration_Seconds (TTLSeconds (Spec ?c))))\<rparr>\<rparr>"
  let ?t2 = "(setResourceVersion ?t1 8)\<lparr>Status := (Status ?t1)\<lparr>Expired := True\<rparr>\<rparr>"
  have q: "CreatedAt (Status ?c) \<noteq> 0 \<and> ExpiredAt (Status ?c) = None \<and> \<not> Expired (Status ?c)
      \<and> CreatedAt (Status ?c) \<le> 1001 * Second
      \<and> ?t1 = ?t1 \<and> ?t2 = ?t2
      \<and> client_Get scripted (''default'', ''ttl-web'')
           [RespTTLResource ?c, RespVersion 8, RespVersion 9, RespOK]
           = (Inr ?c, [RespVersion 8, RespVersion 9, RespOK])
      \<and> client_StatusUpdate scripted ?t1 [RespVersion 8, RespVersion 9, RespOK]
           = (Inr 8, [RespVersion 9, RespOK])
      \<and> client_StatusUpdate scripted ?t2 [RespVersion 9, RespOK] = (Inr 9, [RespOK])
      \<and> client_Delete scripted KindTTLResource (keyOf ?c) [RespOK] = (None, [])"
    by (simp add: scripted_def sampleRecord_def createdStatus_def Second_def)
  have e1: "?t1 = ?i"
    by (simp add: sample_defs time_defs)
  have r4: "TTLResourceReconciler_Reconcile scripted (''default'', ''ttl-web'') (1001 * Second)
        ([RespTTLResource ?c, RespVersion 8, RespVersion 9, RespOK], [])
      = ((Result_zero, None),
         ([], [(CallGet KindTTLResource (''default'', ''ttl-web''), None),
               (CallStatusUpdate ?i, None),
               (CallStatusUpdate
                  ((setResourceVersion ?i 8)
                   \<lparr>Status := \<lparr>Expired = True, CreatedAt = 1000 * Second,
                                ExpiredAt = Some (995 * Second)\<rparr>\<rparr>), None),
               (CallDelete KindTTLResource (''default'', ''ttl-web''), None)]))"
    using T' [THEN conjunct2, THEN conjunct2, THEN conjunct2, THEN conjunct2, rule_format, OF q,
          of "[]"]
    by (simp add: e1 k) (simp add: sample_defs)
  show ?thesis
    using a b r1 r2 i(1) r3 r3b r4 by blast
qed

subsection \<open>An already expired record\<close>

text \<open>
  C10, as the claim states it, fails on records it covers (marked expired, \<open>expiredAt\<close>
  set at second 1060, TTL of 60 seconds). Read at second 1010, before \<open>expiredAt\<close>, the
  record makes the TTLResourceReconciler return a delay of 50 seconds, which is positive.
  With \<open>createdAt\<close> unset, the TTLResourceReconciler writes \<open>createdAt\<close> and returns a
  plain requeue, or the failure of that write, instead of a delay. And when the second
  read of the ResourceReconciler returns the record created again under another UID, the
  ResourceReconciler returns success and requests no deletion at all.
\<close>

theorem expired_record_requeued_or_spared:
  "TTLResourceReconciler_Reconcile scripted (''default'', ''ttl-web'') (1010 * Second)
      ([RespTTLResource (sampleRecord 60 expiredStatus)], [])
   = ((\<lparr>Requeue = False, RequeueAfter = 50 * Second\<rparr>, None),
      ([], [(CallGet KindTTLResource (''default'', ''ttl-web''), None)]))
   \<and> TTLResourceReconciler_Reconcile scripted (''default'', ''ttl-web'') (2000 * Second)
      ([RespTTLResource (sampleRecord 60
          \<lparr>Expired = True, CreatedAt = 0, ExpiredAt = Some (1060 * Second)\<rparr>), RespVersion 8], [])
   = ((\<lparr>Requeue = True, RequeueAfter = 0\<rparr>, None),
      ([], [(CallGet KindTTLResource (''default'', ''ttl-web''), None),
            (CallStatusUpdate (sampleRecord 60
               \<lparr>Expired = True, CreatedAt = 1000 * Second, ExpiredAt = Some (1060 * Second)\<rparr>),
             None)]))
   \<and> TTLResourceReconciler_Reconcile scripted (''default'', ''ttl-web'') (2000 * Second)
      ([RespTTLResource (sampleRecord 60
          \<lparr>Expired = True, CreatedAt = 0, ExpiredAt = Some (1060 * Second)\<rparr>),
        RespError Conflict], [])
   = ((Result_zero, Some Conflict),
      ([], [(CallGet KindTTLResource (''default'', ''ttl-web''), None),
            (CallStatusUpdate (sampleRecord 60
               \<lparr>Expired = True, CreatedAt = 1000 * Second, ExpiredAt = Some (1060 * Second)\<rparr>),
             Some Conflict)]))
   \<and> ResourceReconciler_Reconcile scripted (''default'', ''ttl-web'') (2000 * Second) (2001 * Second)
      ([RespTTLResource (sampleRecord 60 expiredStatus), RespTTLResource (recreatedRecord 60),
        RespOK, RespOK], [])
   = ((Result_zero, None),
      ([RespOK, RespOK],
       [(CallGet KindTTLResource (''default'', ''ttl-web''), None),
        (CallGet KindTTLResource (''default'', ''ttl-web''), None)]))"
  by (simp add: model_defs time_defs ops sample_defs recreatedRecord_def)

text \<open>
  C10, amended. For a record marked expired, with \<open>expiredAt = e\<close> and a positive TTL,
  that the reconciler's read returns: the TTLResourceReconciler never requests a deletion;
  when \<open>createdAt\<close> is set it issues no request but the read and returns success with the
  delay \<^verbatim>\<open>e.Sub(now)\<close>, which is not positive once \<open>e\<close> has come. The ResourceReconciler,
  for the same record with \<open>createdAt\<close> set, reads the record again and, when that read
  returns a record with the same UID, sends the client the deletion of the owner target,
  if the resolver knows one, and then the deletion of the record, and returns the outcome
  of the record's deletion, NotFound counting as success.
\<close>

theorem reconcilers_diverge_on_expired_record:
  assumes "Expired (Status t)" and "ExpiredAt (Status t) = Some e"
    and "0 < TTLSeconds (Spec t)" and "client_Get r req w = (Inr t, w1)"
  shows "list_all (\<lambda>ev. \<not> isDelete ev)
           (snd (snd (TTLResourceReconciler_Reconcile r req now (w, []))))
       \<and> (CreatedAt (Status t) \<noteq> 0 \<longrightarrow>
            TTLResourceReconciler_Reconcile r req now (w, l)
              = ((Result_zero\<lparr>RequeueAfter := Time_Sub e now\<rparr>, None),
                 (w1, l @ [(CallGet KindTTLResource req, None)])))
       \<and> (e \<le> now \<longrightarrow> Time_Sub e now \<le> 0)
       \<and> (CreatedAt (Status t) \<noteq> 0 \<and> client_Get r (keyOf t) w1 = (Inr latest, w2)
            \<and> UID (Meta latest) = UID (Meta t)
            \<and> ownerTarget latest = Some (k, key)
            \<and> client_Delete r k key w2 = (o1, w3)
            \<and> client_Delete r KindTTLResource (keyOf latest) w3 = (o2, w4) \<longrightarrow>
            ResourceReconciler_Reconcile r req now now' (w, l)
              = ((Result_zero, if o2 = Some NotFound then None else o2),
                 (w4, l @ [(CallGet KindTTLResource req, None),
                           (CallGet KindTTLResource (keyOf t), None),
                           (CallDelete k key, o1),
                           (CallDelete KindTTLResource (keyOf latest), o2)])))
       \<and> (CreatedAt (Status t) \<noteq> 0 \<and> client_Get r (keyOf t) w1 = (Inr latest, w2)
            \<and> UID (Meta latest) = UID (Meta t)
            \<and> ownerTarget latest = None
            \<and> client_Delete r KindTTLResource (keyOf latest) w2 = (o2, w3) \<longrightarrow>
            ResourceReconciler_Reconcile r req now now' (w, l)
              = ((Result_zero, if o2 = Some NotFound then None else o2),
                 (w3, l @ [(CallGet KindTTLResource req, None),
                           (CallGet KindTTLResource (keyOf t), None),
                           (CallDelete KindTTLResource (keyOf latest), o2)])))"
proof (intro conjI impI)
  show "list_all (\<lambda>ev. \<not> isDelete ev)
           (snd (snd (TTLResourceReconciler_Reconcile r req now (w, []))))"
  proof (cases "CreatedAt (Status t) = 0")
    case True
    then show ?thesis using assms
      by (auto simp: TTLResourceReconciler_Reconcile_def ops Time_IsZero_def Let_def isDelete_def
          split: prod.splits sum.splits)
  next
    case False
    then show ?thesis using assms
      by (simp add: TTLResourceReconciler_Reconcile_def r_Get_def errorOf_def Time_IsZero_def
            expireOrRequeue_expired isDelete_def)
  qed
next
  assume "CreatedAt (Status t) \<noteq> 0"
  then show "TTLResourceReconciler_Reconcile r req now (w, l)
              = ((Result_zero\<lparr>RequeueAfter := Time_Sub e now\<rparr>, None),
                 (w1, l @ [(CallGet KindTTLResource req, None)]))"
    using assms
    by (simp add: TTLResourceReconciler_Reconcile_def r_Get_def errorOf_def Time_IsZero_def
          expireOrRequeue_expired)
next
  assume "e \<le> now"
  then show "Time_Sub e now \<le> 0"
    by (simp add: Time_Sub_def maxDuration_def minDuration_def)
next
  let ?l2 = "l @ [(CallGet KindTTLResource req, None), (CallGet KindTTLResource (keyOf t), None)]"
  assume h: "CreatedAt (Status t) \<noteq> 0 \<and> client_Get r (keyOf t) w1 = (Inr latest, w2)
            \<and> UID (Meta latest) = UID (Meta t)
            \<and> ownerTarget latest = Some (k, key)
            \<and> client_Delete r k key w2 = (o1, w3)
            \<and> client_Delete r KindTTLResource (keyOf latest) w3 = (o2, w4)"
  have i: "TTLSeconds (Spec t) \<noteq> 0" "ExpiredAt (Status t) \<noteq> None"
    using assms by simp_all
  have ri: "reconcileTTLResource r t now now' s = checkExpiry r t now s" for s
    using h by (intro reconcileTTLResource_initialised [OF i(1) _ i(2)]) simp
  have red: "ResourceReconciler_Reconcile r req now now' (w, l)
               = deleteExpiredResources r latest (w2, ?l2)"
    using assms h
    by (simp add: ResourceReconciler_Reconcile_def ri checkExpiry_def r_Get_def errorOf_def)
  show "ResourceReconciler_Reconcile r req now now' (w, l)
              = ((Result_zero, if o2 = Some NotFound then None else o2),
                 (w4, l @ [(CallGet KindTTLResource req, None),
                           (CallGet KindTTLResource (keyOf t), None),
                           (CallDelete k key, o1),
                           (CallDelete KindTTLResource (keyOf latest), o2)]))"
    using h deleteExpiredResources_with_owner [of latest k key r w2 o1 w3 o2 w4 ?l2]
    by (simp add: red)
next
  let ?l2 = "l @ [(CallGet KindTTLResource req, None), (CallGet KindTTLResource (keyOf t), None)]"
  assume h: "CreatedAt (Status t) \<noteq> 0 \<and> client_Get r (keyOf t) w1 = (Inr latest, w2)
            \<and> UID (Meta latest) = UID (Meta t)
            \<and> ownerTarget latest = None
            \<and> client_Delete r KindTTLResource (keyOf latest) w2 = (o2, w3)"
  have i: "TTLSeconds (Spec t) \<noteq> 0" "ExpiredAt (Status t) \<noteq> None"
    using assms by simp_all
  have ri: "reconcileTTLResource r t now now' s = checkExpiry r t now s" for s
    using h by (intro reconcileTTLResource_initialised [OF i(1) _ i(2)]) simp
  have red: "ResourceReconciler_Reconcile r req now now' (w, l)
               = deleteExpiredResources r latest (w2, ?l2)"
    using assms h
    by (simp add: ResourceReconciler_Reconcile_def ri checkExpiry_def r_Get_def errorOf_def)
  show "ResourceReconciler_Reconcile r req now now' (w, l)
              = ((Result_zero, if o2 = Some NotFound then None else o2),
                 (w3, l @ [(CallGet KindTTLResource req, None),
                           (CallGet KindTTLResource (keyOf t), None),
                           (CallDelete KindTTLResource (keyOf latest), o2)]))"
    using h deleteExpiredResources_without_owner [of latest r w2 o2 w3 ?l2]
    by (simp add: red)
qed

theorem reconcilers_diverge_on_expired_record_witness:
  "Expired (Status (sampleRecord 60 expiredStatus))
   \<and> ExpiredAt (Status (sampleRecord 60 expiredStatus)) = Some (1060 * Second)
   \<and> 0 < TTLSeconds (Spec (sampleRecord 60 expiredStatus))
   \<and> client_Get scripted (''default'', ''ttl-web'')
        [RespTTLResource (sampleRecord 60 expiredStatus),
         RespTTLResource (sampleRecord 60 expiredStatus), RespOK, RespOK]
      = (Inr (sampleRecord 60 expiredStatus),
         [RespTTLResource (sampleRecord 60 expiredStatus), RespOK, RespOK])
   \<and> CreatedAt (Status (sampleRecord 60 expiredStatus)) \<noteq> 0
   \<and> list_all (\<lambda>ev. \<not> isDelete ev)
        (snd (snd (TTLResourceReconciler_Reconcile scripted (''default'', ''ttl-web'') (2000 * Second)
           ([RespTTLResource (sampleRecord 60 expiredStatus),
             RespTTLResource (sampleRecord 60 expiredStatus), RespOK, RespOK], []))))
   \<and> TTLResourceReconciler_Reconcile scripted (''default'', ''ttl-web'') (2000 * Second)
        ([RespTTLResource (sampleRecord 60 expiredStatus),
          RespTTLResource (sampleRecord 60 expiredStatus), RespOK, RespOK], [])
      = ((Result_zero\<lparr>RequeueAfter := Time_Sub (1060 * Second) (2000 * Second)\<rparr>, None),
         ([RespTTLResource (sampleRecord 60 expiredStatus), RespOK, RespOK],
          [(CallGet KindTTLResource (''default'', ''ttl-web''), None)]))
   \<and> Time_Sub (1060 * Second) (2000 * Second) \<le> 0
   \<and> ResourceReconciler_Reconcile scripted (''default'', ''ttl-web'')
        (2000 * Second) (2001 * Second)
        ([RespTTLResource (sampleRecord 60 expiredStatus),
          RespTTLResource (sampleRecord 60 expiredStatus), RespOK, RespOK], [])
      = ((Result_zero, None),
         ([], [(CallGet KindTTLResource (''default'', ''ttl-web''), None),
               (CallGet KindTTLResource (''default'', ''ttl-web''), None),
               (CallDelete KindPod (''default'', ''web''), None),
               (CallDelete KindTTLResource (''default'', ''ttl-web''), None)]))
   \<and> ResourceReconciler_Reconcile scripted (''default'', ''ttl-web'')
        (2000 * Second) (2001 * Second)
        ([RespTTLResource (standaloneRecord 60 expiredStatus),
          RespTTLResource (standaloneRecord 60 expiredStatus), RespError OtherError], [])
      = ((Result_zero, Some OtherError),
         ([], [(CallGet KindTTLResource (''default'', ''ttl-web''), None),
               (CallGet KindTTLResource (''default'', ''ttl-web''), None),
               (CallDelete KindTTLResource (''default'', ''ttl-web''), Some OtherError)]))"
proof -
  let ?t = "sampleRecord 60 expiredStatus"
  let ?b = "standaloneRecord 60 expiredStatus"
  let ?w = "[RespTTLResource ?t, RespTTLResource ?t, RespOK, RespOK]"
  let ?wb = "[RespTTLResource ?b, RespTTLResource ?b, RespError OtherError]"
  have a: "Expired (Status ?t)" by (simp add: sample_defs)
  have b: "ExpiredAt (Status ?t) = Some (1060 * Second)" by (simp add: sample_defs)
  have c: "0 < TTLSeconds (Spec ?t)" by (simp add: sample_defs)
  have g: "client_Get scripted (''default'', ''ttl-web'') ?w
             = (Inr ?t, [RespTTLResource ?t, RespOK, RespOK])"
    by (simp add: scripted_def)
  have a2: "Expired (Status ?b)" by (simp add: sample_defs)
  have b2: "ExpiredAt (Status ?b) = Some (1060 * Second)" by (simp add: sample_defs)
  have c2: "0 < TTLSeconds (Spec ?b)" by (simp add: sample_defs)
  have g2: "client_Get scripted (''default'', ''ttl-web'') ?wb
             = (Inr ?b, [RespTTLResource ?b, RespError OtherError])"
    by (simp add: scripted_def)
  have n: "CreatedAt (Status ?t) \<noteq> 0" by (simp add: sample_defs Second_def)
  have k: "keyOf ?t = (''default'', ''ttl-web'')" "keyOf ?b = (''default'', ''ttl-web'')"
    by (simp_all add: keyOf_def sample_defs)
  have le: "1060 * Second \<le> 2000 * Second" by (simp add: Second_def)
  note T = reconcilers_diverge_on_expired_record [OF a b c g]
  note T2 = reconcilers_diverge_on_expired_record [OF a2 b2 c2 g2]
  have r1: "list_all (\<lambda>ev. \<not> isDelete ev)
        (snd (snd (TTLResourceReconciler_Reconcile scripted (''default'', ''ttl-web'') (2000 * Second)
           (?w, []))))"
    by (rule T [THEN conjunct1])
  have r2: "TTLResourceReconciler_Reconcile scripted (''default'', ''ttl-web'') (2000 * Second) (?w, [])
      = ((Result_zero\<lparr>RequeueAfter := Time_Sub (1060 * Second) (2000 * Second)\<rparr>, None),
         ([RespTTLResource ?t, RespOK, RespOK],
          [(CallGet KindTTLResource (''default'', ''ttl-web''), None)]))"
    using T [THEN conjunct2, THEN conjunct1, rule_format, OF n, of "2000 * Second" "[]"] by simp
  have r3: "Time_Sub (1060 * Second) (2000 * Second) \<le> 0"
    by (rule T [THEN conjunct2, THEN conjunct2, THEN conjunct1, rule_format, OF le])
  have r4: "ResourceReconciler_Reconcile scripted (''default'', ''ttl-web'')
           (2000 * Second) (2001 * Second) (?w, [])
         = ((Result_zero, None),
            ([], [(CallGet KindTTLResource (''default'', ''ttl-web''), None),
                  (CallGet KindTTLResource (''default'', ''ttl-web''), None),
                  (CallDelete KindPod (''default'', ''web''), None),
                  (CallDelete KindTTLResource (''default'', ''ttl-web''), None)]))"
  proof -
    have p: "CreatedAt (Status ?t) \<noteq> 0
        \<and> client_Get scripted (keyOf ?t) [RespTTLResource ?t, RespOK, RespOK]
            = (Inr ?t, [RespOK, RespOK])
        \<and> UID (Meta ?t) = UID (Meta ?t)
        \<and> ownerTarget ?t = Some (KindPod, (''default'', ''web''))
        \<and> client_Delete scripted KindPod (''default'', ''web'') [RespOK, RespOK] = (None, [RespOK])
        \<and> client_Delete scripted KindTTLResource (keyOf ?t) [RespOK] = (None, [])"
      using n
      by (simp add: scripted_def ownerTarget_def ParseGroupVersion_def resolveKind_def sample_defs)
    show ?thesis
      by (subst T [THEN conjunct2, THEN conjunct2, THEN conjunct2, THEN conjunct1, rule_format,
                   OF p])
         (simp add: k)
  qed
  have r5: "ResourceReconciler_Reconcile scripted (''default'', ''ttl-web'')
           (2000 * Second) (2001 * Second) (?wb, [])
         = ((Result_zero, Some OtherError),
            ([], [(CallGet KindTTLResource (''default'', ''ttl-web''), None),
                  (CallGet KindTTLResource (''default'', ''ttl-web''), None),
                  (CallDelete KindTTLResource (''default'', ''ttl-web''), Some OtherError)]))"
  proof -
    have p: "CreatedAt (Status ?b) \<noteq> 0
        \<and> client_Get scripted (keyOf ?b) [RespTTLResource ?b, RespError OtherError]
            = (Inr ?b, [RespError OtherError])
        \<and> UID (Meta ?b) = UID (Meta ?b)
        \<and> ownerTarget ?b = None
        \<and> client_Delete scripted KindTTLResource (keyOf ?b) [RespError OtherError]
            = (Some OtherError, [])"
      by (simp add: scripted_def ownerTarget_def sample_defs Second_def)
    show ?thesis
      by (subst T2 [THEN conjunct2, THEN conjunct2, THEN conjunct2, THEN conjunct2, rule_format,
                    OF p])
         (simp add: k)
  qed
  show ?thesis
    using a b c g n r1 r2 r3 r4 r5 by blast
qed

end
